theory Spec2Isabelle
  imports Main "HOL-Library.Product_Lexorder"
begin

section \<open>Python values shared by the modules\<close>

text \<open>
  Exceptions are values. Each constructor is a Python exception class raised somewhere
  on the paths modelled below; the argument is the text that \<open>str(e)\<close> gives
  (for a pydantic \<open>ValidationError\<close>: the names of the offending fields).
\<close>

datatype py_error =
    ValidationError "string list"
  | ValueError string
  | TypeError string
  | KeyError string
  | AttributeError string
  | OSError string
  | RuntimeError string
  | SQLAlchemyError string

fun str_of_error :: "py_error \<Rightarrow> string" where
  "str_of_error (ValidationError fs) = concat fs"
| "str_of_error (ValueError m) = m"
| "str_of_error (TypeError m) = m"
| "str_of_error (KeyError m) = m"
| "str_of_error (AttributeError m) = m"
| "str_of_error (OSError m) = m"
| "str_of_error (RuntimeError m) = m"
| "str_of_error (SQLAlchemyError m) = m"

text \<open>\<open>class LogLevel(str, Enum)\<close>, the same in every module.\<close>

datatype LogLevel = DEBUG | INFO | WARNING | ERROR | CRITICAL

fun LogLevel_value :: "LogLevel \<Rightarrow> string" where
  "LogLevel_value DEBUG = ''DEBUG''"
| "LogLevel_value INFO = ''INFO''"
| "LogLevel_value WARNING = ''WARNING''"
| "LogLevel_value ERROR = ''ERROR''"
| "LogLevel_value CRITICAL = ''CRITICAL''"

text \<open>
  A Python \<open>str\<close> is modelled as a \<open>string\<close> whose characters are the code points
  below 256; \<open>length\<close> is Python's \<open>len\<close>.

  \<open>str.isspace\<close> on those code points: TAB, LF, VT, FF, CR, the four separators
  FS GS RS US, the space, NEL and the no-break space. \<open>str.strip()\<close> removes the
  longest prefix and the longest suffix of such characters.
\<close>

definition py_isspace :: "char \<Rightarrow> bool" where
  "py_isspace c = ((of_char c :: nat) \<in> {9, 10, 11, 12, 13, 28, 29, 30, 31, 32, 133, 160})"

definition py_strip :: "string \<Rightarrow> string" where
  "py_strip s = rev (dropWhile py_isspace (rev (dropWhile py_isspace s)))"

section \<open>Structured values and \<open>json.dumps\<close>\<close>

text \<open>
  The values a caller may put into \<open>extra_data: Dict[str, Any]\<close>: \<open>None\<close>, booleans,
  integers, strings, lists, tuples, and dictionaries (an association list in insertion
  order, keys distinct, as Python's \<open>dict\<close>). The key of a dictionary is a string, an
  integer, a boolean or \<open>None\<close>: the keys \<open>json.dumps\<close> accepts. \<open>JOpaque s\<close>
  stands for any object the \<open>json\<close> module has no encoding for (a \<open>set\<close>, a
  \<open>datetime\<close>, an exception object, ...); \<open>s\<close> is what \<open>str\<close> gives for it.
  Floats, as values and as keys, are not modelled, and neither is a dictionary with a
  key of any other type, which \<open>json.dumps\<close> refuses.
\<close>

datatype jkey =
    KStr string
  | KInt int
  | KBool bool
  | KNone

datatype json =
    JNull
  | JBool bool
  | JInt int
  | JStr string
  | JList "json list"
  | JTuple "json list"
  | JDict "(jkey \<times> json) list"
  | JOpaque string

text \<open>
  A dictionary all of whose keys are strings (\<open>Dict[str, Any]\<close>) is kept as an
  association list on strings; \<open>json_object\<close> is the value it is, and
  \<open>object_fields\<close> reads such a dictionary off a value.
\<close>

definition json_object :: "(string \<times> json) list \<Rightarrow> json" where
  "json_object d = JDict (map (\<lambda>kv. (KStr (fst kv), snd kv)) d)"

fun str_key :: "jkey \<Rightarrow> string option" where
  "str_key (KStr s) = Some s"
| "str_key (KInt i) = None"
| "str_key (KBool b) = None"
| "str_key KNone = None"

fun str_keyed :: "(jkey \<times> json) list \<Rightarrow> (string \<times> json) list option" where
  "str_keyed [] = Some []"
| "str_keyed (kv # kvs) =
     (case str_key (fst kv) of
        None \<Rightarrow> None
      | Some k \<Rightarrow> map_option ((#) (k, snd kv)) (str_keyed kvs))"

fun object_fields :: "json \<Rightarrow> (string \<times> json) list option" where
  "object_fields (JDict kvs) = str_keyed kvs"
| "object_fields JNull = None"
| "object_fields (JBool b) = None"
| "object_fields (JInt i) = None"
| "object_fields (JStr s) = None"
| "object_fields (JList xs) = None"
| "object_fields (JTuple xs) = None"
| "object_fields (JOpaque s) = None"

text \<open>\<open>d[k] = v\<close>: an existing key keeps its position, a new key goes last.\<close>

fun dict_set :: "'k \<Rightarrow> 'v \<Rightarrow> ('k \<times> 'v) list \<Rightarrow> ('k \<times> 'v) list" where
  "dict_set k v [] = [(k, v)]"
| "dict_set k v ((k', v') # d) = (if k' = k then (k, v) # d else (k', v') # dict_set k v d)"

text \<open>\<open>d.update(e)\<close>: \<open>d[k] = v\<close> for every item of \<open>e\<close>, in order.\<close>

fun dict_update :: "('k \<times> 'v) list \<Rightarrow> ('k \<times> 'v) list \<Rightarrow> ('k \<times> 'v) list" where
  "dict_update d [] = d"
| "dict_update d ((k, v) # e) = dict_update (dict_set k v d) e"

text \<open>\<open>d.get(k)\<close>.\<close>

definition dict_get :: "('k \<times> 'v) list \<Rightarrow> 'k \<Rightarrow> 'v option" where
  "dict_get d k = map_of d k"

subsection \<open>Decimal numerals\<close>

definition digit_char :: "nat \<Rightarrow> char" where
  "digit_char n = char_of (48 + n)"

function show_nat :: "nat \<Rightarrow> string" where
  "show_nat n = (if n < 10 then [digit_char n] else show_nat (n div 10) @ [digit_char (n mod 10)])"
  by pat_completeness auto
termination
  by (relation "measure id") auto

declare show_nat.simps [simp del]

definition show_int :: "int \<Rightarrow> string" where
  "show_int i = (if i < 0 then CHR ''-'' # show_nat (nat (- i)) else show_nat (nat i))"

text \<open>\<open>'%0wd' % n\<close>: zero-padded to width \<open>w\<close>.\<close>

definition zero_pad :: "nat \<Rightarrow> nat \<Rightarrow> string" where
  "zero_pad w n = replicate (w - length (show_nat n)) (CHR ''0'') @ show_nat n"

subsection \<open>String literals\<close>

text \<open>
  The encoder's escapes: the quote, the backslash and the five short escapes; every
  other control character as \<open>\u00XX\<close> (lower-case hex); with \<open>ensure_ascii\<close> (the
  default of \<open>json.dumps\<close>) every character outside space..tilde as well.
\<close>

definition hex_digit :: "nat \<Rightarrow> char" where
  "hex_digit n = (if n < 10 then char_of (48 + n) else char_of (87 + n))"

definition escape_u :: "char \<Rightarrow> string" where
  "escape_u c = [CHR 0x5C, CHR ''u'', CHR ''0'', CHR ''0'',
                 hex_digit ((of_char c :: nat) div 16), hex_digit ((of_char c :: nat) mod 16)]"

definition escape_char :: "bool \<Rightarrow> char \<Rightarrow> string" where
  "escape_char ensure_ascii c =
     (if c = CHR 0x22 then [CHR 0x5C, CHR 0x22]
      else if c = CHR 0x5C then [CHR 0x5C, CHR 0x5C]
      else if c = CHR 0x0A then [CHR 0x5C, CHR ''n'']
      else if c = CHR 0x0D then [CHR 0x5C, CHR ''r'']
      else if c = CHR 0x09 then [CHR 0x5C, CHR ''t'']
      else if c = CHR 0x08 then [CHR 0x5C, CHR ''b'']
      else if c = CHR 0x0C then [CHR 0x5C, CHR ''f'']
      else if (of_char c :: nat) < 32 \<or> (ensure_ascii \<and> (of_char c :: nat) > 126)
           then escape_u c
      else [c])"

definition enc_str :: "bool \<Rightarrow> string \<Rightarrow> string" where
  "enc_str ensure_ascii s = CHR 0x22 # concat (map (escape_char ensure_ascii) s) @ [CHR 0x22]"

subsection \<open>Documents\<close>

text \<open>
  The encoder with the default separators \<open>', '\<close> and \<open>': '\<close>. A tuple is
  written as a list is. A key that is not a string is written as the string the encoder
  makes of it: the decimal numeral of an integer, \<open>true\<close>, \<open>false\<close>, \<open>null\<close>. The
  text of an opaque value is never produced: \<open>json_dumps\<close> raises before.
\<close>

fun key_text :: "jkey \<Rightarrow> string" where
  "key_text (KStr s) = s"
| "key_text (KInt i) = show_int i"
| "key_text (KBool b) = (if b then ''true'' else ''false'')"
| "key_text KNone = ''null''"

fun enc :: "bool \<Rightarrow> json \<Rightarrow> string"
  and enc_items :: "bool \<Rightarrow> json list \<Rightarrow> string"
  and enc_members :: "bool \<Rightarrow> (jkey \<times> json) list \<Rightarrow> string" where
  "enc ea JNull = ''null''"
| "enc ea (JBool b) = (if b then ''true'' else ''false'')"
| "enc ea (JInt i) = show_int i"
| "enc ea (JStr s) = enc_str ea s"
| "enc ea (JList xs) = CHR ''['' # enc_items ea xs @ '']''"
| "enc ea (JTuple xs) = CHR ''['' # enc_items ea xs @ '']''"
| "enc ea (JDict kvs) = CHR ''{'' # enc_members ea kvs @ ''}''"
| "enc ea (JOpaque s) = []"
| "enc_items ea [] = []"
| "enc_items ea (x # xs) =
     (if xs = [] then enc ea x else enc ea x @ '', '' @ enc_items ea xs)"
| "enc_members ea [] = []"
| "enc_members ea (kv # kvs) =
     (if kvs = [] then enc_str ea (key_text (fst kv)) @ '': '' @ enc ea (snd kv)
      else enc_str ea (key_text (fst kv)) @ '': '' @ enc ea (snd kv) @ '', '' @ enc_members ea kvs)"

fun serializable :: "json \<Rightarrow> bool"
  and serializable_items :: "json list \<Rightarrow> bool"
  and serializable_members :: "(jkey \<times> json) list \<Rightarrow> bool" where
  "serializable JNull = True"
| "serializable (JBool b) = True"
| "serializable (JInt i) = True"
| "serializable (JStr s) = True"
| "serializable (JList xs) = serializable_items xs"
| "serializable (JTuple xs) = serializable_items xs"
| "serializable (JDict kvs) = serializable_members kvs"
| "serializable (JOpaque s) = False"
| "serializable_items [] = True"
| "serializable_items (x # xs) = (serializable x \<and> serializable_items xs)"
| "serializable_members [] = True"
| "serializable_members (kv # kvs) = (serializable (snd kv) \<and> serializable_members kvs)"

text \<open>
  \<open>json.dumps(v, ensure_ascii=...)\<close>: a \<open>TypeError\<close> for a value with no encoding.
\<close>

definition json_dumps :: "bool \<Rightarrow> json \<Rightarrow> py_error + string" where
  "json_dumps ensure_ascii v =
     (if serializable v then Inr (enc ensure_ascii v)
      else Inl (TypeError ''Object is not JSON serializable''))"

text \<open>
  \<open>json.dumps(v, default=str)\<close>: a value with no encoding is replaced by its \<open>str\<close>.
\<close>

fun stringify :: "json \<Rightarrow> json"
  and stringify_items :: "json list \<Rightarrow> json list"
  and stringify_members :: "(jkey \<times> json) list \<Rightarrow> (jkey \<times> json) list" where
  "stringify JNull = JNull"
| "stringify (JBool b) = JBool b"
| "stringify (JInt i) = JInt i"
| "stringify (JStr s) = JStr s"
| "stringify (JList xs) = JList (stringify_items xs)"
| "stringify (JTuple xs) = JTuple (stringify_items xs)"
| "stringify (JDict kvs) = JDict (stringify_members kvs)"
| "stringify (JOpaque s) = JStr s"
| "stringify_items [] = []"
| "stringify_items (x # xs) = stringify x # stringify_items xs"
| "stringify_members [] = []"
| "stringify_members (kv # kvs) = (fst kv, stringify (snd kv)) # stringify_members kvs"

definition json_dumps_default_str :: "json \<Rightarrow> string" where
  "json_dumps_default_str v = enc True (stringify v)"

subsection \<open>Naive datetimes\<close>

text \<open>
  A naive \<open>datetime\<close>: year, month, day, hour, minute, second, microsecond. Python
  compares two of them field by field in this order, which is the lexicographic order
  of the tuple. \<open>isoformat()\<close> omits the fraction when the microsecond is 0.
\<close>

type_synonym datetime = "nat \<times> nat \<times> nat \<times> nat \<times> nat \<times> nat \<times> nat"

fun isoformat :: "datetime \<Rightarrow> string" where
  "isoformat (y, mo, d, h, mi, s, us) =
     zero_pad 4 y @ ''-'' @ zero_pad 2 mo @ ''-'' @ zero_pad 2 d @ ''T''
     @ zero_pad 2 h @ '':'' @ zero_pad 2 mi @ '':'' @ zero_pad 2 s
     @ (if us = 0 then [] else ''.'' @ zero_pad 6 us)"

section \<open>\<open>json.loads\<close>\<close>

text \<open>
  The decoder, as a recursive-descent parser over the text: white space between tokens,
  the literals, integers, strings with their escapes, arrays and objects. An array is
  read as a list, and an object as a dictionary with string keys, built by assigning
  the members in their order: a key that occurs again keeps its place and takes the
  later value. The parser accepts every text the encoder produces (and some texts the
  library refuses, such as a raw control character inside a string). Code points above
  255 are outside the model of strings: an escape \<open>\uXXXX\<close> above \<open>\u00ff\<close> is
  refused.
\<close>

definition is_ws :: "char \<Rightarrow> bool" where
  "is_ws c = (c = CHR '' '' \<or> c = CHR 0x09 \<or> c = CHR 0x0A \<or> c = CHR 0x0D)"

definition skip_ws :: "string \<Rightarrow> string" where
  "skip_ws s = dropWhile is_ws s"

definition is_digit :: "char \<Rightarrow> bool" where
  "is_digit c = (48 \<le> (of_char c :: nat) \<and> (of_char c :: nat) \<le> 57)"

definition digit_val :: "char \<Rightarrow> nat" where
  "digit_val c = (of_char c :: nat) - 48"

fun read_digits :: "nat \<Rightarrow> string \<Rightarrow> nat \<times> string" where
  "read_digits acc [] = (acc, [])"
| "read_digits acc (c # cs) =
     (if is_digit c then read_digits (10 * acc + digit_val c) cs else (acc, c # cs))"

text \<open>A rest of the text that does not continue a number.\<close>

definition ok_tail :: "string \<Rightarrow> bool" where
  "ok_tail r = (case r of [] \<Rightarrow> True | c # cs \<Rightarrow> \<not> is_digit c)"

definition parse_int :: "string \<Rightarrow> (int \<times> string) option" where
  "parse_int s =
     (case s of
        [] \<Rightarrow> None
      | c # cs \<Rightarrow>
          if c = CHR ''-''
          then (case cs of
                  [] \<Rightarrow> None
                | d # ds \<Rightarrow> if is_digit d
                            then (case read_digits 0 cs of (n, r) \<Rightarrow> Some (- int n, r))
                            else None)
          else if is_digit c
          then (case read_digits 0 s of (n, r) \<Rightarrow> Some (int n, r))
          else None)"

definition hex_val :: "char \<Rightarrow> nat option" where
  "hex_val c =
     (let n = (of_char c :: nat)
      in if 48 \<le> n \<and> n \<le> 57 then Some (n - 48)
         else if 97 \<le> n \<and> n \<le> 102 then Some (n - 87)
         else if 65 \<le> n \<and> n \<le> 70 then Some (n - 55)
         else None)"

definition hex4 :: "char \<Rightarrow> char \<Rightarrow> char \<Rightarrow> char \<Rightarrow> char option" where
  "hex4 a b c d =
     (case (hex_val a, hex_val b, hex_val c, hex_val d) of
        (Some va, Some vb, Some vc, Some vd) \<Rightarrow>
          (let n = ((va * 16 + vb) * 16 + vc) * 16 + vd
           in if n < 256 then Some (char_of n) else None)
      | _ \<Rightarrow> None)"

definition unescape :: "char \<Rightarrow> char option" where
  "unescape e =
     (if e = CHR 0x22 then Some (CHR 0x22)
      else if e = CHR 0x5C then Some (CHR 0x5C)
      else if e = CHR ''/'' then Some (CHR ''/'')
      else if e = CHR ''n'' then Some (CHR 0x0A)
      else if e = CHR ''r'' then Some (CHR 0x0D)
      else if e = CHR ''t'' then Some (CHR 0x09)
      else if e = CHR ''b'' then Some (CHR 0x08)
      else if e = CHR ''f'' then Some (CHR 0x0C)
      else None)"

text \<open>The body of a string literal, after the opening quote, up to the closing quote.\<close>

fun parse_str_body :: "string \<Rightarrow> (string \<times> string) option" where
  "parse_str_body [] = None"
| "parse_str_body (c # cs) =
     (if c = CHR 0x22 then Some ([], cs)
      else if c = CHR 0x5C
      then (case cs of
              [] \<Rightarrow> None
            | e # r \<Rightarrow>
                if e = CHR ''u''
                then (case r of
                        a # b # c2 # d # r' \<Rightarrow>
                          (case hex4 a b c2 d of
                             None \<Rightarrow> None
                           | Some ch \<Rightarrow> map_option (apfst ((#) ch)) (parse_str_body r'))
                      | _ \<Rightarrow> None)
                else (case unescape e of
                        None \<Rightarrow> None
                      | Some ch \<Rightarrow> map_option (apfst ((#) ch)) (parse_str_body r)))
      else map_option (apfst ((#) c)) (parse_str_body cs))"

text \<open>
  Values, the elements of an array after the bracket and the members of an object after
  the brace. The first argument bounds the depth of the recursion; \<open>json_loads\<close>
  starts with more than the text can need.
\<close>

fun parse_value :: "nat \<Rightarrow> string \<Rightarrow> (json \<times> string) option"
  and parse_items :: "nat \<Rightarrow> string \<Rightarrow> (json list \<times> string) option"
  and parse_members :: "nat \<Rightarrow> string \<Rightarrow> ((jkey \<times> json) list \<times> string) option" where
  "parse_value 0 s = None"
| "parse_value (Suc n) s =
     (case skip_ws s of
        [] \<Rightarrow> None
      | c # cs \<Rightarrow>
          if c = CHR ''n'' then (if take 3 cs = ''ull'' then Some (JNull, drop 3 cs) else None)
          else if c = CHR ''t'' then (if take 3 cs = ''rue'' then Some (JBool True, drop 3 cs) else None)
          else if c = CHR ''f'' then (if take 4 cs = ''alse'' then Some (JBool False, drop 4 cs) else None)
          else if c = CHR 0x22 then map_option (apfst JStr) (parse_str_body cs)
          else if c = CHR ''[''
          then (case skip_ws cs of
                  [] \<Rightarrow> None
                | c2 # r \<Rightarrow> if c2 = CHR '']'' then Some (JList [], r)
                            else map_option (apfst JList) (parse_items n cs))
          else if c = CHR ''{''
          then (case skip_ws cs of
                  [] \<Rightarrow> None
                | c2 # r \<Rightarrow> if c2 = CHR ''}'' then Some (JDict [], r)
                            else map_option (apfst (\<lambda>kvs. JDict (dict_update [] kvs)))
                                   (parse_members n cs))
          else map_option (apfst JInt) (parse_int (c # cs)))"
| "parse_items 0 s = None"
| "parse_items (Suc n) s =
     (case parse_value n s of
        None \<Rightarrow> None
      | Some (v, r) \<Rightarrow>
          (case skip_ws r of
             [] \<Rightarrow> None
           | c # r' \<Rightarrow>
               if c = CHR '','' then map_option (apfst ((#) v)) (parse_items n r')
               else if c = CHR '']'' then Some ([v], r')
               else None))"
| "parse_members 0 s = None"
| "parse_members (Suc n) s =
     (case skip_ws s of
        [] \<Rightarrow> None
      | q # cs \<Rightarrow>
          if q \<noteq> CHR 0x22 then None
          else (case parse_str_body cs of
                  None \<Rightarrow> None
                | Some (k, r1) \<Rightarrow>
                    (case skip_ws r1 of
                       [] \<Rightarrow> None
                     | c1 # r2 \<Rightarrow>
                         if c1 \<noteq> CHR '':'' then None
                         else (case parse_value n r2 of
                                 None \<Rightarrow> None
                               | Some (v, r3) \<Rightarrow>
                                   (case skip_ws r3 of
                                      [] \<Rightarrow> None
                                    | c2 # r4 \<Rightarrow>
                                        if c2 = CHR '','' then map_option (apfst ((#) (KStr k, v))) (parse_members n r4)
                                        else if c2 = CHR ''}'' then Some ([(KStr k, v)], r4)
                                        else None)))))"

definition json_loads :: "string \<Rightarrow> json option" where
  "json_loads s =
     (case parse_value (Suc (length s)) s of
        None \<Rightarrow> None
      | Some (v, r) \<Rightarrow> if skip_ws r = [] then Some v else None)"

subsection \<open>What the decoder makes of an encoded value\<close>

text \<open>
  The value that the text of a value denotes: every tuple has become a list, and every
  key of a dictionary the string the encoder wrote for it, a later member replacing the
  value of an earlier one with the same string.
\<close>

fun json_normal :: "json \<Rightarrow> json"
  and normal_items :: "json list \<Rightarrow> json list"
  and normal_members :: "(jkey \<times> json) list \<Rightarrow> (jkey \<times> json) list" where
  "json_normal JNull = JNull"
| "json_normal (JBool b) = JBool b"
| "json_normal (JInt i) = JInt i"
| "json_normal (JStr s) = JStr s"
| "json_normal (JList xs) = JList (normal_items xs)"
| "json_normal (JTuple xs) = JList (normal_items xs)"
| "json_normal (JDict kvs) = JDict (dict_update [] (normal_members kvs))"
| "json_normal (JOpaque s) = JOpaque s"
| "normal_items [] = []"
| "normal_items (x # xs) = json_normal x # normal_items xs"
| "normal_members [] = []"
| "normal_members (kv # kvs) = (KStr (key_text (fst kv)), json_normal (snd kv)) # normal_members kvs"

text \<open>
  The values of JSON itself, which the encoding loses nothing of: no tuple, and
  dictionaries with string keys only, inside lists and dictionaries as well. (The keys
  of a dictionary are distinct.)
\<close>

fun json_native :: "json \<Rightarrow> bool"
  and native_items :: "json list \<Rightarrow> bool"
  and native_members :: "(jkey \<times> json) list \<Rightarrow> bool" where
  "json_native JNull = True"
| "json_native (JBool b) = True"
| "json_native (JInt i) = True"
| "json_native (JStr s) = True"
| "json_native (JList xs) = native_items xs"
| "json_native (JTuple xs) = False"
| "json_native (JDict kvs) = (distinct (map fst kvs) \<and> native_members kvs)"
| "json_native (JOpaque s) = False"
| "native_items [] = True"
| "native_items (x # xs) = (json_native x \<and> native_items xs)"
| "native_members [] = True"
| "native_members (kv # kvs) = (str_key (fst kv) \<noteq> None \<and> json_native (snd kv) \<and> native_members kvs)"

section \<open>The standard \<open>logging\<close> library, as far as the modules use it\<close>

text \<open>
  A \<open>logging.LogRecord\<close>. \<open>rec_created\<close> is the instant the record was made
  (\<open>record.created\<close>; the library keeps it as seconds since the epoch, the model as
  the local date and time it denotes). \<open>rec_exc_info\<close> is the traceback text that
  \<open>formatException(record.exc_info)\<close> gives, when there is exception information.
  \<open>rec_extra_data\<close> is the attribute \<open>extra_data\<close> that a call with
  \<open>extra={'extra_data': d}\<close> sets (\<open>None\<close>: no such attribute); the modules
  that read it always set it to a dictionary with string keys. No module passes format
  arguments, so \<open>record.getMessage()\<close> is \<open>str(msg)\<close>.
\<close>

record LogRecord =
  rec_name :: string
  rec_levelno :: int
  rec_levelname :: string
  rec_msg :: string
  rec_module :: string
  rec_funcName :: string
  rec_lineno :: int
  rec_pathname :: string
  rec_created :: datetime
  rec_exc_info :: "string option"
  rec_extra_data :: "(string \<times> json) list option"

definition getMessage :: "LogRecord \<Rightarrow> string" where
  "getMessage r = rec_msg r"

definition getLevelName :: "int \<Rightarrow> string" where
  "getLevelName n =
     (if n = 50 then ''CRITICAL'' else if n = 40 then ''ERROR''
      else if n = 30 then ''WARNING'' else if n = 20 then ''INFO''
      else if n = 10 then ''DEBUG'' else if n = 0 then ''NOTSET''
      else ''Level '' @ show_int n)"

text \<open>\<open>getattr(logging, level.value)\<close> for a member of \<open>LogLevel\<close>.\<close>

fun logging_level :: "LogLevel \<Rightarrow> int" where
  "logging_level DEBUG = 10"
| "logging_level INFO = 20"
| "logging_level WARNING = 30"
| "logging_level ERROR = 40"
| "logging_level CRITICAL = 50"

subsection \<open>The formatters of the modules\<close>

text \<open>
  services/logger_service.py, \<open>LogFormatter.format\<close>. The timestamp is
  \<open>datetime.utcnow()\<close>, read when the record is rendered: the clock reading \<open>now\<close>
  is a parameter. \<open>svc_LogFormatter_log_entry\<close> is the dictionary handed to
  \<open>json.dumps(log_entry, ensure_ascii=False)\<close>.
\<close>

definition svc_LogFormatter_log_entry :: "datetime \<Rightarrow> LogRecord \<Rightarrow> (string \<times> json) list" where
  "svc_LogFormatter_log_entry now r =
     (let log_entry = [(''timestamp'', JStr (isoformat now)),
                       (''level'', JStr (rec_levelname r)),
                       (''logger'', JStr (rec_name r)),
                       (''message'', JStr (getMessage r)),
                       (''module'', JStr (rec_module r)),
                       (''function'', JStr (rec_funcName r)),
                       (''line'', JInt (rec_lineno r))];
          log_entry = (case rec_extra_data r of
                         None \<Rightarrow> log_entry
                       | Some extra_data \<Rightarrow> dict_update log_entry extra_data)
      in case rec_exc_info r of
           None \<Rightarrow> log_entry
         | Some tb \<Rightarrow> dict_set ''exception'' (JStr tb) log_entry)"

definition svc_LogFormatter_format :: "datetime \<Rightarrow> LogRecord \<Rightarrow> py_error + string" where
  "svc_LogFormatter_format now r = json_dumps False (json_object (svc_LogFormatter_log_entry now r))"

text \<open>
  api/logger_router.py, \<open>StructuredFormatter.format\<close>: the same dictionary, rendered
  by \<open>json.dumps(log_entry)\<close> (\<open>ensure_ascii\<close> at its default).
\<close>

definition router_StructuredFormatter_log_entry ::
  "datetime \<Rightarrow> LogRecord \<Rightarrow> (string \<times> json) list" where
  "router_StructuredFormatter_log_entry now r =
     (let log_entry = [(''timestamp'', JStr (isoformat now)),
                       (''level'', JStr (rec_levelname r)),
                       (''logger'', JStr (rec_name r)),
                       (''message'', JStr (getMessage r)),
                       (''module'', JStr (rec_module r)),
                       (''function'', JStr (rec_funcName r)),
                       (''line'', JInt (rec_lineno r))];
          log_entry = (case rec_extra_data r of
                         None \<Rightarrow> log_entry
                       | Some extra_data \<Rightarrow> dict_update log_entry extra_data)
      in case rec_exc_info r of
           None \<Rightarrow> log_entry
         | Some tb \<Rightarrow> dict_set ''exception'' (JStr tb) log_entry)"

definition router_StructuredFormatter_format :: "datetime \<Rightarrow> LogRecord \<Rightarrow> py_error + string" where
  "router_StructuredFormatter_format now r =
     json_dumps True (json_object (router_StructuredFormatter_log_entry now r))"

text \<open>
  models/logger.py, \<open>StructuredFormatter.format\<close>: the timestamp is the record's own
  \<open>created\<close>, the caller's fields are nested under the key \<open>extra_data\<close>, and the
  dictionary is rendered by \<open>json.dumps(log_data, default=str)\<close>.
\<close>

definition models_StructuredFormatter_log_data :: "LogRecord \<Rightarrow> (string \<times> json) list" where
  "models_StructuredFormatter_log_data r =
     (let log_data = [(''timestamp'', JStr (isoformat (rec_created r))),
                      (''level'', JStr (rec_levelname r)),
                      (''message'', JStr (getMessage r)),
                      (''module'', JStr (rec_module r)),
                      (''function'', JStr (rec_funcName r)),
                      (''line_number'', JInt (rec_lineno r)),
                      (''pathname'', JStr (rec_pathname r))]
      in case rec_extra_data r of
           None \<Rightarrow> log_data
         | Some extra_data \<Rightarrow> dict_set ''extra_data'' (json_object extra_data) log_data)"

definition models_StructuredFormatter_format :: "LogRecord \<Rightarrow> py_error + string" where
  "models_StructuredFormatter_format r =
     Inr (json_dumps_default_str (json_object (models_StructuredFormatter_log_data r)))"

text \<open>
  repositories/logger_repository.py configures the library's own \<open>logging.Formatter\<close>
  with \<open>'%(asctime)s - %(name)s - %(levelname)s - %(funcName)s:%(lineno)d - %(message)s'\<close>;
  \<open>asctime\<close> is \<open>YYYY-MM-DD HH:MM:SS,mmm\<close> of \<open>created\<close>, and the traceback
  text follows on a new line when there is one.
\<close>

fun asctime :: "datetime \<Rightarrow> string" where
  "asctime (y, mo, d, h, mi, s, us) =
     zero_pad 4 y @ ''-'' @ zero_pad 2 mo @ ''-'' @ zero_pad 2 d @ '' ''
     @ zero_pad 2 h @ '':'' @ zero_pad 2 mi @ '':'' @ zero_pad 2 s
     @ '','' @ zero_pad 3 (us div 1000)"

definition logging_Formatter_format :: "LogRecord \<Rightarrow> py_error + string" where
  "logging_Formatter_format r =
     (let s = asctime (rec_created r) @ '' - '' @ rec_name r @ '' - '' @ rec_levelname r
              @ '' - '' @ rec_funcName r @ '':'' @ show_int (rec_lineno r)
              @ '' - '' @ getMessage r
      in case rec_exc_info r of
           None \<Rightarrow> Inr s
         | Some tb \<Rightarrow> Inr ((if s \<noteq> [] \<and> last s = CHR 0x0A then s else s @ [CHR 0x0A]) @ tb))"

datatype formatter =
    PlainFormatter
  | SvcLogFormatter
  | RouterStructuredFormatter
  | ModelsStructuredFormatter

fun Formatter_format :: "formatter \<Rightarrow> datetime \<Rightarrow> LogRecord \<Rightarrow> py_error + string" where
  "Formatter_format PlainFormatter now r = logging_Formatter_format r"
| "Formatter_format SvcLogFormatter now r = svc_LogFormatter_format now r"
| "Formatter_format RouterStructuredFormatter now r = router_StructuredFormatter_format now r"
| "Formatter_format ModelsStructuredFormatter now r = models_StructuredFormatter_format r"

subsection \<open>Handlers and loggers\<close>

text \<open>
  What the environment supplies to one call of an emission method: the instant at which
  the record is made, the reading of \<open>datetime.utcnow()\<close> when a formatter renders
  it, the two readings of \<open>datetime.utcnow()\<close> taken by the default factories of
  \<open>timestamp\<close> and \<open>created_at\<close> when a row object is constructed, and the frame
  of the caller (what \<open>findCaller\<close> and \<open>inspect\<close> report).
\<close>

record call_ctx =
  ctx_created :: datetime
  ctx_now :: datetime
  ctx_timestamp :: datetime
  ctx_created_at :: datetime
  ctx_pathname :: string
  ctx_module :: string
  ctx_funcName :: string
  ctx_lineno :: int

text \<open>
  A sink: a \<open>StreamHandler\<close> or a \<open>FileHandler\<close>. \<open>h_stream\<close> names the
  destination, \<open>h_written\<close> is what has been written to it, one rendered record per
  element. \<open>Handler.handle\<close> drops a record below the handler's level; an exception
  raised while formatting is caught by the handler (\<open>handleError\<close>) and nothing is
  written.
\<close>

record Handler =
  h_stream :: string
  h_level :: int
  h_formatter :: formatter
  h_written :: "string list"

definition Handler_handle :: "datetime \<Rightarrow> LogRecord \<Rightarrow> Handler \<Rightarrow> Handler" where
  "Handler_handle now r h =
     (if rec_levelno r \<ge> h_level h
      then (case Formatter_format (h_formatter h) now r of
              Inl e \<Rightarrow> h
            | Inr text \<Rightarrow> h\<lparr>h_written := h_written h @ [text]\<rparr>)
      else h)"

text \<open>
  A \<open>logging.Logger\<close>. Its ancestors are taken to be unconfigured: a logger whose own
  level is \<open>NOTSET\<close> (0) has the root's default \<open>WARNING\<close> as effective level, and
  a record reaches the logger's own handlers only.
\<close>

record PyLogger =
  lg_level :: int
  lg_handlers :: "Handler list"
  lg_propagate :: bool

definition getEffectiveLevel :: "PyLogger \<Rightarrow> int" where
  "getEffectiveLevel lg = (if lg_level lg \<noteq> 0 then lg_level lg else 30)"

definition isEnabledFor :: "PyLogger \<Rightarrow> int \<Rightarrow> bool" where
  "isEnabledFor lg lvl = (lvl \<ge> getEffectiveLevel lg)"

text \<open>
  \<open>Logger.makeRecord\<close> refuses a key of \<open>extra\<close> that would overwrite an attribute
  of the record: \<open>KeyError\<close>.
\<close>

definition LogRecord_reserved :: "string list" where
  "LogRecord_reserved =
     [''message'', ''asctime'', ''name'', ''msg'', ''args'', ''levelname'', ''levelno'',
      ''pathname'', ''filename'', ''module'', ''exc_info'', ''exc_text'', ''stack_info'',
      ''lineno'', ''funcName'', ''created'', ''msecs'', ''relativeCreated'', ''thread'',
      ''threadName'', ''processName'', ''process'', ''taskName'']"

definition makeRecord ::
  "call_ctx \<Rightarrow> string \<Rightarrow> int \<Rightarrow> string \<Rightarrow> (string \<times> json) list \<Rightarrow> string option
     \<Rightarrow> py_error + LogRecord" where
  "makeRecord ctx nm lvl msg extra exc =
     (case find (\<lambda>k. k \<in> set LogRecord_reserved) (map fst extra) of
        Some k \<Rightarrow> Inl (KeyError (''Attempt to overwrite '' @ k @ '' in LogRecord''))
      | None \<Rightarrow>
          Inr \<lparr>rec_name = nm, rec_levelno = lvl, rec_levelname = getLevelName lvl,
               rec_msg = msg, rec_module = ctx_module ctx, rec_funcName = ctx_funcName ctx,
               rec_lineno = ctx_lineno ctx, rec_pathname = ctx_pathname ctx,
               rec_created = ctx_created ctx, rec_exc_info = exc,
               rec_extra_data = (case map_of extra ''extra_data'' of
                                   None \<Rightarrow> None
                                 | Some v \<Rightarrow> object_fields v)\<rparr>)"

text \<open>
  \<open>Logger.log(level, msg, extra=extra)\<close> (and \<open>debug\<close>, \<open>info\<close>, ... with their
  level): nothing at all happens unless the level is enabled; otherwise the record is
  made and handed to every handler in order.
\<close>

definition Logger_log ::
  "call_ctx \<Rightarrow> string \<Rightarrow> int \<Rightarrow> string \<Rightarrow> (string \<times> json) list \<Rightarrow> string option
     \<Rightarrow> PyLogger \<Rightarrow> py_error + PyLogger" where
  "Logger_log ctx nm lvl msg extra exc lg =
     (if isEnabledFor lg lvl
      then (case makeRecord ctx nm lvl msg extra exc of
              Inl e \<Rightarrow> Inl e
            | Inr r \<Rightarrow> Inr (lg\<lparr>lg_handlers := map (Handler_handle (ctx_now ctx) r) (lg_handlers lg)\<rparr>))
      else Inr lg)"

text \<open>
  The library's registry of loggers: \<open>logging.getLogger(name)\<close> returns the logger
  registered under the name, creating it (level \<open>NOTSET\<close>, no handler) on first use.
\<close>

type_synonym Manager = "string \<Rightarrow> PyLogger option"

definition new_PyLogger :: PyLogger where
  "new_PyLogger = \<lparr>lg_level = 0, lg_handlers = [], lg_propagate = True\<rparr>"

definition getLogger :: "Manager \<Rightarrow> string \<Rightarrow> PyLogger" where
  "getLogger mgr nm = (case mgr nm of Some lg \<Rightarrow> lg | None \<Rightarrow> new_PyLogger)"

text \<open>A record used to evaluate the formatters: level \<open>ERROR\<close>, message \<open>boom\<close>.\<close>

definition example_record :: "(string \<times> json) list option \<Rightarrow> LogRecord" where
  "example_record flds =
     \<lparr>rec_name = ''svc'', rec_levelno = 40, rec_levelname = ''ERROR'', rec_msg = ''boom'',
      rec_module = ''app'', rec_funcName = ''run'', rec_lineno = 7,
      rec_pathname = ''app.py'', rec_created = (2024, 1, 2, 3, 4, 5, 0),
      rec_exc_info = None, rec_extra_data = flds\<rparr>"

section \<open>repositories/logger_repository.py\<close>

subsection \<open>The table \<open>log_entries\<close> and the session\<close>

text \<open>A stored row: \<open>class LogEntry(SQLModel, table=True)\<close>, its \<open>id\<close> assigned.\<close>

record LogEntry =
  le_id :: int
  le_timestamp :: datetime
  le_level :: LogLevel
  le_message :: string
  le_module :: "string option"
  le_function :: "string option"
  le_line_number :: "int option"
  le_extra_data :: "string option"
  le_created_at :: datetime
  le_updated_at :: "datetime option"

record repo_LogEntryCreate =
  rc_level :: LogLevel
  rc_message :: string
  rc_module :: "string option"
  rc_function :: "string option"
  rc_line_number :: "int option"
  rc_extra_data :: "(string \<times> json) list option"

text \<open>
  \<open>LogEntryUpdate\<close>: every field may be unset (\<open>None\<close>), set to \<open>None\<close>
  (\<open>Some None\<close>) or set to a value; \<open>dict(exclude_unset=True)\<close> keeps the set ones.
\<close>

record repo_LogEntryUpdate =
  ru_level :: "LogLevel option option"
  ru_message :: "string option option"
  ru_module :: "string option option"
  ru_function :: "string option option"
  ru_line_number :: "int option option"
  ru_extra_data :: "(string \<times> json) list option option"

text \<open>
  The session: the committed rows of the table in insertion order, and what the storage
  layer does to the next statements. A failing \<open>SELECT\<close>, \<open>commit\<close> or
  \<open>refresh\<close> raises \<open>SQLAlchemyError\<close>; a failed commit leaves the table as it
  was (the transaction is rolled back), while a \<open>refresh\<close> that fails comes after a
  commit that succeeded.
\<close>

record db_session =
  db_rows :: "LogEntry list"
  db_exec_fails :: bool
  db_commit_fails :: bool
  db_refresh_fails :: bool

text \<open>The key the table assigns to an inserted row: one more than the largest.\<close>

definition db_next_id :: "LogEntry list \<Rightarrow> int" where
  "db_next_id rows = (if rows = [] then 1 else Max (set (map le_id rows)) + 1)"

text \<open>\<open>ORDER BY timestamp DESC\<close> (rows with equal timestamps: latest insertion first).\<close>

definition order_by_timestamp_desc :: "LogEntry list \<Rightarrow> LogEntry list" where
  "order_by_timestamp_desc rows = rev (sort_key le_timestamp rows)"

subsection \<open>\<open>LogRepository\<close>\<close>

text \<open>
  The first lines of \<open>create\<close>: \<open>extra_data_json = None\<close>, and
  \<open>json.dumps(log_entry.extra_data)\<close> when \<open>extra_data\<close> is truthy. An empty
  dictionary is falsy and gives \<open>None\<close>, like an absent one.
\<close>

definition repo_extra_data_json :: "(string \<times> json) list option \<Rightarrow> py_error + string option" where
  "repo_extra_data_json extra_data =
     (case extra_data of
        None \<Rightarrow> Inr None
      | Some d \<Rightarrow> if d = [] then Inr None
                  else (case json_dumps True (json_object d) of
                          Inl e \<Rightarrow> Inl e
                        | Inr text \<Rightarrow> Inr (Some text)))"

text \<open>
  \<open>create\<close>. \<open>ts\<close> and \<open>created_at\<close> are the clock readings of the two default
  factories. A \<open>TypeError\<close> of \<open>json.dumps\<close> is not an \<open>SQLAlchemyError\<close>
  and leaves the method as it is.
\<close>

definition LogRepository_create ::
  "datetime \<Rightarrow> datetime \<Rightarrow> repo_LogEntryCreate \<Rightarrow> db_session
     \<Rightarrow> (py_error + LogEntry) \<times> db_session" where
  "LogRepository_create ts created_at log_entry s =
     (case repo_extra_data_json (rc_extra_data log_entry) of
        Inl e \<Rightarrow> (Inl e, s)
      | Inr extra_data_json \<Rightarrow>
          (let db_log = \<lparr>le_id = db_next_id (db_rows s), le_timestamp = ts,
                          le_level = rc_level log_entry, le_message = rc_message log_entry,
                          le_module = rc_module log_entry, le_function = rc_function log_entry,
                          le_line_number = rc_line_number log_entry,
                          le_extra_data = extra_data_json,
                          le_created_at = created_at, le_updated_at = None\<rparr>
           in if db_commit_fails s
              then (Inl (RuntimeError ''Failed to create log entry''), s)
              else if db_refresh_fails s
              then (Inl (RuntimeError ''Failed to create log entry''),
                    s\<lparr>db_rows := db_rows s @ [db_log]\<rparr>)
              else (Inr db_log, s\<lparr>db_rows := db_rows s @ [db_log]\<rparr>)))"

definition LogRepository_get_by_id :: "int \<Rightarrow> db_session \<Rightarrow> py_error + LogEntry option" where
  "LogRepository_get_by_id log_id s =
     (if db_exec_fails s then Inl (RuntimeError ''Failed to retrieve log entry'')
      else Inr (find (\<lambda>r. le_id r = log_id) (db_rows s)))"

text \<open>
  \<open>get_all\<close> and \<open>get_by_level\<close>: \<open>skip\<close> and \<open>limit\<close> are taken non-negative.
  The statement is built as \<open>select(...).offset(skip).limit(limit).order_by(...)\<close>;
  the SQL it denotes orders first and then applies \<open>OFFSET\<close> and \<open>LIMIT\<close>.
\<close>

definition LogRepository_get_all :: "nat \<Rightarrow> nat \<Rightarrow> db_session \<Rightarrow> py_error + LogEntry list" where
  "LogRepository_get_all skip limit s =
     (if db_exec_fails s then Inl (RuntimeError ''Failed to retrieve log entries'')
      else Inr (take limit (drop skip (order_by_timestamp_desc (db_rows s)))))"

definition LogRepository_get_by_level ::
  "LogLevel \<Rightarrow> nat \<Rightarrow> nat \<Rightarrow> db_session \<Rightarrow> py_error + LogEntry list" where
  "LogRepository_get_by_level level skip limit s =
     (if db_exec_fails s then Inl (RuntimeError ''Failed to retrieve log entries by level'')
      else Inr (take limit (drop skip
                  (order_by_timestamp_desc (filter (\<lambda>r. le_level r = level) (db_rows s))))))"

text \<open>
  \<open>update\<close>. The set fields are assigned to the row object, then \<open>updated_at\<close>;
  \<open>extra_data\<close> is serialised when it is set and truthy. The commit fails, besides
  the faults of the storage layer, when a column that is not nullable (\<open>level\<close>,
  \<open>message\<close>) was set to \<open>None\<close> or when \<open>extra_data\<close> was set to an empty
  dictionary (which is assigned unserialised to the text column). The
  \<open>RuntimeError\<close> of \<open>get_by_id\<close> and the \<open>TypeError\<close> of \<open>json.dumps\<close>
  are not caught.
\<close>

definition apply_update :: "datetime \<Rightarrow> repo_LogEntryUpdate \<Rightarrow> string option option \<Rightarrow> LogEntry \<Rightarrow> LogEntry" where
  "apply_update now u extra_data_json db_log =
     db_log\<lparr>le_level := (case ru_level u of Some (Some l) \<Rightarrow> l | _ \<Rightarrow> le_level db_log),
            le_message := (case ru_message u of Some (Some m) \<Rightarrow> m | _ \<Rightarrow> le_message db_log),
            le_module := (case ru_module u of Some v \<Rightarrow> v | None \<Rightarrow> le_module db_log),
            le_function := (case ru_function u of Some v \<Rightarrow> v | None \<Rightarrow> le_function db_log),
            le_line_number := (case ru_line_number u of Some v \<Rightarrow> v
                               | None \<Rightarrow> le_line_number db_log),
            le_extra_data := (case extra_data_json of Some v \<Rightarrow> v
                              | None \<Rightarrow> le_extra_data db_log),
            le_updated_at := Some now\<rparr>"

definition update_rejected :: "repo_LogEntryUpdate \<Rightarrow> bool" where
  "update_rejected u =
     (ru_level u = Some None \<or> ru_message u = Some None \<or> ru_extra_data u = Some (Some []))"

definition LogRepository_update ::
  "datetime \<Rightarrow> int \<Rightarrow> repo_LogEntryUpdate \<Rightarrow> db_session
     \<Rightarrow> (py_error + LogEntry option) \<times> db_session" where
  "LogRepository_update now log_id log_update s =
     (case LogRepository_get_by_id log_id s of
        Inl e \<Rightarrow> (Inl e, s)
      | Inr None \<Rightarrow> (Inr None, s)
      | Inr (Some db_log) \<Rightarrow>
          (case (case ru_extra_data log_update of
                   None \<Rightarrow> Inr None
                 | Some None \<Rightarrow> Inr (Some None)
                 | Some (Some d) \<Rightarrow>
                     if d = [] then Inr (Some None)
                     else (case json_dumps True (json_object d) of
                             Inl e \<Rightarrow> Inl e
                           | Inr text \<Rightarrow> Inr (Some (Some text)))) of
             Inl e \<Rightarrow> (Inl e, s)
           | Inr extra_data_json \<Rightarrow>
               (let new_log = apply_update now log_update extra_data_json db_log;
                    s' = s\<lparr>db_rows := map (\<lambda>r. if le_id r = log_id then new_log else r)
                                          (db_rows s)\<rparr>
                in if db_commit_fails s \<or> update_rejected log_update
                   then (Inl (RuntimeError ''Failed to update log entry''), s)
                   else if db_refresh_fails s
                   then (Inl (RuntimeError ''Failed to update log entry''), s')
                   else (Inr (Some new_log), s'))))"

definition LogRepository_delete :: "int \<Rightarrow> db_session \<Rightarrow> (py_error + bool) \<times> db_session" where
  "LogRepository_delete log_id s =
     (case LogRepository_get_by_id log_id s of
        Inl e \<Rightarrow> (Inl e, s)
      | Inr None \<Rightarrow> (Inr False, s)
      | Inr (Some db_log) \<Rightarrow>
          if db_commit_fails s then (Inl (RuntimeError ''Failed to delete log entry''), s)
          else (Inr True, s\<lparr>db_rows := filter (\<lambda>r. le_id r \<noteq> log_id) (db_rows s)\<rparr>))"

text \<open>A request with no field set.\<close>

definition empty_update :: repo_LogEntryUpdate where
  "empty_update = \<lparr>ru_level = None, ru_message = None, ru_module = None,
                    ru_function = None, ru_line_number = None, ru_extra_data = None\<rparr>"

text \<open>
  Modelled from the spec: the reader of the stored fields. The spec has the fields
  "stored as a serialized structured blob and deserialized on read", but nothing in the
  repository deserialises the column \<open>extra_data\<close>: \<open>get_by_id\<close> hands it back as
  the text that \<open>create\<close> stored (\<open>extra_data: Optional[str]\<close>, "JSON string for
  additional data"). Deserialising is taken to be \<open>json.loads\<close> of that text, and a
  row without blob to have no fields; the result is \<open>None\<close> when the text is not
  that of a dictionary.
\<close>

definition stored_fields :: "LogEntry \<Rightarrow> (string \<times> json) list option option" where
  "stored_fields e =
     (case le_extra_data e of
        None \<Rightarrow> Some None
      | Some text \<Rightarrow>
          (case json_loads text of
             None \<Rightarrow> None
           | Some v \<Rightarrow> map_option Some (object_fields v)))"

text \<open>
  The fields of a request as \<open>json.loads\<close> gives them back from their text, and the
  fields that are values of JSON throughout (with distinct keys, as a dictionary has).
\<close>

definition fields_normal :: "(string \<times> json) list \<Rightarrow> (string \<times> json) list" where
  "fields_normal flds = dict_update [] (map (\<lambda>kv. (fst kv, json_normal (snd kv))) flds)"

definition fields_native :: "(string \<times> json) list \<Rightarrow> bool" where
  "fields_native flds = (distinct (map fst flds) \<and> native_items (map snd flds))"

text \<open>A request at level \<open>ERROR\<close> with message \<open>boom\<close> and the given fields.\<close>

definition example_draft :: "(string \<times> json) list option \<Rightarrow> repo_LogEntryCreate" where
  "example_draft flds =
     \<lparr>rc_level = ERROR, rc_message = ''boom'', rc_module = Some ''app'',
      rc_function = Some ''run'', rc_line_number = Some 7, rc_extra_data = flds\<rparr>"

subsection \<open>\<open>StructuredLogger\<close> and \<open>LoggerService\<close> of the repository module\<close>

text \<open>
  The state the logger of this module works on: the library's registry of loggers and
  the session of its repository.
\<close>

record repo_world =
  rw_manager :: Manager
  rw_session :: db_session

definition repo_stream_handler :: Handler where
  "repo_stream_handler =
     \<lparr>h_stream = ''stderr'', h_level = 0, h_formatter = PlainFormatter, h_written = []\<rparr>"

text \<open>\<open>_configure_logger\<close>: only a logger without handlers is configured.\<close>

definition repo_configure_logger :: "PyLogger \<Rightarrow> PyLogger" where
  "repo_configure_logger lg =
     (if lg_handlers lg = []
      then lg\<lparr>lg_handlers := [repo_stream_handler], lg_level := 10\<rparr>
      else lg)"

text \<open>
  \<open>StructuredLogger.__init__(name, log_repository)\<close>, as far as it acts on the state
  shared with the rest of the process: the logger registered under \<open>name\<close> is
  fetched (and made, when there is none) and configured.
\<close>

definition repo_StructuredLogger_init :: "string \<Rightarrow> repo_world \<Rightarrow> repo_world" where
  "repo_StructuredLogger_init nm w =
     w\<lparr>rw_manager := (rw_manager w)(nm \<mapsto> repo_configure_logger (getLogger (rw_manager w) nm))\<rparr>"

text \<open>
  The object the constructor makes. It has identity: it lives at a reference of the
  heap, and \<open>rh_next_ref\<close> is the reference the next allocation gives out. Its
  attribute \<open>logger\<close> is the library's logger registered under the name (held here
  by that name); its attribute \<open>log_repository\<close> is the repository of the service,
  the only one of \<open>repo_world\<close>.
\<close>

record repo_StructuredLogger =
  sl_logger :: string

record repo_heap =
  rh_world :: repo_world
  rh_objects :: "nat \<Rightarrow> repo_StructuredLogger option"
  rh_next_ref :: nat

text \<open>
  \<open>LoggerService.get_logger(name)\<close>:
  \<^verbatim>\<open>return StructuredLogger(name, self.log_repository)\<close>
  Every call constructs an object; the service keeps no reference to it.
\<close>

definition repo_LoggerService_get_logger :: "string \<Rightarrow> repo_heap \<Rightarrow> nat \<times> repo_heap" where
  "repo_LoggerService_get_logger nm h =
     (rh_next_ref h,
      h\<lparr>rh_world := repo_StructuredLogger_init nm (rh_world h),
        rh_objects := (rh_objects h)(rh_next_ref h \<mapsto> \<lparr>sl_logger = nm\<rparr>),
        rh_next_ref := Suc (rh_next_ref h)\<rparr>)"

text \<open>
  The frame from which a method of this module calls the library's logger: the library
  reports the function and line of that call, not those of the application.
\<close>

definition repo_frame :: "string \<Rightarrow> int \<Rightarrow> call_ctx \<Rightarrow> call_ctx" where
  "repo_frame func line ctx =
     ctx\<lparr>ctx_pathname := ''logger.py'', ctx_module := ''logger'',
          ctx_funcName := func, ctx_lineno := line\<rparr>"

text \<open>
  \<open>_log_to_db\<close>: the request is built from the frame of the caller of the emission
  method and handed to \<open>create\<close>; any exception is caught and logged with
  \<open>self.logger.error\<close>.
\<close>

definition repo_log_to_db ::
  "call_ctx \<Rightarrow> string \<Rightarrow> LogLevel \<Rightarrow> string \<Rightarrow> (string \<times> json) list option \<Rightarrow> repo_world
     \<Rightarrow> py_error + repo_world" where
  "repo_log_to_db ctx nm level message extra_data w =
     (let log_entry = \<lparr>rc_level = level, rc_message = message,
                        rc_module = Some (ctx_module ctx), rc_function = Some (ctx_funcName ctx),
                        rc_line_number = Some (ctx_lineno ctx), rc_extra_data = extra_data\<rparr>
      in case LogRepository_create (ctx_timestamp ctx) (ctx_created_at ctx) log_entry (rw_session w) of
           (Inr db_log, s') \<Rightarrow> Inr (w\<lparr>rw_session := s'\<rparr>)
         | (Inl e, s') \<Rightarrow>
             (case Logger_log (repo_frame ''_log_to_db'' 206 ctx) nm 40
                     (''Failed to log to database: '' @ str_of_error e) [] None
                     (getLogger (rw_manager w) nm) of
                Inl e' \<Rightarrow> Inl e'
              | Inr lg \<Rightarrow> Inr (w\<lparr>rw_manager := (rw_manager w)(nm \<mapsto> lg), rw_session := s'\<rparr>)))"

text \<open>
  The five emission methods. Each one hands the message to the library's logger at its
  level, with \<open>extra=extra_data or {}\<close>, and then calls \<open>_log_to_db\<close>.
\<close>

definition repo_StructuredLogger_debug ::
  "call_ctx \<Rightarrow> string \<Rightarrow> string \<Rightarrow> (string \<times> json) list option \<Rightarrow> repo_world
     \<Rightarrow> py_error + repo_world" where
  "repo_StructuredLogger_debug ctx nm message extra_data w =
     (case Logger_log (repo_frame ''debug'' 210 ctx) nm 10 message
             (case extra_data of None \<Rightarrow> [] | Some d \<Rightarrow> d) None (getLogger (rw_manager w) nm) of
        Inl e \<Rightarrow> Inl e
      | Inr lg \<Rightarrow>
          repo_log_to_db ctx nm DEBUG message extra_data
            (w\<lparr>rw_manager := (rw_manager w)(nm \<mapsto> lg)\<rparr>))"

definition repo_StructuredLogger_info ::
  "call_ctx \<Rightarrow> string \<Rightarrow> string \<Rightarrow> (string \<times> json) list option \<Rightarrow> repo_world
     \<Rightarrow> py_error + repo_world" where
  "repo_StructuredLogger_info ctx nm message extra_data w =
     (case Logger_log (repo_frame ''info'' 215 ctx) nm 20 message
             (case extra_data of None \<Rightarrow> [] | Some d \<Rightarrow> d) None (getLogger (rw_manager w) nm) of
        Inl e \<Rightarrow> Inl e
      | Inr lg \<Rightarrow>
          repo_log_to_db ctx nm INFO message extra_data
            (w\<lparr>rw_manager := (rw_manager w)(nm \<mapsto> lg)\<rparr>))"

definition repo_StructuredLogger_warning ::
  "call_ctx \<Rightarrow> string \<Rightarrow> string \<Rightarrow> (string \<times> json) list option \<Rightarrow> repo_world
     \<Rightarrow> py_error + repo_world" where
  "repo_StructuredLogger_warning ctx nm message extra_data w =
     (case Logger_log (repo_frame ''warning'' 220 ctx) nm 30 message
             (case extra_data of None \<Rightarrow> [] | Some d \<Rightarrow> d) None (getLogger (rw_manager w) nm) of
        Inl e \<Rightarrow> Inl e
      | Inr lg \<Rightarrow>
          repo_log_to_db ctx nm WARNING message extra_data
            (w\<lparr>rw_manager := (rw_manager w)(nm \<mapsto> lg)\<rparr>))"

definition repo_StructuredLogger_error ::
  "call_ctx \<Rightarrow> string \<Rightarrow> string \<Rightarrow> (string \<times> json) list option \<Rightarrow> repo_world
     \<Rightarrow> py_error + repo_world" where
  "repo_StructuredLogger_error ctx nm message extra_data w =
     (case Logger_log (repo_frame ''error'' 225 ctx) nm 40 message
             (case extra_data of None \<Rightarrow> [] | Some d \<Rightarrow> d) None (getLogger (rw_manager w) nm) of
        Inl e \<Rightarrow> Inl e
      | Inr lg \<Rightarrow>
          repo_log_to_db ctx nm ERROR message extra_data
            (w\<lparr>rw_manager := (rw_manager w)(nm \<mapsto> lg)\<rparr>))"

definition repo_StructuredLogger_critical ::
  "call_ctx \<Rightarrow> string \<Rightarrow> string \<Rightarrow> (string \<times> json) list option \<Rightarrow> repo_world
     \<Rightarrow> py_error + repo_world" where
  "repo_StructuredLogger_critical ctx nm message extra_data w =
     (case Logger_log (repo_frame ''critical'' 230 ctx) nm 50 message
             (case extra_data of None \<Rightarrow> [] | Some d \<Rightarrow> d) None (getLogger (rw_manager w) nm) of
        Inl e \<Rightarrow> Inl e
      | Inr lg \<Rightarrow>
          repo_log_to_db ctx nm CRITICAL message extra_data
            (w\<lparr>rw_manager := (rw_manager w)(nm \<mapsto> lg)\<rparr>))"

text \<open>The emission method of a level, and the name and line of its call of the library.\<close>

fun repo_StructuredLogger_method ::
  "LogLevel \<Rightarrow> call_ctx \<Rightarrow> string \<Rightarrow> string \<Rightarrow> (string \<times> json) list option \<Rightarrow> repo_world
     \<Rightarrow> py_error + repo_world" where
  "repo_StructuredLogger_method DEBUG = repo_StructuredLogger_debug"
| "repo_StructuredLogger_method INFO = repo_StructuredLogger_info"
| "repo_StructuredLogger_method WARNING = repo_StructuredLogger_warning"
| "repo_StructuredLogger_method ERROR = repo_StructuredLogger_error"
| "repo_StructuredLogger_method CRITICAL = repo_StructuredLogger_critical"

fun repo_method_frame :: "LogLevel \<Rightarrow> call_ctx \<Rightarrow> call_ctx" where
  "repo_method_frame DEBUG = repo_frame ''debug'' 210"
| "repo_method_frame INFO = repo_frame ''info'' 215"
| "repo_method_frame WARNING = repo_frame ''warning'' 220"
| "repo_method_frame ERROR = repo_frame ''error'' 225"
| "repo_method_frame CRITICAL = repo_frame ''critical'' 230"

text \<open>The row that \<open>_log_to_db\<close> asks the repository to insert.\<close>

definition repo_db_row ::
  "call_ctx \<Rightarrow> LogLevel \<Rightarrow> string \<Rightarrow> string option \<Rightarrow> db_session \<Rightarrow> LogEntry" where
  "repo_db_row ctx level message extra_data_json s =
     \<lparr>le_id = db_next_id (db_rows s), le_timestamp = ctx_timestamp ctx, le_level = level,
      le_message = message, le_module = Some (ctx_module ctx),
      le_function = Some (ctx_funcName ctx), le_line_number = Some (ctx_lineno ctx),
      le_extra_data = extra_data_json, le_created_at = ctx_created_at ctx,
      le_updated_at = None\<rparr>"

text \<open>
  A logger \<open>svc\<close> with one handler and a session on an empty table, and an application
  frame, for evaluating the methods.
\<close>

definition example_ctx :: call_ctx where
  "example_ctx =
     \<lparr>ctx_created = (2024, 1, 2, 3, 4, 5, 0), ctx_now = (2024, 1, 2, 3, 4, 5, 100),
      ctx_timestamp = (2024, 1, 2, 3, 4, 5, 200), ctx_created_at = (2024, 1, 2, 3, 4, 5, 300),
      ctx_pathname = ''app.py'', ctx_module = ''app'', ctx_funcName = ''run'', ctx_lineno = 7\<rparr>"

definition example_session :: "bool \<Rightarrow> bool \<Rightarrow> db_session" where
  "example_session commit_fails refresh_fails =
     \<lparr>db_rows = [], db_exec_fails = False, db_commit_fails = commit_fails,
      db_refresh_fails = refresh_fails\<rparr>"

definition example_world :: "int \<Rightarrow> db_session \<Rightarrow> repo_world" where
  "example_world lvl s =
     \<lparr>rw_manager = Map.empty(''svc'' \<mapsto>
         \<lparr>lg_level = lvl, lg_handlers = [repo_stream_handler], lg_propagate = True\<rparr>),
      rw_session = s\<rparr>"

text \<open>A process that has made no logger yet.\<close>

definition example_heap :: repo_heap where
  "example_heap =
     \<lparr>rh_world = \<lparr>rw_manager = Map.empty, rw_session = example_session False False\<rparr>,
      rh_objects = Map.empty, rh_next_ref = 0\<rparr>"

section \<open>api/logger_router.py\<close>

subsection \<open>The wrapper around the library's logger\<close>

text \<open>
  \<open>level.upper()\<close>, then \<open>getattr(logging, ...)\<close>. Only the ASCII letters are
  mapped: no other character of a string becomes part of a level name by upper-casing.
  The names of the levels are the only upper-case attributes of the module that
  \<open>setLevel\<close> and \<open>log\<close> accept; any other name is an error.
\<close>

definition py_upper :: "string \<Rightarrow> string" where
  "py_upper s = map (\<lambda>c. if 97 \<le> (of_char c :: nat) \<and> (of_char c :: nat) \<le> 122
                          then char_of ((of_char c :: nat) - 32) else c) s"

definition logging_getattr :: "string \<Rightarrow> py_error + int" where
  "logging_getattr nm =
     (if nm = ''CRITICAL'' \<or> nm = ''FATAL'' then Inr 50
      else if nm = ''ERROR'' then Inr 40
      else if nm = ''WARNING'' \<or> nm = ''WARN'' then Inr 30
      else if nm = ''INFO'' then Inr 20
      else if nm = ''DEBUG'' then Inr 10
      else if nm = ''NOTSET'' then Inr 0
      else Inl (AttributeError nm))"

text \<open>
  \<open>logging.StreamHandler(sys.stdout)\<close> and \<open>logging.FileHandler(log_file)\<close> with
  the module's formatter. Opening the file can fail: \<open>can_open\<close> says which paths
  the file system lets the process open for appending.
\<close>

definition router_console_handler :: Handler where
  "router_console_handler =
     \<lparr>h_stream = ''stdout'', h_level = 0, h_formatter = RouterStructuredFormatter, h_written = []\<rparr>"

definition router_file_handler :: "string \<Rightarrow> Handler" where
  "router_file_handler path =
     \<lparr>h_stream = path, h_level = 0, h_formatter = RouterStructuredFormatter, h_written = []\<rparr>"

text \<open>
  \<open>StructuredLogger.__init__(name, level, log_file)\<close>: the result is the exception
  raised, if any, and the registry of loggers as the constructor leaves it.
\<close>

definition router_StructuredLogger_init ::
  "(string \<Rightarrow> bool) \<Rightarrow> string \<Rightarrow> string \<Rightarrow> string option \<Rightarrow> Manager
     \<Rightarrow> py_error option \<times> Manager" where
  "router_StructuredLogger_init can_open nm level log_file mgr =
     (let mgr0 = mgr(nm \<mapsto> getLogger mgr nm)
      in case logging_getattr (py_upper level) of
           Inl e \<Rightarrow> (Some e, mgr0)
         | Inr lvl \<Rightarrow>
             (let lg = (getLogger mgr nm)\<lparr>lg_level := lvl, lg_handlers := [router_console_handler]\<rparr>
              in case log_file of
                   None \<Rightarrow> (None, mgr(nm \<mapsto> lg))
                 | Some path \<Rightarrow>
                     if path = [] then (None, mgr(nm \<mapsto> lg))
                     else if can_open path
                     then (None, mgr(nm \<mapsto> lg\<lparr>lg_handlers := lg_handlers lg @ [router_file_handler path]\<rparr>))
                     else (Some (OSError path), mgr(nm \<mapsto> lg))))"

text \<open>
  \<open>StructuredLogger.log(level, message, extra_data)\<close> on the logger named \<open>nm\<close>.
\<close>

definition router_StructuredLogger_log ::
  "call_ctx \<Rightarrow> string \<Rightarrow> string \<Rightarrow> string \<Rightarrow> (string \<times> json) list option \<Rightarrow> Manager
     \<Rightarrow> py_error + Manager" where
  "router_StructuredLogger_log ctx nm level message extra_data mgr =
     (case logging_getattr (py_upper level) of
        Inl e \<Rightarrow> Inl e
      | Inr log_level \<Rightarrow>
          (let extra = (case extra_data of
                          None \<Rightarrow> []
                        | Some d \<Rightarrow> if d = [] then [] else [(''extra_data'', json_object d)])
           in case Logger_log ctx nm log_level message extra None (getLogger mgr nm) of
                Inl e \<Rightarrow> Inl e
              | Inr lg \<Rightarrow> Inr (mgr(nm \<mapsto> lg))))"

subsection \<open>Request and response models\<close>

record router_LogEntryCreate =
  rtc_level :: LogLevel
  rtc_message :: string
  rtc_extra_data :: "(string \<times> json) list option"

record LogEntryResponse =
  rr_id :: string
  rr_timestamp :: datetime
  rr_level :: LogLevel
  rr_message :: string
  rr_logger_name :: string
  rr_extra_data :: "(string \<times> json) list option"

record LoggerConfigResponse =
  cr_logger_name :: string
  cr_log_level :: LogLevel
  cr_log_file :: "string option"
  cr_handlers_count :: nat

record LoggerConfigUpdate =
  cu_log_level :: "LogLevel option"
  cu_log_file :: "string option"

record LogQueryParams =
  q_level :: "LogLevel option"
  q_start_time :: "datetime option"
  q_end_time :: "datetime option"
  q_limit :: int
  q_offset :: int

text \<open>
  Constructing \<open>LogQueryParams\<close>: \<open>limit: int = Field(100, ge=1, le=1000)\<close>,
  \<open>offset: int = Field(0, ge=0)\<close>.
\<close>

definition LogQueryParams_init ::
  "LogLevel option \<Rightarrow> datetime option \<Rightarrow> datetime option \<Rightarrow> int \<Rightarrow> int
     \<Rightarrow> py_error + LogQueryParams" where
  "LogQueryParams_init level start_time end_time limit offset =
     (let errs = (if limit < 1 \<or> limit > 1000 then [''limit''] else [])
                 @ (if offset < 0 then [''offset''] else [])
      in if errs = []
         then Inr \<lparr>q_level = level, q_start_time = start_time, q_end_time = end_time,
                   q_limit = limit, q_offset = offset\<rparr>
         else Inl (ValidationError errs))"

text \<open>\<open>LogLevel(s)\<close>: the member whose value is \<open>s\<close>, or \<open>ValueError\<close>.\<close>

definition LogLevel_of_string :: "string \<Rightarrow> py_error + LogLevel" where
  "LogLevel_of_string s =
     (if s = ''DEBUG'' then Inr DEBUG else if s = ''INFO'' then Inr INFO
      else if s = ''WARNING'' then Inr WARNING else if s = ''ERROR'' then Inr ERROR
      else if s = ''CRITICAL'' then Inr CRITICAL
      else Inl (ValueError (s @ '' is not a valid LogLevel'')))"

text \<open>
  A slice \<open>xs[start:end]\<close>: a negative bound counts from the end, and both bounds are
  clipped to the list.
\<close>

definition py_slice :: "'a list \<Rightarrow> int \<Rightarrow> int \<Rightarrow> 'a list" where
  "py_slice xs start end =
     (let n = int (length xs);
          clip = (\<lambda>i. if i < 0 then max (n + i) 0 else min i n);
          a = clip start; b = clip end
      in take (nat (b - a)) (drop (nat a) xs))"

subsection \<open>\<open>LoggerService\<close>\<close>

record router_LoggerConfig =
  cfg_log_level :: string
  cfg_log_file :: "string option"
  cfg_app_name :: string

text \<open>
  The service: its mutable configuration object, the logger its wrapper
  \<open>self.logger\<close> refers to (by name), and the entries kept in memory. The registry of
  the library's loggers is state shared with everything else in the process.
\<close>

record router_LoggerService =
  ls_config :: router_LoggerConfig
  ls_logger :: string
  ls_log_entries :: "LogEntryResponse list"

record router_world =
  rt_manager :: Manager
  rt_service :: router_LoggerService

definition router_LoggerService_init ::
  "(string \<Rightarrow> bool) \<Rightarrow> router_LoggerConfig \<Rightarrow> Manager \<Rightarrow> py_error + router_world" where
  "router_LoggerService_init can_open config mgr =
     (case router_StructuredLogger_init can_open (cfg_app_name config) (cfg_log_level config)
             (cfg_log_file config) mgr of
        (Some e, mgr') \<Rightarrow> Inl e
      | (None, mgr') \<Rightarrow>
          Inr \<lparr>rt_manager = mgr',
               rt_service = \<lparr>ls_config = config, ls_logger = cfg_app_name config,
                              ls_log_entries = []\<rparr>\<rparr>)"

text \<open>
  \<open>create_log_entry\<close>: \<open>entry_id\<close> is the fresh \<open>uuid4\<close>, \<open>timestamp\<close> the
  reading of \<open>datetime.utcnow()\<close>. The entry is appended whatever the logger did
  with the record.
\<close>

definition router_create_log_entry ::
  "string \<Rightarrow> datetime \<Rightarrow> call_ctx \<Rightarrow> router_LogEntryCreate \<Rightarrow> router_world
     \<Rightarrow> py_error + LogEntryResponse \<times> router_world" where
  "router_create_log_entry entry_id timestamp ctx log_data w =
     (let svc = rt_service w
      in case router_StructuredLogger_log ctx (ls_logger svc) (LogLevel_value (rtc_level log_data))
                (rtc_message log_data) (rtc_extra_data log_data) (rt_manager w) of
           Inl e \<Rightarrow> Inl e
         | Inr mgr' \<Rightarrow>
             (let log_entry = \<lparr>rr_id = entry_id, rr_timestamp = timestamp,
                                rr_level = rtc_level log_data, rr_message = rtc_message log_data,
                                rr_logger_name = cfg_app_name (ls_config svc),
                                rr_extra_data = rtc_extra_data log_data\<rparr>
              in Inr (log_entry,
                      w\<lparr>rt_manager := mgr',
                        rt_service := svc\<lparr>ls_log_entries := ls_log_entries svc @ [log_entry]\<rparr>\<rparr>)))"

text \<open>
  \<open>get_log_entries\<close>: the three optional filters, then the slice
  \<open>[offset : offset + limit]\<close> of the entries in the order they are stored.
\<close>

definition router_get_log_entries :: "LogQueryParams \<Rightarrow> router_LoggerService \<Rightarrow> LogEntryResponse list" where
  "router_get_log_entries query_params svc =
     (let filtered_entries = ls_log_entries svc;
          filtered_entries = (case q_level query_params of
                                None \<Rightarrow> filtered_entries
                              | Some l \<Rightarrow> filter (\<lambda>e. rr_level e = l) filtered_entries);
          filtered_entries = (case q_start_time query_params of
                                None \<Rightarrow> filtered_entries
                              | Some t \<Rightarrow> filter (\<lambda>e. rr_timestamp e \<ge> t) filtered_entries);
          filtered_entries = (case q_end_time query_params of
                                None \<Rightarrow> filtered_entries
                              | Some t \<Rightarrow> filter (\<lambda>e. rr_timestamp e \<le> t) filtered_entries);
          start_idx = q_offset query_params;
          end_idx = start_idx + q_limit query_params
      in py_slice filtered_entries start_idx end_idx)"

text \<open>The entries a query matches, before pagination.\<close>

definition router_matching :: "LogQueryParams \<Rightarrow> router_LoggerService \<Rightarrow> LogEntryResponse list" where
  "router_matching query_params svc =
     filter (\<lambda>e. (case q_level query_params of None \<Rightarrow> True | Some l \<Rightarrow> rr_level e = l)
               \<and> (case q_start_time query_params of None \<Rightarrow> True | Some t \<Rightarrow> rr_timestamp e \<ge> t)
               \<and> (case q_end_time query_params of None \<Rightarrow> True | Some t \<Rightarrow> rr_timestamp e \<le> t))
       (ls_log_entries svc)"

definition router_get_logger_config :: "router_world \<Rightarrow> py_error + LoggerConfigResponse" where
  "router_get_logger_config w =
     (let svc = rt_service w
      in case LogLevel_of_string (cfg_log_level (ls_config svc)) of
           Inl e \<Rightarrow> Inl e
         | Inr l \<Rightarrow>
             Inr \<lparr>cr_logger_name = cfg_app_name (ls_config svc), cr_log_level = l,
                  cr_log_file = cfg_log_file (ls_config svc),
                  cr_handlers_count = length (lg_handlers (getLogger (rt_manager w) (ls_logger svc)))\<rparr>)"

text \<open>
  \<open>update_logger_config\<close>. Each assignment takes effect at once, in the order of the
  source: the level of the configuration and of the logger, then the file of the
  configuration, then the new wrapper, whose constructor clears the handlers of the
  logger and may raise. The result is the response or the exception, and the state
  as the call leaves it.
\<close>

definition router_update_logger_config ::
  "(string \<Rightarrow> bool) \<Rightarrow> LoggerConfigUpdate \<Rightarrow> router_world
     \<Rightarrow> (py_error + LoggerConfigResponse) \<times> router_world" where
  "router_update_logger_config can_open config_update w =
     (let w1 = (case cu_log_level config_update of
                  None \<Rightarrow> w
                | Some l \<Rightarrow>
                    (let svc = rt_service w; nm = ls_logger svc
                     in w\<lparr>rt_service := svc\<lparr>ls_config := (ls_config svc)\<lparr>cfg_log_level := LogLevel_value l\<rparr>\<rparr>,
                          rt_manager := (rt_manager w)(nm \<mapsto> (getLogger (rt_manager w) nm)\<lparr>lg_level := logging_level l\<rparr>)\<rparr>))
      in case cu_log_file config_update of
           None \<Rightarrow> (router_get_logger_config w1, w1)
         | Some path \<Rightarrow>
             (let svc1 = rt_service w1;
                  config2 = (ls_config svc1)\<lparr>cfg_log_file := Some path\<rparr>;
                  w2 = w1\<lparr>rt_service := svc1\<lparr>ls_config := config2\<rparr>\<rparr>
              in case router_StructuredLogger_init can_open (cfg_app_name config2)
                        (cfg_log_level config2) (cfg_log_file config2) (rt_manager w2) of
                   (Some e, mgr') \<Rightarrow> (Inl e, w2\<lparr>rt_manager := mgr'\<rparr>)
                 | (None, mgr') \<Rightarrow>
                     (let w3 = w2\<lparr>rt_manager := mgr',
                                  rt_service := (rt_service w2)\<lparr>ls_logger := cfg_app_name config2\<rparr>\<rparr>
                      in (router_get_logger_config w3, w3))))"

definition router_delete_log_entries :: "router_LoggerService \<Rightarrow> nat \<times> router_LoggerService" where
  "router_delete_log_entries svc = (length (ls_log_entries svc), svc\<lparr>ls_log_entries := []\<rparr>)"

text \<open>
  A service \<open>fastapi-app\<close> at level \<open>INFO\<close> that logs to \<open>/var/log/app.log\<close>, on
  a file system where that file is the only one that can be opened, with one record
  already written to the console; and the same service (without file) after two
  entries were created, one second apart.
\<close>

definition example_can_open :: "string \<Rightarrow> bool" where
  "example_can_open path = (path = ''/var/log/app.log'')"

definition example_config :: "string option \<Rightarrow> router_LoggerConfig" where
  "example_config log_file =
     \<lparr>cfg_log_level = ''INFO'', cfg_log_file = log_file, cfg_app_name = ''fastapi-app''\<rparr>"

definition example_router_world :: router_world where
  "example_router_world =
     \<lparr>rt_manager = Map.empty(''fastapi-app'' \<mapsto>
        \<lparr>lg_level = 20,
         lg_handlers = [router_console_handler, router_file_handler ''/var/log/app.log''],
         lg_propagate = True\<rparr>),
      rt_service = \<lparr>ls_config = example_config (Some ''/var/log/app.log''),
                     ls_logger = ''fastapi-app'', ls_log_entries = []\<rparr>\<rparr>"

definition example_entry :: "string \<Rightarrow> datetime \<Rightarrow> string \<Rightarrow> LogEntryResponse" where
  "example_entry entry_id timestamp message =
     \<lparr>rr_id = entry_id, rr_timestamp = timestamp, rr_level = ERROR, rr_message = message,
      rr_logger_name = ''fastapi-app'', rr_extra_data = None\<rparr>"

definition example_query :: LogQueryParams where
  "example_query = \<lparr>q_level = Some ERROR, q_start_time = None, q_end_time = None,
                     q_limit = 100, q_offset = 0\<rparr>"

section \<open>services/logger_service.py\<close>

text \<open>
  The dictionary \<open>config\<close> of a \<open>LoggerService\<close>, as far as it is read:
  \<open>config.get("level", logging.INFO)\<close> (\<open>None\<close>: no such key) and
  \<open>config.get("file_path")\<close> (\<open>None\<close>: no such key, or the value \<open>None\<close>).
\<close>

record svc_config =
  sc_level :: "int option"
  sc_file_path :: "string option"

definition svc_empty_config :: svc_config where
  "svc_empty_config = \<lparr>sc_level = None, sc_file_path = None\<rparr>"

record svc_LoggerService =
  so_name :: string
  so_config :: svc_config

definition svc_console_handler :: Handler where
  "svc_console_handler =
     \<lparr>h_stream = ''stdout'', h_level = 0, h_formatter = SvcLogFormatter, h_written = []\<rparr>"

definition svc_file_handler :: "string \<Rightarrow> Handler" where
  "svc_file_handler path =
     \<lparr>h_stream = path, h_level = 0, h_formatter = SvcLogFormatter, h_written = []\<rparr>"

text \<open>
  \<open>_setup_logger\<close>: a logger that has handlers already is returned as it is;
  otherwise it gets the level, a console handler, the file handler (opening the file
  may raise) and \<open>propagate = False\<close>. The result is the exception raised, if any,
  and the registry of loggers as the method leaves it.
\<close>

definition svc_setup_logger ::
  "(string \<Rightarrow> bool) \<Rightarrow> string \<Rightarrow> svc_config \<Rightarrow> Manager \<Rightarrow> py_error option \<times> Manager" where
  "svc_setup_logger can_open nm config mgr =
     (let logger = getLogger mgr nm
      in if lg_handlers logger \<noteq> [] then (None, mgr(nm \<mapsto> logger))
         else
           (let lg1 = logger\<lparr>lg_level := (case sc_level config of None \<Rightarrow> 20 | Some l \<Rightarrow> l),
                               lg_handlers := [svc_console_handler]\<rparr>
            in case sc_file_path config of
                 None \<Rightarrow> (None, mgr(nm \<mapsto> lg1\<lparr>lg_propagate := False\<rparr>))
               | Some path \<Rightarrow>
                   if path = [] then (None, mgr(nm \<mapsto> lg1\<lparr>lg_propagate := False\<rparr>))
                   else if can_open path
                   then (None, mgr(nm \<mapsto> lg1\<lparr>lg_handlers := lg_handlers lg1 @ [svc_file_handler path],
                                           lg_propagate := False\<rparr>))
                   else (Some (OSError path), mgr(nm \<mapsto> lg1))))"

text \<open>\<open>LoggerService.__init__(name, config)\<close>, with \<open>self.config = config or {}\<close>.\<close>

definition svc_LoggerService_init ::
  "(string \<Rightarrow> bool) \<Rightarrow> string \<Rightarrow> svc_config option \<Rightarrow> Manager
     \<Rightarrow> (py_error + svc_LoggerService) \<times> Manager" where
  "svc_LoggerService_init can_open nm config mgr =
     (let cfg = (case config of None \<Rightarrow> svc_empty_config | Some c \<Rightarrow> c)
      in case svc_setup_logger can_open nm cfg mgr of
           (Some e, mgr') \<Rightarrow> (Inl e, mgr')
         | (None, mgr') \<Rightarrow> (Inr \<lparr>so_name = nm, so_config = cfg\<rparr>, mgr'))"

subsection \<open>\<open>LoggerFactory\<close>\<close>

text \<open>
  The class attribute \<open>_instances\<close> maps a name to an object. Objects have identity:
  a \<open>LoggerService\<close> object lives at a reference in the heap, and \<open>_instances\<close>
  holds references. \<open>sw_next_ref\<close> is the next reference an allocation gives out.
\<close>

record svc_world =
  sw_manager :: Manager
  sw_instances :: "string \<Rightarrow> nat option"
  sw_heap :: "nat \<Rightarrow> svc_LoggerService option"
  sw_next_ref :: nat

text \<open>
  \<open>create_logger\<close>:
  \<^verbatim>\<open>if name not in cls._instances:
      cls._instances[name] = LoggerService(name, config)
  return cls._instances[name]\<close>
  When the constructor raises, nothing is registered.
\<close>

definition LoggerFactory_create_logger ::
  "(string \<Rightarrow> bool) \<Rightarrow> string \<Rightarrow> svc_config option \<Rightarrow> svc_world
     \<Rightarrow> (py_error + nat) \<times> svc_world" where
  "LoggerFactory_create_logger can_open nm config w =
     (case sw_instances w nm of
        Some ref \<Rightarrow> (Inr ref, w)
      | None \<Rightarrow>
          (case svc_LoggerService_init can_open nm config (sw_manager w) of
             (Inl e, mgr') \<Rightarrow> (Inl e, w\<lparr>sw_manager := mgr'\<rparr>)
           | (Inr obj, mgr') \<Rightarrow>
               (Inr (sw_next_ref w),
                w\<lparr>sw_manager := mgr',
                  sw_instances := (sw_instances w)(nm \<mapsto> sw_next_ref w),
                  sw_heap := (sw_heap w)(sw_next_ref w \<mapsto> obj),
                  sw_next_ref := Suc (sw_next_ref w)\<rparr>)))"

definition LoggerFactory_get_logger :: "string \<Rightarrow> svc_world \<Rightarrow> nat option" where
  "LoggerFactory_get_logger nm w = sw_instances w nm"

text \<open>A sequence of calls of \<open>create_logger\<close>, and the state before the first.\<close>

fun svc_run_calls ::
  "(string \<Rightarrow> bool) \<Rightarrow> (string \<times> svc_config option) list \<Rightarrow> svc_world
     \<Rightarrow> (py_error + nat) list \<times> svc_world" where
  "svc_run_calls can_open [] w = ([], w)"
| "svc_run_calls can_open (c # calls) w =
     (case LoggerFactory_create_logger can_open (fst c) (snd c) w of
        (r, w1) \<Rightarrow> (case svc_run_calls can_open calls w1 of (rs, w2) \<Rightarrow> (r # rs, w2)))"

definition svc_initial :: "Manager \<Rightarrow> svc_world" where
  "svc_initial mgr =
     \<lparr>sw_manager = mgr, sw_instances = Map.empty, sw_heap = Map.empty, sw_next_ref = 0\<rparr>"

text \<open>
  Every registered reference points to an object of that name, and every object the
  factory has made is the one registered under its name.
\<close>

definition registry_inv :: "svc_world \<Rightarrow> bool" where
  "registry_inv w =
     ((\<forall>nm r. sw_instances w nm = Some r \<longrightarrow>
          r < sw_next_ref w \<and> (\<exists>obj. sw_heap w r = Some obj \<and> so_name obj = nm))
      \<and> (\<forall>r obj. sw_heap w r = Some obj \<longrightarrow> sw_instances w (so_name obj) = Some r))"

text \<open>Three calls, the third one repeating the name of the first with another level.\<close>

definition example_calls :: "(string \<times> svc_config option) list" where
  "example_calls =
     [(''app'', Some \<lparr>sc_level = Some 10, sc_file_path = None\<rparr>),
      (''db'', None),
      (''app'', Some \<lparr>sc_level = Some 40, sc_file_path = Some ''/var/log/app.log''\<rparr>)]"

section \<open>models/logger.py: the validated create request\<close>

record models_LogEntryCreate =
  mc_level :: LogLevel
  mc_message :: string
  mc_module :: "string option"
  mc_function :: "string option"
  mc_line_number :: "int option"

text \<open>
  \<open>validate_message\<close>, the class validator of \<open>message\<close>:
  \<^verbatim>\<open>if not v or not v.strip(): raise ValueError('Message cannot be empty')
  return v.strip()\<close>
\<close>

definition validate_message :: "string \<Rightarrow> py_error + string" where
  "validate_message v =
     (if v = [] \<or> py_strip v = [] then Inl (ValueError ''Message cannot be empty'')
      else Inr (py_strip v))"

text \<open>
  The field \<open>message: str = Field(max_length=1000)\<close>. pydantic runs the constraint of
  the field on the value as it was passed, and the class validator (declared without
  \<open>pre=True\<close>) after it, on a value that passed the constraint. The result is the
  validated value or the name of the field.
\<close>

definition check_message :: "string \<Rightarrow> string list + string" where
  "check_message raw =
     (if length raw > 1000 then Inl [''message'']
      else case validate_message raw of
             Inl e \<Rightarrow> Inl [''message'']
           | Inr v \<Rightarrow> Inr v)"

text \<open>
  \<open>module\<close> and \<open>function\<close>: \<open>Optional[str] = Field(default=None, max_length=100)\<close>;
  \<open>line_number: Optional[int] = Field(default=None, ge=1)\<close>. \<open>None\<close> passes.
\<close>

definition check_max_length :: "string \<Rightarrow> nat \<Rightarrow> string option \<Rightarrow> string list" where
  "check_max_length field n v =
     (case v of None \<Rightarrow> [] | Some s \<Rightarrow> if length s > n then [field] else [])"

definition check_ge :: "string \<Rightarrow> int \<Rightarrow> int option \<Rightarrow> string list" where
  "check_ge field n v =
     (case v of None \<Rightarrow> [] | Some i \<Rightarrow> if i < n then [field] else [])"

text \<open>
  Constructing \<open>LogEntryCreate(level=..., message=..., module=..., function=...,
  line_number=...)\<close>: every field is validated, the errors of all fields are collected
  into one \<open>ValidationError\<close>. (\<open>extra_data\<close> is an unconstrained mapping and plays
  no part in validation; it is left out of this record.)
\<close>

definition models_LogEntryCreate_init ::
  "LogLevel \<Rightarrow> string \<Rightarrow> string option \<Rightarrow> string option \<Rightarrow> int option
     \<Rightarrow> py_error + models_LogEntryCreate" where
  "models_LogEntryCreate_init lvl raw modl func line =
     (let others = check_max_length ''module'' 100 modl
                   @ check_max_length ''function'' 100 func
                   @ check_ge ''line_number'' 1 line
      in case check_message raw of
           Inl errs \<Rightarrow> Inl (ValidationError (errs @ others))
         | Inr msg \<Rightarrow>
             if others = []
             then Inr \<lparr>mc_level = lvl, mc_message = msg, mc_module = modl,
                       mc_function = func, mc_line_number = line\<rparr>
             else Inl (ValidationError others))"

section \<open>Evaluating numerals and renderings\<close>

lemma show_nat_eval [simp]:
  "show_nat 0 = [digit_char 0]"
  "show_nat 1 = [digit_char 1]"
  "show_nat (Suc 0) = [digit_char (Suc 0)]"
  "show_nat (numeral k) =
     (if numeral k < (10::nat) then [digit_char (numeral k)]
      else show_nat (numeral k div 10) @ [digit_char (numeral k mod 10)])"
  by (subst show_nat.simps, simp)+

lemma digit_char_table:
  "digit_char 0 = CHR ''0''" "digit_char (Suc 0) = CHR ''1''" "digit_char 1 = CHR ''1''"
  "digit_char 2 = CHR ''2''" "digit_char 3 = CHR ''3''" "digit_char 4 = CHR ''4''"
  "digit_char 5 = CHR ''5''" "digit_char 6 = CHR ''6''" "digit_char 7 = CHR ''7''"
  "digit_char 8 = CHR ''8''" "digit_char 9 = CHR ''9''"
  by code_simp+

lemma replicate_small:
  "replicate 2 x = [x, x]" "replicate 3 x = [x, x, x]" "replicate 4 x = [x, x, x, x]"
  "replicate 5 x = [x, x, x, x, x]"
  by (simp_all add: eval_nat_numeral)

lemmas render_simps =
  svc_LogFormatter_format_def router_StructuredFormatter_format_def json_dumps_def
  svc_LogFormatter_log_entry_def router_StructuredFormatter_log_entry_def example_record_def
  enc_str_def escape_char_def zero_pad_def show_int_def digit_char_table replicate_small
  getMessage_def dict_get_def json_object_def

section \<open>Rendering (services/logger_service.py, api/logger_router.py, models/logger.py)\<close>

lemma map_of_dict_set:
  "map_of (dict_set k v d) k' = (if k' = k then Some v else map_of d k')"
  by (induction d) auto

lemma map_of_dict_update:
  "map_of (dict_update d e) k = (case map_of (rev e) k of Some v \<Rightarrow> Some v | None \<Rightarrow> map_of d k)"
proof (induction e arbitrary: d)
  case Nil
  then show ?case by simp
next
  case (Cons kv e)
  obtain k' v' where kv: "kv = (k', v')" by (cases kv)
  show ?case
    by (simp add: kv Cons.IH map_of_dict_set map_add_def split: option.splits)
qed

lemma map_of_rev_distinct:
  "distinct (map fst e) \<Longrightarrow> map_of (rev e) k = map_of e k"
proof (induction e)
  case Nil
  then show ?case by simp
next
  case (Cons kv e)
  then have "map_of e (fst kv) = None"
    by (simp add: map_of_eq_None_iff)
  with Cons show ?case
    by (cases kv) (auto simp: map_add_def split: option.splits)
qed

lemma dict_update_field_wins:
  assumes "distinct (map fst e)" and "map_of e k = Some v"
  shows "dict_get (dict_update d e) k = Some v"
  using assms by (simp add: dict_get_def map_of_dict_update map_of_rev_distinct)

text \<open>
  What the two merging formatters do on a collision, for every record: a key of the
  caller's fields replaces the value of the fixed key of the same name (only the
  \<open>exception\<close> key, assigned after the merge, keeps the formatter's value).
\<close>

lemma svc_LogFormatter_field_overrides:
  assumes "rec_extra_data r = Some e" and "distinct (map fst e)" and "map_of e k = Some v"
      and "rec_exc_info r = None \<or> k \<noteq> ''exception''"
  shows "dict_get (svc_LogFormatter_log_entry now r) k = Some v"
  using assms(1,4) dict_update_field_wins [OF assms(2,3)]
  by (auto simp: svc_LogFormatter_log_entry_def Let_def dict_get_def map_of_dict_set
      split: option.splits)

lemma router_StructuredFormatter_field_overrides:
  assumes "rec_extra_data r = Some e" and "distinct (map fst e)" and "map_of e k = Some v"
      and "rec_exc_info r = None \<or> k \<noteq> ''exception''"
  shows "dict_get (router_StructuredFormatter_log_entry now r) k = Some v"
  using assms(1,4) dict_update_field_wins [OF assms(2,3)]
  by (auto simp: router_StructuredFormatter_log_entry_def Let_def dict_get_def map_of_dict_set
      split: option.splits)

text \<open>
  The formatter of models/logger.py, by contrast: it never raises, it reads no clock
  (it is a function of the record alone), and no field of the caller can replace one
  of its fixed keys, since the fields are nested under \<open>extra_data\<close>.
\<close>

lemma models_StructuredFormatter_total:
  "\<exists>text. models_StructuredFormatter_format r = Inr text"
  by (simp add: models_StructuredFormatter_format_def)

lemma models_StructuredFormatter_fixed_keys_kept:
  "k \<noteq> ''extra_data'' \<Longrightarrow>
   dict_get (models_StructuredFormatter_log_data r) k =
   dict_get (models_StructuredFormatter_log_data (r\<lparr>rec_extra_data := None\<rparr>)) k"
  by (simp add: models_StructuredFormatter_log_data_def Let_def dict_get_def map_of_dict_set
      getMessage_def split: option.splits)

text \<open>
  C2 fails on the code. The record below, rendered at two readings of the clock, gives
  two different texts with either merging formatter (the timestamp is the time of
  rendering, not of the record), and the same record with a field value that
  \<open>json\<close> cannot encode makes either formatter raise \<open>TypeError\<close>.
\<close>

theorem C2_render_reads_clock_and_raises:
  \<open>svc_LogFormatter_format (2024, 1, 2, 3, 4, 5, 0) (example_record None)
     = Inr ''{"timestamp": "2024-01-02T03:04:05", "level": "ERROR", "logger": "svc", "message": "boom", "module": "app", "function": "run", "line": 7}''
   \<and> svc_LogFormatter_format (2024, 1, 2, 3, 4, 6, 0) (example_record None)
     = Inr ''{"timestamp": "2024-01-02T03:04:06", "level": "ERROR", "logger": "svc", "message": "boom", "module": "app", "function": "run", "line": 7}''
   \<and> router_StructuredFormatter_format (2024, 1, 2, 3, 4, 5, 0) (example_record None)
       \<noteq> router_StructuredFormatter_format (2024, 1, 2, 3, 4, 6, 0) (example_record None)
   \<and> svc_LogFormatter_format (2024, 1, 2, 3, 4, 5, 0)
         (example_record (Some [(''when'', JOpaque ''2024-01-02 03:04:05'')]))
     = Inl (TypeError ''Object is not JSON serializable'')
   \<and> router_StructuredFormatter_format (2024, 1, 2, 3, 4, 5, 0)
         (example_record (Some [(''when'', JOpaque ''2024-01-02 03:04:05'')]))
     = Inl (TypeError ''Object is not JSON serializable'')\<close>
  by (simp add: render_simps)

text \<open>
  C3 fails on the code. A record at level \<open>ERROR\<close> whose fields carry the key
  \<open>level\<close> is rendered, by either merging formatter, with the field's value under
  \<open>level\<close>: the field wins, not the fixed key.
\<close>

theorem C3_field_replaces_fixed_key:
  \<open>svc_LogFormatter_format (2024, 1, 2, 3, 4, 5, 0)
       (example_record (Some [(''level'', JStr ''DEBUG''), (''code'', JInt 500)]))
     = Inr ''{"timestamp": "2024-01-02T03:04:05", "level": "DEBUG", "logger": "svc", "message": "boom", "module": "app", "function": "run", "line": 7, "code": 500}''
   \<and> router_StructuredFormatter_format (2024, 1, 2, 3, 4, 5, 0)
       (example_record (Some [(''level'', JStr ''DEBUG''), (''code'', JInt 500)]))
     = Inr ''{"timestamp": "2024-01-02T03:04:05", "level": "DEBUG", "logger": "svc", "message": "boom", "module": "app", "function": "run", "line": 7, "code": 500}''
   \<and> rec_levelname (example_record (Some [(''level'', JStr ''DEBUG''), (''code'', JInt 500)]))
     = ''ERROR''
   \<and> dict_get (svc_LogFormatter_log_entry (2024, 1, 2, 3, 4, 5, 0)
         (example_record (Some [(''level'', JStr ''DEBUG''), (''code'', JInt 500)]))) ''level''
     = Some (JStr ''DEBUG'')\<close>
  by (simp add: render_simps)

section \<open>Decoding what the encoder wrote\<close>

subsection \<open>Integers\<close>

lemma digit_char_is_digit: "n < 10 \<Longrightarrow> is_digit (digit_char n)"
  by (simp add: is_digit_def digit_char_def)

lemma digit_val_digit_char: "n < 10 \<Longrightarrow> digit_val (digit_char n) = n"
  by (simp add: digit_val_def digit_char_def)

lemma show_nat_unfold:
  "show_nat n = (if n < 10 then [digit_char n] else show_nat (n div 10) @ [digit_char (n mod 10)])"
  by (rule show_nat.simps)

lemma read_digits_show_nat:
  "read_digits acc (show_nat n @ r) = read_digits (acc * 10 ^ length (show_nat n) + n) r"
proof (induction n arbitrary: acc r rule: show_nat.induct)
  case (1 n)
  show ?case
  proof (cases "n < 10")
    case True
    then show ?thesis
      by (subst (1 2) show_nat_unfold)
         (simp add: digit_char_is_digit digit_val_digit_char mult.commute)
  next
    case False
    have d: "n mod 10 < 10" by simp
    have "read_digits acc (show_nat n @ r)
            = read_digits acc (show_nat (n div 10) @ (digit_char (n mod 10) # r))"
      using False by (subst show_nat_unfold) simp
    also have "\<dots> = read_digits (acc * 10 ^ length (show_nat (n div 10)) + n div 10)
                       (digit_char (n mod 10) # r)"
      using "1.IH" [OF False] by simp
    also have "\<dots> = read_digits (10 * (acc * 10 ^ length (show_nat (n div 10)) + n div 10) + n mod 10) r"
      by (simp add: digit_char_is_digit [OF d] digit_val_digit_char [OF d])
    also have "10 * (acc * 10 ^ length (show_nat (n div 10)) + n div 10) + n mod 10
                 = acc * 10 ^ length (show_nat n) + n"
      using False by (subst (2) show_nat_unfold) (simp add: algebra_simps)
    finally show ?thesis .
  qed
qed

lemma read_digits_stop: "ok_tail r \<Longrightarrow> read_digits acc r = (acc, r)"
  by (cases r) (simp_all add: ok_tail_def)

lemma show_nat_head: "\<exists>d ds. show_nat n = d # ds \<and> is_digit d"
proof (induction n rule: show_nat.induct)
  case (1 n)
  show ?case
  proof (cases "n < 10")
    case True
    then show ?thesis by (subst show_nat_unfold) (simp add: digit_char_is_digit)
  next
    case False
    with "1.IH" obtain d ds where "show_nat (n div 10) = d # ds" "is_digit d" by blast
    with False show ?thesis by (subst show_nat_unfold) simp
  qed
qed

lemma is_digit_not_minus: "is_digit c \<Longrightarrow> c \<noteq> CHR ''-''"
  by (auto simp: is_digit_def)

lemma parse_int_show_int:
  assumes "ok_tail r"
  shows "parse_int (show_int i @ r) = Some (i, r)"
proof (cases "i < 0")
  case True
  obtain d ds where h: "show_nat (nat (- i)) = d # ds" "is_digit d"
    using show_nat_head by blast
  have "read_digits 0 (show_nat (nat (- i)) @ r) = (nat (- i), r)"
    by (simp add: read_digits_show_nat read_digits_stop [OF assms])
  with h True show ?thesis
    by (simp add: parse_int_def show_int_def)
next
  case False
  obtain d ds where h: "show_nat (nat i) = d # ds" "is_digit d"
    using show_nat_head by blast
  have "read_digits 0 (show_nat (nat i) @ r) = (nat i, r)"
    by (simp add: read_digits_show_nat read_digits_stop [OF assms])
  with h False show ?thesis
    by (simp add: parse_int_def show_int_def is_digit_not_minus)
qed

subsection \<open>Strings\<close>

lemma hex_val_hex_digit: "k < 16 \<Longrightarrow> hex_val (hex_digit k) = Some k"
  by (auto simp: hex_val_def hex_digit_def Let_def)

lemma hex_val_zero: "hex_val (CHR ''0'') = Some 0"
  by (simp add: hex_val_def)

lemma hex4_escape:
  "hex4 (CHR ''0'') (CHR ''0'') (hex_digit ((of_char c :: nat) div 16))
        (hex_digit ((of_char c :: nat) mod 16)) = Some c"
proof -
  have lt: "(of_char c :: nat) < 256" by (rule nat_of_char_less_256)
  then have hi: "(of_char c :: nat) div 16 < 16" by presburger
  have lo: "(of_char c :: nat) mod 16 < 16" by simp
  have "(of_char c :: nat) div 16 * 16 + (of_char c :: nat) mod 16 = of_char c" by simp
  with lt show ?thesis
    by (simp add: hex4_def hex_val_zero hex_val_hex_digit [OF hi] hex_val_hex_digit [OF lo])
qed

lemma parse_str_body_escape_char:
  "parse_str_body (escape_char ea c @ rest) = map_option (apfst ((#) c)) (parse_str_body rest)"
  by (simp add: escape_char_def escape_u_def unescape_def hex4_escape)

lemma parse_str_body_escaped:
  "parse_str_body (concat (map (escape_char ea) s) @ CHR 0x22 # r) = Some (s, r)"
  by (induction s) (simp_all add: parse_str_body_escape_char)

lemma parse_enc_str:
  "enc_str ea s @ r = CHR 0x22 # concat (map (escape_char ea) s) @ CHR 0x22 # r"
  by (simp add: enc_str_def)

subsection \<open>Documents\<close>

lemma skip_ws_nonws: "\<not> is_ws c \<Longrightarrow> skip_ws (c # s) = c # s"
  by (simp add: skip_ws_def)

lemma skip_ws_space: "skip_ws (CHR '' '' # s) = skip_ws s"
  by (simp add: skip_ws_def is_ws_def)

lemma parse_value_space: "parse_value n (CHR '' '' # s) = parse_value n s"
  by (cases n) (simp_all add: skip_ws_space)

lemma parse_items_space: "parse_items n (CHR '' '' # s) = parse_items n s"
  by (cases n) (simp_all add: parse_value_space)

lemma parse_members_space: "parse_members n (CHR '' '' # s) = parse_members n s"
  by (cases n) (simp_all add: skip_ws_space)

lemma ok_tail_punct:
  "ok_tail (CHR '']'' # r)" "ok_tail (CHR ''}'' # r)" "ok_tail (CHR '','' # r)" "ok_tail []"
  by (simp_all add: ok_tail_def is_digit_def)

lemma show_int_head: "\<exists>c cs. show_int i = c # cs \<and> (c = CHR ''-'' \<or> is_digit c)"
  using show_nat_head [of "nat i"] by (auto simp: show_int_def)

lemma number_start:
  assumes "c = CHR ''-'' \<or> is_digit c"
  shows "\<not> is_ws c" "c \<noteq> CHR ''n''" "c \<noteq> CHR ''t''" "c \<noteq> CHR ''f''" "c \<noteq> CHR 0x22"
        "c \<noteq> CHR ''[''" "c \<noteq> CHR ''{''" "c \<noteq> CHR '']''"
  using assms by (auto simp: is_digit_def is_ws_def)

lemma enc_head:
  "serializable v \<Longrightarrow> \<exists>c cs. enc ea v = c # cs \<and> \<not> is_ws c \<and> c \<noteq> CHR '']''"
proof (cases v)
  case (JInt i)
  obtain c cs where "show_int i = c # cs" "c = CHR ''-'' \<or> is_digit c"
    using show_int_head by blast
  with JInt number_start [of c] show ?thesis by simp
qed (auto simp: is_ws_def enc_str_def)

lemma enc_items_head:
  "serializable_items xs \<Longrightarrow> xs \<noteq> [] \<Longrightarrow>
   \<exists>c cs. enc_items ea xs = c # cs \<and> \<not> is_ws c \<and> c \<noteq> CHR '']''"
proof (cases xs)
  case Nil
  assume "xs \<noteq> []"
  with Nil show ?thesis by simp
next
  case (Cons x xs')
  assume "serializable_items xs"
  with Cons have "serializable x" by simp
  from enc_head [OF this, of ea] obtain c cs where "enc ea x = c # cs" "\<not> is_ws c" "c \<noteq> CHR '']''"
    by blast
  with Cons show ?thesis by simp
qed

lemma enc_members_head:
  "kvs \<noteq> [] \<Longrightarrow> \<exists>cs. enc_members ea kvs = CHR 0x22 # cs"
  by (cases kvs) (auto simp: enc_str_def)

lemma quote_facts: "\<not> is_ws (CHR 0x22)" "CHR 0x22 \<noteq> CHR ''}''"
  by (simp_all add: is_ws_def)

lemma parse_enc:
  "serializable v \<Longrightarrow> length (enc ea v) < n \<Longrightarrow> ok_tail r \<Longrightarrow>
     parse_value n (enc ea v @ r) = Some (json_normal v, r)"
  "serializable_items xs \<Longrightarrow> xs \<noteq> [] \<Longrightarrow> length (enc_items ea xs) + 2 \<le> n \<Longrightarrow>
     parse_items n (enc_items ea xs @ CHR '']'' # r) = Some (normal_items xs, r)"
  "serializable_members kvs \<Longrightarrow> kvs \<noteq> [] \<Longrightarrow> length (enc_members ea kvs) + 2 \<le> n \<Longrightarrow>
     parse_members n (enc_members ea kvs @ CHR ''}'' # r) = Some (normal_members kvs, r)"
proof (induction ea v and ea xs and ea kvs arbitrary: n r and n r and n r
       rule: enc_enc_items_enc_members.induct)
  case (1 ea)
  then obtain k where "n = Suc k" by (cases n) auto
  then show ?case by (simp add: skip_ws_nonws is_ws_def)
next
  case (2 ea b)
  then obtain k where "n = Suc k" by (cases n) auto
  then show ?case by (simp add: skip_ws_nonws is_ws_def)
next
  case (3 ea i)
  then obtain k where n: "n = Suc k" by (cases n) auto
  obtain c cs where h: "show_int i = c # cs" "c = CHR ''-'' \<or> is_digit c"
    using show_int_head by blast
  have "parse_int (c # cs @ r) = Some (i, r)"
    using parse_int_show_int [OF "3.prems"(3), of i] h(1) by simp
  with h number_start [OF h(2)] show ?case
    by (simp add: n skip_ws_nonws)
next
  case (4 ea s)
  then obtain k where "n = Suc k" by (cases n) auto
  then show ?case
    by (simp add: enc_str_def skip_ws_nonws quote_facts parse_str_body_escaped)
next
  case (5 ea xs)
  then obtain k where n: "n = Suc k" by (cases n) auto
  show ?case
  proof (cases "xs = []")
    case True
    then show ?thesis by (simp add: n skip_ws_nonws is_ws_def)
  next
    case False
    from "5.prems"(1) have ser: "serializable_items xs" by simp
    from enc_items_head [OF ser False, of ea]
    obtain c cs where h: "enc_items ea xs = c # cs" "\<not> is_ws c" "c \<noteq> CHR '']''" by blast
    from "5.prems"(2) have "length (enc_items ea xs) + 2 \<le> k" by (simp add: n)
    from "5.IH" [OF ser False this, of r]
    have "parse_items k (enc_items ea xs @ CHR '']'' # r) = Some (normal_items xs, r)" .
    with h show ?thesis
      by (simp add: n skip_ws_nonws is_ws_def)
  qed
next
  case (6 ea xs)
  then obtain k where n: "n = Suc k" by (cases n) auto
  show ?case
  proof (cases "xs = []")
    case True
    then show ?thesis by (simp add: n skip_ws_nonws is_ws_def)
  next
    case False
    from "6.prems"(1) have ser: "serializable_items xs" by simp
    from enc_items_head [OF ser False, of ea]
    obtain c cs where h: "enc_items ea xs = c # cs" "\<not> is_ws c" "c \<noteq> CHR '']''" by blast
    from "6.prems"(2) have "length (enc_items ea xs) + 2 \<le> k" by (simp add: n)
    from "6.IH" [OF ser False this, of r]
    have "parse_items k (enc_items ea xs @ CHR '']'' # r) = Some (normal_items xs, r)" .
    with h show ?thesis
      by (simp add: n skip_ws_nonws is_ws_def)
  qed
next
  case (7 ea kvs)
  then obtain k where n: "n = Suc k" by (cases n) auto
  show ?case
  proof (cases "kvs = []")
    case True
    then show ?thesis by (simp add: n skip_ws_nonws is_ws_def)
  next
    case False
    from "7.prems"(1) have ser: "serializable_members kvs" by simp
    from enc_members_head [OF False, of ea]
    obtain cs where h: "enc_members ea kvs = CHR 0x22 # cs" by blast
    from "7.prems"(2) have "length (enc_members ea kvs) + 2 \<le> k" by (simp add: n)
    from "7.IH" [OF ser False this, of r]
    have "parse_members k (enc_members ea kvs @ CHR ''}'' # r) = Some (normal_members kvs, r)" .
    with h show ?thesis
      by (simp add: n skip_ws_nonws is_ws_def)
  qed
next
  case (8 ea s)
  then show ?case by simp
next
  case (9 ea)
  then show ?case by simp
next
  case (10 ea x xs)
  from "10.prems"(1) have sx: "serializable x" and sxs: "serializable_items xs" by simp_all
  from "10.prems"(3) obtain k where n: "n = Suc k" by (cases n) auto
  show ?case
  proof (cases "xs = []")
    case True
    from "10.prems"(3) have "length (enc ea x) < k" by (simp add: n True)
    from "10.IH"(1) [OF True sx this ok_tail_punct(1)]
    have "parse_value k (enc ea x @ CHR '']'' # r) = Some (json_normal x, CHR '']'' # r)" .
    then show ?thesis
      by (simp add: n True skip_ws_nonws is_ws_def)
  next
    case False
    from "10.prems"(3) False have lx: "length (enc ea x) < k"
      and lxs: "length (enc_items ea xs) + 2 \<le> k" by (simp_all add: n)
    from "10.IH"(2) [OF False sx lx ok_tail_punct(3)]
    have px: "parse_value k (enc ea x @ CHR '','' # CHR '' '' # enc_items ea xs @ CHR '']'' # r)
                = Some (json_normal x, CHR '','' # CHR '' '' # enc_items ea xs @ CHR '']'' # r)" .
    from "10.IH"(3) [OF False sxs False lxs]
    have pxs: "parse_items k (enc_items ea xs @ CHR '']'' # r) = Some (normal_items xs, r)" .
    from px pxs False show ?thesis
      by (simp add: n skip_ws_nonws is_ws_def parse_items_space)
  qed
next
  case (11 ea)
  then show ?case by simp
next
  case (12 ea kv kvs)
  from "12.prems"(1) have sv: "serializable (snd kv)" and skvs: "serializable_members kvs"
    by simp_all
  from "12.prems"(3) obtain k where n: "n = Suc k" by (cases n) auto
  have key: "parse_str_body (concat (map (escape_char ea) (key_text (fst kv))) @ CHR 0x22 # rest)
               = Some (key_text (fst kv), rest)" for rest
    by (rule parse_str_body_escaped)
  show ?case
  proof (cases "kvs = []")
    case True
    from "12.prems"(3) have "length (enc ea (snd kv)) < k" by (simp add: n True)
    from "12.IH"(1) [OF True sv this ok_tail_punct(2)]
    have "parse_value k (enc ea (snd kv) @ CHR ''}'' # r) = Some (json_normal (snd kv), CHR ''}'' # r)" .
    then show ?thesis
      by (simp add: n True enc_str_def skip_ws_nonws is_ws_def key parse_value_space)
  next
    case False
    from "12.prems"(3) False have lv: "length (enc ea (snd kv)) < k"
      and lkvs: "length (enc_members ea kvs) + 2 \<le> k" by (simp_all add: n)
    from "12.IH"(2) [OF False sv lv ok_tail_punct(3)]
    have pv: "parse_value k (enc ea (snd kv) @ CHR '','' # CHR '' '' # enc_members ea kvs @ CHR ''}'' # r)
                = Some (json_normal (snd kv), CHR '','' # CHR '' '' # enc_members ea kvs @ CHR ''}'' # r)" .
    from "12.IH"(3) [OF False skvs False lkvs]
    have pkvs: "parse_members k (enc_members ea kvs @ CHR ''}'' # r) = Some (normal_members kvs, r)" .
    from pv pkvs False show ?thesis
      by (simp add: n enc_str_def skip_ws_nonws is_ws_def key parse_value_space
          parse_members_space)
  qed
qed

text \<open>
  Whatever \<open>json.dumps\<close> returns, \<open>json.loads\<close> reads back as the normal form of the
  value dumped: its tuples as lists, the keys of its dictionaries as strings.
\<close>

lemma json_loads_dumps:
  assumes "json_dumps ea v = Inr text"
  shows "json_loads text = Some (json_normal v)"
proof -
  from assms have ser: "serializable v" and t: "text = enc ea v"
    by (auto simp: json_dumps_def split: if_splits)
  from parse_enc(1) [OF ser _ ok_tail_punct(4), of ea "Suc (length (enc ea v))"]
  have "parse_value (Suc (length (enc ea v))) (enc ea v) = Some (json_normal v, [])" by simp
  then show ?thesis
    by (simp add: json_loads_def t skip_ws_def)
qed

subsection \<open>Values that come back as they were\<close>

lemma dict_set_fresh: "k \<notin> fst ` set d \<Longrightarrow> dict_set k v d = d @ [(k, v)]"
  by (induction d) auto

lemma dict_update_distinct:
  "distinct (map fst e) \<Longrightarrow> fst ` set d \<inter> fst ` set e = {} \<Longrightarrow> dict_update d e = d @ e"
proof (induction e arbitrary: d)
  case Nil
  then show ?case by simp
next
  case (Cons kv e)
  obtain k v where kv: "kv = (k, v)" by (cases kv)
  from Cons.prems kv have fresh: "k \<notin> fst ` set d" by auto
  from Cons.prems kv have "distinct (map fst e)"
    and "fst ` set (d @ [(k, v)]) \<inter> fst ` set e = {}" by auto
  from Cons.IH [OF this] show ?case
    by (simp add: kv dict_set_fresh [OF fresh])
qed

lemma dict_update_empty_distinct: "distinct (map fst e) \<Longrightarrow> dict_update [] e = e"
  using dict_update_distinct [of e "[]"] by simp

lemma normal_members_keys:
  "native_members kvs \<Longrightarrow> map fst (normal_members kvs) = map fst kvs"
proof (induction kvs)
  case Nil
  then show ?case by simp
next
  case (Cons kv kvs)
  then show ?case by (cases "fst kv") simp_all
qed

lemma json_native_normal:
  "json_native v \<Longrightarrow> json_normal v = v"
  "native_items xs \<Longrightarrow> normal_items xs = xs"
  "native_members kvs \<Longrightarrow> normal_members kvs = kvs"
proof (induction v and xs and kvs rule: json_normal_normal_items_normal_members.induct)
  case (7 kvs)
  then have n: "normal_members kvs = kvs" and d: "distinct (map fst kvs)" by simp_all
  show ?case by (simp add: n dict_update_empty_distinct [OF d])
next
  case (12 kv kvs)
  then have "json_normal (snd kv) = snd kv" and "normal_members kvs = kvs"
    and "str_key (fst kv) \<noteq> None" by simp_all
  then show ?case by (cases kv; cases "fst kv") simp_all
qed simp_all

lemma json_native_serializable:
  "json_native v \<Longrightarrow> serializable v"
  "native_items xs \<Longrightarrow> serializable_items xs"
  "native_members kvs \<Longrightarrow> serializable_members kvs"
  by (induction v and xs and kvs rule: serializable_serializable_items_serializable_members.induct)
     simp_all

text \<open>
  A value of JSON is read back as it was written; a tuple is read back as a list, and a
  key that is not a string as a string.
\<close>

lemma json_loads_dumps_native:
  assumes "json_native v"
  shows "\<exists>text. json_dumps ea v = Inr text \<and> json_loads text = Some v"
proof -
  have d: "json_dumps ea v = Inr (enc ea v)"
    using json_native_serializable(1) [OF assms] by (simp add: json_dumps_def)
  from json_loads_dumps [OF d] json_native_normal(1) [OF assms] d show ?thesis by simp
qed

subsection \<open>Dictionaries with string keys\<close>

lemma str_keyed_object: "str_keyed (map (\<lambda>kv. (KStr (fst kv), snd kv)) d) = Some d"
  by (induction d) simp_all

lemma object_dict_set:
  "map (\<lambda>kv. (KStr (fst kv), snd kv)) (dict_set k v d)
     = dict_set (KStr k) v (map (\<lambda>kv. (KStr (fst kv), snd kv)) d)"
  by (induction d) auto

lemma object_dict_update:
  "map (\<lambda>kv. (KStr (fst kv), snd kv)) (dict_update d e)
     = dict_update (map (\<lambda>kv. (KStr (fst kv), snd kv)) d) (map (\<lambda>kv. (KStr (fst kv), snd kv)) e)"
proof (induction e arbitrary: d)
  case Nil
  then show ?case by simp
next
  case (Cons kv e)
  obtain k v where kv: "kv = (k, v)" by (cases kv)
  show ?case by (simp add: kv Cons.IH object_dict_set)
qed

lemma normal_members_object:
  "normal_members (map (\<lambda>kv. (KStr (fst kv), snd kv)) d)
     = map (\<lambda>kv. (KStr (fst kv), snd kv)) (map (\<lambda>kv. (fst kv, json_normal (snd kv))) d)"
  by (induction d) simp_all

lemma object_fields_normal_object:
  "object_fields (json_normal (json_object d))
     = Some (dict_update [] (map (\<lambda>kv. (fst kv, json_normal (snd kv))) d))"
proof -
  have "dict_update [] (map (\<lambda>kv. (KStr (fst kv), snd kv)) (map (\<lambda>kv. (fst kv, json_normal (snd kv))) d))
          = map (\<lambda>kv. (KStr (fst kv), snd kv))
              (dict_update [] (map (\<lambda>kv. (fst kv, json_normal (snd kv))) d))"
    using object_dict_update [of "[]" "map (\<lambda>kv. (fst kv, json_normal (snd kv))) d"] by simp
  then show ?thesis
    by (simp add: json_object_def normal_members_object str_keyed_object)
qed

lemma native_items_normal_values:
  "native_items (map snd d) \<Longrightarrow> map (\<lambda>kv. (fst kv, json_normal (snd kv))) d = d"
  by (induction d) (simp_all add: json_native_normal(1))

section \<open>The repository (repositories/logger_repository.py)\<close>

lemma find_append_none:
  "find P xs = None \<Longrightarrow> find P (xs @ ys) = find P ys"
  by (induction xs) (auto split: if_splits)

lemma le_id_less_next:
  assumes "r \<in> set rows"
  shows "le_id r < db_next_id rows"
proof -
  from assms have ne: "rows \<noteq> []" by auto
  have "le_id r \<in> set (map le_id rows)" using assms by simp
  then have "le_id r \<le> Max (set (map le_id rows))" by (intro Max_ge) auto
  with ne show ?thesis by (simp add: db_next_id_def)
qed

lemma find_next_id_none: "find (\<lambda>r. le_id r = db_next_id rows) rows = None"
proof -
  have "\<forall>r \<in> set rows. le_id r \<noteq> db_next_id rows"
    using le_id_less_next by fastforce
  then show ?thesis by (simp add: find_None_iff)
qed

text \<open>A row that \<open>create\<close> returns is the row that \<open>get_by_id\<close> finds.\<close>

lemma create_then_get_by_id:
  assumes "LogRepository_create ts created_at d s = (Inr row, s')"
      and "\<not> db_exec_fails s"
  shows "LogRepository_get_by_id (le_id row) s' = Inr (Some row)"
proof -
  from assms(1) obtain blob where
    row: "row = \<lparr>le_id = db_next_id (db_rows s), le_timestamp = ts,
                  le_level = rc_level d, le_message = rc_message d,
                  le_module = rc_module d, le_function = rc_function d,
                  le_line_number = rc_line_number d, le_extra_data = blob,
                  le_created_at = created_at, le_updated_at = None\<rparr>"
    and s': "s' = s\<lparr>db_rows := db_rows s @ [row]\<rparr>"
    by (auto simp: LogRepository_create_def Let_def split: sum.splits if_splits)
  have id: "le_id row = db_next_id (db_rows s)" by (simp add: row)
  have "find (\<lambda>r. le_id r = le_id row) (db_rows s @ [row]) = Some row"
    unfolding id using find_append_none [OF find_next_id_none] by (simp add: id)
  with assms(2) show ?thesis
    by (simp add: LogRepository_get_by_id_def s')
qed

subsection \<open>Queries\<close>

text \<open>
  \<open>get_all\<close> and \<open>get_by_level\<close>: at most \<open>limit\<close> rows, in descending order of
  timestamp, the first \<open>skip\<close> rows of the ordered set left out.
\<close>

lemma order_by_timestamp_desc_sorted:
  "sorted_wrt (\<lambda>a b. le_timestamp a \<ge> le_timestamp b) (order_by_timestamp_desc rows)"
proof -
  have "sorted (map le_timestamp (sort_key le_timestamp rows))"
    by (rule sorted_sort_key)
  then have "sorted_wrt (\<lambda>a b. le_timestamp a \<le> le_timestamp b) (sort_key le_timestamp rows)"
    by (simp add: sorted_wrt_map)
  then show ?thesis
    by (simp add: order_by_timestamp_desc_def sorted_wrt_rev)
qed

lemma LogRepository_get_all_page:
  assumes "LogRepository_get_all skip limit s = Inr page"
  shows "length page \<le> limit"
    and "sorted_wrt (\<lambda>a b. le_timestamp a \<ge> le_timestamp b) page"
    and "page = take limit (drop skip (order_by_timestamp_desc (db_rows s)))"
    and "set (order_by_timestamp_desc (db_rows s)) = set (db_rows s)"
    and "length (order_by_timestamp_desc (db_rows s)) = length (db_rows s)"
proof -
  from assms have p: "page = take limit (drop skip (order_by_timestamp_desc (db_rows s)))"
    by (auto simp: LogRepository_get_all_def split: if_splits)
  show "page = take limit (drop skip (order_by_timestamp_desc (db_rows s)))" by (rule p)
  show "length page \<le> limit" by (simp add: p)
  show "sorted_wrt (\<lambda>a b. le_timestamp a \<ge> le_timestamp b) page"
    unfolding p by (intro sorted_wrt_take sorted_wrt_drop order_by_timestamp_desc_sorted)
  show "set (order_by_timestamp_desc (db_rows s)) = set (db_rows s)"
    by (simp add: order_by_timestamp_desc_def)
  show "length (order_by_timestamp_desc (db_rows s)) = length (db_rows s)"
    by (simp add: order_by_timestamp_desc_def)
qed

lemma LogRepository_get_by_level_page:
  assumes "LogRepository_get_by_level level skip limit s = Inr page"
  shows "length page \<le> limit"
    and "sorted_wrt (\<lambda>a b. le_timestamp a \<ge> le_timestamp b) page"
    and "\<forall>r \<in> set page. le_level r = level"
proof -
  let ?m = "filter (\<lambda>r. le_level r = level) (db_rows s)"
  from assms have p: "page = take limit (drop skip (order_by_timestamp_desc ?m))"
    by (auto simp: LogRepository_get_by_level_def split: if_splits)
  show "length page \<le> limit" by (simp add: p)
  show "sorted_wrt (\<lambda>a b. le_timestamp a \<ge> le_timestamp b) page"
    unfolding p by (intro sorted_wrt_take sorted_wrt_drop order_by_timestamp_desc_sorted)
  have "set page \<subseteq> set (order_by_timestamp_desc ?m)"
    unfolding p by (meson set_take_subset set_drop_subset subset_trans)
  then show "\<forall>r \<in> set page. le_level r = level"
    by (auto simp: order_by_timestamp_desc_def)
qed

subsection \<open>Update\<close>

text \<open>
  C10: for a stored entry whose id exists, \<open>update\<close> with a request in which no field
  is set returns the entry with level, message, module, function, line number, extra
  data, timestamp and creation time as stored, and \<open>updated_at\<close> set to the current
  time: whenever the call returns an entry it is this one, and it does return it when
  the storage layer raises no fault.
\<close>

theorem C10_empty_update_touches_updated_at:
  assumes "LogRepository_get_by_id log_id s = Inr (Some db_log)"
  shows "(\<forall>e s'. LogRepository_update now log_id empty_update s = (Inr (Some e), s') \<longrightarrow>
            le_level e = le_level db_log \<and> le_message e = le_message db_log
            \<and> le_module e = le_module db_log \<and> le_function e = le_function db_log
            \<and> le_line_number e = le_line_number db_log
            \<and> le_extra_data e = le_extra_data db_log
            \<and> le_timestamp e = le_timestamp db_log \<and> le_created_at e = le_created_at db_log
            \<and> le_id e = le_id db_log \<and> le_updated_at e = Some now)
         \<and> (\<not> db_commit_fails s \<and> \<not> db_refresh_fails s \<longrightarrow>
              fst (LogRepository_update now log_id empty_update s)
                = Inr (Some (db_log\<lparr>le_updated_at := Some now\<rparr>)))"
  using assms
  by (auto simp: LogRepository_update_def empty_update_def apply_update_def update_rejected_def
      Let_def split: if_splits)

theorem C10_empty_update_witness:
  "LogRepository_update (2024, 1, 2, 3, 4, 9, 0) 1 empty_update
     \<lparr>db_rows = [repo_db_row example_ctx ERROR ''boom'' None (example_session False False)],
      db_exec_fails = False, db_commit_fails = False, db_refresh_fails = False\<rparr>
   = (Inr (Some ((repo_db_row example_ctx ERROR ''boom'' None (example_session False False))
                   \<lparr>le_updated_at := Some (2024, 1, 2, 3, 4, 9, 0)\<rparr>)),
      \<lparr>db_rows = [(repo_db_row example_ctx ERROR ''boom'' None (example_session False False))
                   \<lparr>le_updated_at := Some (2024, 1, 2, 3, 4, 9, 0)\<rparr>],
       db_exec_fails = False, db_commit_fails = False, db_refresh_fails = False\<rparr>)
   \<and> le_updated_at (repo_db_row example_ctx ERROR ''boom'' None (example_session False False)) = None"
proof -
  let ?row = "repo_db_row example_ctx ERROR ''boom'' None (example_session False False)"
  let ?s = "\<lparr>db_rows = [?row], db_exec_fails = False, db_commit_fails = False,
             db_refresh_fails = False\<rparr>"
  have id: "le_id ?row = 1"
    by (simp add: repo_db_row_def example_session_def db_next_id_def)
  have g: "LogRepository_get_by_id 1 ?s = Inr (Some ?row)"
    by (simp add: LogRepository_get_by_id_def id)
  have r: "fst (LogRepository_update (2024, 1, 2, 3, 4, 9, 0) 1 empty_update ?s)
             = Inr (Some (?row\<lparr>le_updated_at := Some (2024, 1, 2, 3, 4, 9, 0)\<rparr>))"
    using C10_empty_update_touches_updated_at [OF g, of "(2024, 1, 2, 3, 4, 9, 0)"] by simp
  have s: "snd (LogRepository_update (2024, 1, 2, 3, 4, 9, 0) 1 empty_update ?s)
             = ?s\<lparr>db_rows := [?row\<lparr>le_updated_at := Some (2024, 1, 2, 3, 4, 9, 0)\<rparr>]\<rparr>"
    by (simp add: LogRepository_update_def g empty_update_def apply_update_def
        update_rejected_def Let_def id)
  have "le_updated_at ?row = None" by (simp add: repo_db_row_def)
  with r s show ?thesis by (simp add: prod_eq_iff)
qed

subsection \<open>Create, then read\<close>

text \<open>
  C5 fails on the code. A request whose fields are the empty dictionary is created with
  success, and what is stored, and returned by \<open>get_by_id\<close> for its id, is the very
  entry (without blob) that is stored for the request without fields: whatever reads
  the entry back cannot give the empty dictionary for the one and no fields for the
  other. And a request whose fields hold the tuple \<open>(1, 2)\<close> is stored with the blob
  of the request that holds the list \<open>[1, 2]\<close>, which reads back as that list.
\<close>

theorem C5_counterexample:
  \<open>LogRepository_create (2024, 1, 2, 3, 4, 5, 0) (2024, 1, 2, 3, 4, 5, 1)
       (example_draft (Some [])) (example_session False False)
     = LogRepository_create (2024, 1, 2, 3, 4, 5, 0) (2024, 1, 2, 3, 4, 5, 1)
         (example_draft None) (example_session False False)
   \<and> fst (LogRepository_create (2024, 1, 2, 3, 4, 5, 0) (2024, 1, 2, 3, 4, 5, 1)
          (example_draft (Some [])) (example_session False False))
     = Inr (repo_db_row example_ctx ERROR ''boom'' None (example_session False False)
              \<lparr>le_timestamp := (2024, 1, 2, 3, 4, 5, 0), le_created_at := (2024, 1, 2, 3, 4, 5, 1)\<rparr>)
   \<and> LogRepository_get_by_id 1
        (snd (LogRepository_create (2024, 1, 2, 3, 4, 5, 0) (2024, 1, 2, 3, 4, 5, 1)
                (example_draft (Some [])) (example_session False False)))
     = Inr (Some (repo_db_row example_ctx ERROR ''boom'' None (example_session False False)
              \<lparr>le_timestamp := (2024, 1, 2, 3, 4, 5, 0), le_created_at := (2024, 1, 2, 3, 4, 5, 1)\<rparr>))
   \<and> rc_extra_data (example_draft (Some [])) = Some []
   \<and> rc_extra_data (example_draft None) = None
   \<and> fst (LogRepository_create (2024, 1, 2, 3, 4, 5, 0) (2024, 1, 2, 3, 4, 5, 1)
          (example_draft (Some [(''t'', JTuple [JInt 1, JInt 2])])) (example_session False False))
     = Inr (repo_db_row example_ctx ERROR ''boom'' (Some ''{"t": [1, 2]}'')
              (example_session False False)
              \<lparr>le_timestamp := (2024, 1, 2, 3, 4, 5, 0), le_created_at := (2024, 1, 2, 3, 4, 5, 1)\<rparr>)
   \<and> LogRepository_create (2024, 1, 2, 3, 4, 5, 0) (2024, 1, 2, 3, 4, 5, 1)
       (example_draft (Some [(''t'', JTuple [JInt 1, JInt 2])])) (example_session False False)
     = LogRepository_create (2024, 1, 2, 3, 4, 5, 0) (2024, 1, 2, 3, 4, 5, 1)
         (example_draft (Some [(''t'', JList [JInt 1, JInt 2])])) (example_session False False)
   \<and> stored_fields (repo_db_row example_ctx ERROR ''boom'' (Some ''{"t": [1, 2]}'')
              (example_session False False)
              \<lparr>le_timestamp := (2024, 1, 2, 3, 4, 5, 0), le_created_at := (2024, 1, 2, 3, 4, 5, 1)\<rparr>)
     = Some (Some [(''t'', JList [JInt 1, JInt 2])])\<close>
proof -
  have dumps: \<open>json_dumps True (json_object [(''t'', JList [JInt 1, JInt 2])])
                 = Inr ''{"t": [1, 2]}''\<close>
    by (simp add: json_dumps_def json_object_def enc_str_def escape_char_def show_int_def
        digit_char_table)
  have loads: \<open>json_loads ''{"t": [1, 2]}'' = Some (JDict [(KStr ''t'', JList [JInt 1, JInt 2])])\<close>
    using json_loads_dumps [OF dumps] by (simp add: json_object_def)
  have read: \<open>stored_fields (repo_db_row example_ctx ERROR ''boom'' (Some ''{"t": [1, 2]}'')
              (example_session False False)
              \<lparr>le_timestamp := (2024, 1, 2, 3, 4, 5, 0), le_created_at := (2024, 1, 2, 3, 4, 5, 1)\<rparr>)
     = Some (Some [(''t'', JList [JInt 1, JInt 2])])\<close>
    by (simp add: stored_fields_def repo_db_row_def loads)
  have rest: \<open>LogRepository_create (2024, 1, 2, 3, 4, 5, 0) (2024, 1, 2, 3, 4, 5, 1)
       (example_draft (Some [])) (example_session False False)
     = LogRepository_create (2024, 1, 2, 3, 4, 5, 0) (2024, 1, 2, 3, 4, 5, 1)
         (example_draft None) (example_session False False)
   \<and> fst (LogRepository_create (2024, 1, 2, 3, 4, 5, 0) (2024, 1, 2, 3, 4, 5, 1)
          (example_draft (Some [])) (example_session False False))
     = Inr (repo_db_row example_ctx ERROR ''boom'' None (example_session False False)
              \<lparr>le_timestamp := (2024, 1, 2, 3, 4, 5, 0), le_created_at := (2024, 1, 2, 3, 4, 5, 1)\<rparr>)
   \<and> LogRepository_get_by_id 1
        (snd (LogRepository_create (2024, 1, 2, 3, 4, 5, 0) (2024, 1, 2, 3, 4, 5, 1)
                (example_draft (Some [])) (example_session False False)))
     = Inr (Some (repo_db_row example_ctx ERROR ''boom'' None (example_session False False)
              \<lparr>le_timestamp := (2024, 1, 2, 3, 4, 5, 0), le_created_at := (2024, 1, 2, 3, 4, 5, 1)\<rparr>))
   \<and> rc_extra_data (example_draft (Some [])) = Some []
   \<and> rc_extra_data (example_draft None) = None
   \<and> fst (LogRepository_create (2024, 1, 2, 3, 4, 5, 0) (2024, 1, 2, 3, 4, 5, 1)
          (example_draft (Some [(''t'', JTuple [JInt 1, JInt 2])])) (example_session False False))
     = Inr (repo_db_row example_ctx ERROR ''boom'' (Some ''{"t": [1, 2]}'')
              (example_session False False)
              \<lparr>le_timestamp := (2024, 1, 2, 3, 4, 5, 0), le_created_at := (2024, 1, 2, 3, 4, 5, 1)\<rparr>)
   \<and> LogRepository_create (2024, 1, 2, 3, 4, 5, 0) (2024, 1, 2, 3, 4, 5, 1)
       (example_draft (Some [(''t'', JTuple [JInt 1, JInt 2])])) (example_session False False)
     = LogRepository_create (2024, 1, 2, 3, 4, 5, 0) (2024, 1, 2, 3, 4, 5, 1)
         (example_draft (Some [(''t'', JList [JInt 1, JInt 2])])) (example_session False False)\<close>
    by (simp add: LogRepository_create_def repo_extra_data_json_def example_draft_def
        example_session_def repo_db_row_def example_ctx_def db_next_id_def Let_def
        LogRepository_get_by_id_def json_dumps_def json_object_def enc_str_def escape_char_def
        show_int_def digit_char_table)
  show ?thesis using conjI [OF rest read] unfolding conj_assoc .
qed

text \<open>
  C5, amended. The fields of a request are built from \<open>None\<close>, booleans, integers,
  strings, lists, tuples and dictionaries keyed by strings, integers, booleans or
  \<open>None\<close> (floats are outside the model). A successful \<open>create\<close> followed by
  \<open>get_by_id\<close> on the returned id (the lookup itself not failing) yields the stored
  entry, whose message and level are those of the request, and whose blob, read by
  \<open>json.loads\<close>, gives the fields of the request in the normal form of JSON: every
  tuple as a list and every key as the string written for it, a later key with the
  same string replacing the value of the earlier. So the fields read back are exactly
  those of the request when these are a non-empty dictionary of JSON values throughout
  (no tuple, string keys only); absent fields read back as absent; and an empty
  dictionary is stored without blob and reads back as absent.
\<close>

theorem C5_create_then_read:
  assumes "LogRepository_create ts created_at d s = (Inr row, s')"
      and "\<not> db_exec_fails s"
  shows "LogRepository_get_by_id (le_id row) s' = Inr (Some row)
         \<and> le_message row = rc_message d \<and> le_level row = rc_level d
         \<and> stored_fields row
             = Some (case rc_extra_data d of
                       None \<Rightarrow> None
                     | Some flds \<Rightarrow> if flds = [] then None else Some (fields_normal flds))
         \<and> (\<forall>flds. rc_extra_data d = Some flds \<and> flds \<noteq> [] \<and> fields_native flds
                \<longrightarrow> stored_fields row = Some (Some flds))"
proof -
  from assms(1) obtain blob where
    b: "repo_extra_data_json (rc_extra_data d) = Inr blob"
    and row: "le_message row = rc_message d" "le_level row = rc_level d" "le_extra_data row = blob"
    by (auto simp: LogRepository_create_def Let_def split: sum.splits if_splits)
  have read: "stored_fields row
          = Some (case rc_extra_data d of
                    None \<Rightarrow> None
                  | Some flds \<Rightarrow> if flds = [] then None else Some (fields_normal flds))"
  proof (cases "rc_extra_data d")
    case None
    with b row(3) show ?thesis by (simp add: repo_extra_data_json_def stored_fields_def)
  next
    case (Some flds)
    show ?thesis
    proof (cases "flds = []")
      case True
      with Some b row(3) show ?thesis by (simp add: repo_extra_data_json_def stored_fields_def)
    next
      case False
      from Some False b obtain enc_text
        where t1: "json_dumps True (json_object flds) = Inr enc_text" and t2: "blob = Some enc_text"
        by (auto simp: repo_extra_data_json_def split: sum.splits)
      from json_loads_dumps [OF t1]
      have "json_loads enc_text = Some (json_normal (json_object flds))" .
      with Some False t2 row(3) show ?thesis
        by (simp add: stored_fields_def object_fields_normal_object fields_normal_def)
    qed
  qed
  have exact: "stored_fields row = Some (Some flds)"
    if h: "rc_extra_data d = Some flds \<and> flds \<noteq> [] \<and> fields_native flds" for flds
  proof -
    from h have "distinct (map fst flds)" and "native_items (map snd flds)"
      by (simp_all add: fields_native_def)
    then have "fields_normal flds = flds"
      by (simp add: fields_normal_def native_items_normal_values dict_update_empty_distinct)
    with read h show ?thesis by simp
  qed
  from create_then_get_by_id [OF assms] row read exact show ?thesis by blast
qed

text \<open>
  A request whose fields hold a tuple and a dictionary with an integer key, and a
  request whose fields are values of JSON throughout.
\<close>

theorem C5_create_then_read_witness:
  \<open>LogRepository_get_by_id 1
     (snd (LogRepository_create (2024, 1, 2, 3, 4, 5, 0) (2024, 1, 2, 3, 4, 5, 1)
             (example_draft (Some [(''tags'', JTuple [JStr ''a'']), (''m'', JDict [(KInt 1, JNull)])]))
             (example_session False False)))
   = Inr (Some (repo_db_row example_ctx ERROR ''boom''
                  (Some ''{"tags": ["a"], "m": {"1": null}}'') (example_session False False)
            \<lparr>le_timestamp := (2024, 1, 2, 3, 4, 5, 0), le_created_at := (2024, 1, 2, 3, 4, 5, 1)\<rparr>))
   \<and> stored_fields (repo_db_row example_ctx ERROR ''boom''
                      (Some ''{"tags": ["a"], "m": {"1": null}}'') (example_session False False)
            \<lparr>le_timestamp := (2024, 1, 2, 3, 4, 5, 0), le_created_at := (2024, 1, 2, 3, 4, 5, 1)\<rparr>)
     = Some (Some [(''tags'', JList [JStr ''a'']), (''m'', JDict [(KStr ''1'', JNull)])])
   \<and> stored_fields (repo_db_row example_ctx ERROR ''boom''
                      (Some ''{"code": 500, "tags": ["a"]}'') (example_session False False)
            \<lparr>le_timestamp := (2024, 1, 2, 3, 4, 5, 0), le_created_at := (2024, 1, 2, 3, 4, 5, 1)\<rparr>)
     = Some (Some [(''code'', JInt 500), (''tags'', JList [JStr ''a''])])\<close>
proof -
  let ?d = "example_draft (Some [(''tags'', JTuple [JStr ''a'']), (''m'', JDict [(KInt 1, JNull)])])"
  let ?d2 = "example_draft (Some [(''code'', JInt 500), (''tags'', JList [JStr ''a''])])"
  let ?s = "example_session False False"
  let ?row = \<open>repo_db_row example_ctx ERROR ''boom''
                  (Some ''{"tags": ["a"], "m": {"1": null}}'') (example_session False False)
            \<lparr>le_timestamp := (2024, 1, 2, 3, 4, 5, 0), le_created_at := (2024, 1, 2, 3, 4, 5, 1)\<rparr>\<close>
  let ?row2 = \<open>repo_db_row example_ctx ERROR ''boom''
                  (Some ''{"code": 500, "tags": ["a"]}'') (example_session False False)
            \<lparr>le_timestamp := (2024, 1, 2, 3, 4, 5, 0), le_created_at := (2024, 1, 2, 3, 4, 5, 1)\<rparr>\<close>
  have c: "LogRepository_create (2024, 1, 2, 3, 4, 5, 0) (2024, 1, 2, 3, 4, 5, 1) ?d ?s
             = (Inr ?row, ?s\<lparr>db_rows := db_rows ?s @ [?row]\<rparr>)"
    by (simp add: LogRepository_create_def repo_extra_data_json_def example_draft_def
        example_session_def repo_db_row_def example_ctx_def db_next_id_def Let_def
        json_dumps_def json_object_def enc_str_def escape_char_def show_int_def digit_char_table)
  have c2: "LogRepository_create (2024, 1, 2, 3, 4, 5, 0) (2024, 1, 2, 3, 4, 5, 1) ?d2 ?s
             = (Inr ?row2, ?s\<lparr>db_rows := db_rows ?s @ [?row2]\<rparr>)"
    by (simp add: LogRepository_create_def repo_extra_data_json_def example_draft_def
        example_session_def repo_db_row_def example_ctx_def db_next_id_def Let_def
        json_dumps_def json_object_def enc_str_def escape_char_def show_int_def digit_char_table)
  have e: "\<not> db_exec_fails ?s" by (simp add: example_session_def)
  have i: "le_id ?row = 1"
    by (simp add: repo_db_row_def example_session_def db_next_id_def)
  have n: "rc_extra_data ?d2 = Some [(''code'', JInt 500), (''tags'', JList [JStr ''a''])]
           \<and> [(''code'', JInt 500), (''tags'', JList [JStr ''a''])] \<noteq> []
           \<and> fields_native [(''code'', JInt 500), (''tags'', JList [JStr ''a''])]"
    by (simp add: example_draft_def fields_native_def)
  from C5_create_then_read [OF c e]
  have one: "LogRepository_get_by_id (le_id ?row) (?s\<lparr>db_rows := db_rows ?s @ [?row]\<rparr>) = Inr (Some ?row)"
    and two: "stored_fields ?row
            = Some (Some [(''tags'', JList [JStr ''a'']), (''m'', JDict [(KStr ''1'', JNull)])])"
    by (simp_all add: example_draft_def fields_normal_def show_int_def digit_char_table)
  from C5_create_then_read [OF c2 e, THEN conjunct2, THEN conjunct2, THEN conjunct2,
         THEN conjunct2, rule_format, OF n]
  have three: "stored_fields ?row2 = Some (Some [(''code'', JInt 500), (''tags'', JList [JStr ''a''])])" .
  from one two three show ?thesis
    unfolding c i by simp
qed

section \<open>Emission with persistence (repositories/logger_repository.py)\<close>

lemma Logger_log_disabled:
  "\<not> isEnabledFor lg lvl \<Longrightarrow> Logger_log ctx nm lvl msg extra exc lg = Inr lg"
  by (simp add: Logger_log_def)

lemma Logger_log_no_extra:
  "Logger_log ctx nm lvl msg [] exc lg =
     Inr (if isEnabledFor lg lvl
          then lg\<lparr>lg_handlers :=
                    map (Handler_handle (ctx_now ctx)
                           \<lparr>rec_name = nm, rec_levelno = lvl, rec_levelname = getLevelName lvl,
                            rec_msg = msg, rec_module = ctx_module ctx,
                            rec_funcName = ctx_funcName ctx, rec_lineno = ctx_lineno ctx,
                            rec_pathname = ctx_pathname ctx, rec_created = ctx_created ctx,
                            rec_exc_info = exc, rec_extra_data = None\<rparr>)
                        (lg_handlers lg)\<rparr>
          else lg)"
  by (simp add: Logger_log_def makeRecord_def)

lemma repo_StructuredLogger_method_unfold:
  "repo_StructuredLogger_method L ctx nm message extra_data w =
     (case Logger_log (repo_method_frame L ctx) nm (logging_level L) message
             (case extra_data of None \<Rightarrow> [] | Some d \<Rightarrow> d) None (getLogger (rw_manager w) nm) of
        Inl e \<Rightarrow> Inl e
      | Inr lg \<Rightarrow>
          repo_log_to_db ctx nm L message extra_data
            (w\<lparr>rw_manager := (rw_manager w)(nm \<mapsto> lg)\<rparr>))"
  by (cases L)
     (simp_all add: repo_StructuredLogger_debug_def repo_StructuredLogger_info_def
        repo_StructuredLogger_warning_def repo_StructuredLogger_error_def
        repo_StructuredLogger_critical_def cong: sum.case_cong)

lemma registered_getLogger: "mgr nm = Some lg \<Longrightarrow> getLogger mgr nm = lg"
  by (simp add: getLogger_def)

lemma registered_rebind:
  "rw_manager w nm = Some lg \<Longrightarrow> w\<lparr>rw_manager := (rw_manager w)(nm \<mapsto> lg)\<rparr> = w"
  by (simp add: fun_upd_idem)

text \<open>\<open>_log_to_db\<close> never raises: whatever \<open>create\<close> does, the method returns.\<close>

lemma repo_log_to_db_returns:
  "\<exists>w'. repo_log_to_db ctx nm level message extra_data w = Inr w'"
  by (simp add: repo_log_to_db_def Let_def Logger_log_no_extra split: prod.splits sum.splits)

text \<open>
  C1 fails on the code: the logger \<open>svc\<close> has level \<open>WARNING\<close>, the table is
  empty; \<open>info('ignored')\<close> writes nothing to the sink, and persists a row.
\<close>

theorem C1_counterexample:
  "logging_level INFO
     < getEffectiveLevel (getLogger (rw_manager (example_world 30 (example_session False False))) ''svc'')
   \<and> db_rows (rw_session (example_world 30 (example_session False False))) = []
   \<and> repo_StructuredLogger_method INFO example_ctx ''svc'' ''ignored'' None
        (example_world 30 (example_session False False))
     = Inr (example_world 30
             ((example_session False False)
                \<lparr>db_rows := [repo_db_row example_ctx INFO ''ignored'' None
                               (example_session False False)]\<rparr>))"
  by (simp add: example_world_def example_session_def getLogger_def getEffectiveLevel_def
      repo_StructuredLogger_info_def Logger_log_def isEnabledFor_def repo_log_to_db_def
      LogRepository_create_def repo_extra_data_json_def repo_db_row_def example_ctx_def
      repo_frame_def Let_def)

text \<open>
  C1, amended. For a logger whose effective level is above the level \<open>L1\<close> of the
  method called, the record of the call itself is handed to no sink, but persistence is
  attempted all the same: the call does exactly what \<open>_log_to_db\<close> does. When
  \<open>create\<close> succeeds the row is persisted and every logger and sink is left as it
  was; it succeeds, with exactly one new row carrying the level and message of the call,
  when the fields serialise and the storage layer raises no fault. When \<open>create\<close>
  fails the call still returns, and the one thing handed to a sink is the failure report
  of \<open>_log_to_db\<close>: an \<open>ERROR\<close> record of the same logger, given to its
  handlers when the logger admits \<open>ERROR\<close>, and to none otherwise.
\<close>

theorem C1_gate_covers_sinks_not_persistence:
  assumes "rw_manager w nm = Some lg"
      and "logging_level L1 < getEffectiveLevel lg"
  shows "Logger_log (repo_method_frame L1 ctx) nm (logging_level L1) message
           (case extra_data of None \<Rightarrow> [] | Some d \<Rightarrow> d) None lg = Inr lg
         \<and> repo_StructuredLogger_method L1 ctx nm message extra_data w
           = repo_log_to_db ctx nm L1 message extra_data w
         \<and> (\<forall>blob. repo_extra_data_json extra_data = Inr blob
                \<and> \<not> db_commit_fails (rw_session w) \<and> \<not> db_refresh_fails (rw_session w)
              \<longrightarrow> repo_StructuredLogger_method L1 ctx nm message extra_data w
                    = Inr (w\<lparr>rw_session := (rw_session w)
                             \<lparr>db_rows := db_rows (rw_session w)
                                @ [repo_db_row ctx L1 message blob (rw_session w)]\<rparr>\<rparr>))
         \<and> (\<forall>row s'. LogRepository_create (ctx_timestamp ctx) (ctx_created_at ctx)
                         \<lparr>rc_level = L1, rc_message = message, rc_module = Some (ctx_module ctx),
                          rc_function = Some (ctx_funcName ctx),
                          rc_line_number = Some (ctx_lineno ctx), rc_extra_data = extra_data\<rparr>
                         (rw_session w) = (Inr row, s')
              \<longrightarrow> repo_StructuredLogger_method L1 ctx nm message extra_data w
                    = Inr (w\<lparr>rw_session := s'\<rparr>)
                  \<and> db_rows s' = db_rows (rw_session w) @ [row])
         \<and> (\<forall>e s'. LogRepository_create (ctx_timestamp ctx) (ctx_created_at ctx)
                       \<lparr>rc_level = L1, rc_message = message, rc_module = Some (ctx_module ctx),
                        rc_function = Some (ctx_funcName ctx),
                        rc_line_number = Some (ctx_lineno ctx), rc_extra_data = extra_data\<rparr>
                       (rw_session w) = (Inl e, s')
              \<longrightarrow> repo_StructuredLogger_method L1 ctx nm message extra_data w
                    = Inr (w\<lparr>rw_manager := (rw_manager w)(nm \<mapsto>
                             (if isEnabledFor lg 40
                              then lg\<lparr>lg_handlers :=
                                     map (Handler_handle (ctx_now ctx)
                                            \<lparr>rec_name = nm, rec_levelno = 40,
                                             rec_levelname = getLevelName 40,
                                             rec_msg = ''Failed to log to database: '' @ str_of_error e,
                                             rec_module = ''logger'', rec_funcName = ''_log_to_db'',
                                             rec_lineno = 206, rec_pathname = ''logger.py'',
                                             rec_created = ctx_created ctx,
                                             rec_exc_info = None, rec_extra_data = None\<rparr>)
                                         (lg_handlers lg)\<rparr>
                              else lg)),
                            rw_session := s'\<rparr>))"
proof -
  have off: "\<not> isEnabledFor lg (logging_level L1)"
    using assms(2) by (simp add: isEnabledFor_def)
  have own: "Logger_log (repo_method_frame L1 ctx) nm (logging_level L1) message
               (case extra_data of None \<Rightarrow> [] | Some d \<Rightarrow> d) None lg = Inr lg"
    by (rule Logger_log_disabled [OF off])
  have eq: "repo_StructuredLogger_method L1 ctx nm message extra_data w
              = repo_log_to_db ctx nm L1 message extra_data w"
    using assms(1)
    by (simp add: repo_StructuredLogger_method_unfold getLogger_def
        Logger_log_disabled [OF off] registered_rebind [OF assms(1)])
  have clean: "repo_log_to_db ctx nm L1 message extra_data w
          = Inr (w\<lparr>rw_session := (rw_session w)
                   \<lparr>db_rows := db_rows (rw_session w)
                      @ [repo_db_row ctx L1 message blob (rw_session w)]\<rparr>\<rparr>)"
    if "repo_extra_data_json extra_data = Inr blob"
      and "\<not> db_commit_fails (rw_session w)" and "\<not> db_refresh_fails (rw_session w)" for blob
    using that
    by (simp add: repo_log_to_db_def LogRepository_create_def repo_db_row_def Let_def)
  have stored: "repo_log_to_db ctx nm L1 message extra_data w = Inr (w\<lparr>rw_session := s'\<rparr>)"
    if "LogRepository_create (ctx_timestamp ctx) (ctx_created_at ctx)
          \<lparr>rc_level = L1, rc_message = message, rc_module = Some (ctx_module ctx),
           rc_function = Some (ctx_funcName ctx),
           rc_line_number = Some (ctx_lineno ctx), rc_extra_data = extra_data\<rparr>
          (rw_session w) = (Inr row, s')" for row s'
    using that by (simp add: repo_log_to_db_def Let_def)
  have appended: "db_rows s' = db_rows (rw_session w) @ [row]"
    if "LogRepository_create ts created_at d (rw_session w) = (Inr row, s')"
    for row s' ts created_at d
    using that
    by (cases "repo_extra_data_json (rc_extra_data d)")
       (auto simp: LogRepository_create_def Let_def split: if_splits)
  have failed: "repo_log_to_db ctx nm L1 message extra_data w
                  = Inr (w\<lparr>rw_manager := (rw_manager w)(nm \<mapsto>
                             (if isEnabledFor lg 40
                              then lg\<lparr>lg_handlers :=
                                     map (Handler_handle (ctx_now ctx)
                                            \<lparr>rec_name = nm, rec_levelno = 40,
                                             rec_levelname = getLevelName 40,
                                             rec_msg = ''Failed to log to database: '' @ str_of_error e,
                                             rec_module = ''logger'', rec_funcName = ''_log_to_db'',
                                             rec_lineno = 206, rec_pathname = ''logger.py'',
                                             rec_created = ctx_created ctx,
                                             rec_exc_info = None, rec_extra_data = None\<rparr>)
                                         (lg_handlers lg)\<rparr>
                              else lg)),
                            rw_session := s'\<rparr>)"
    if "LogRepository_create (ctx_timestamp ctx) (ctx_created_at ctx)
          \<lparr>rc_level = L1, rc_message = message, rc_module = Some (ctx_module ctx),
           rc_function = Some (ctx_funcName ctx),
           rc_line_number = Some (ctx_lineno ctx), rc_extra_data = extra_data\<rparr>
          (rw_session w) = (Inl e, s')" for e s'
    using that assms(1)
    by (simp add: repo_log_to_db_def Let_def Logger_log_no_extra getLogger_def repo_frame_def)
  show ?thesis
    unfolding eq
  proof (intro conjI allI impI)
    show "Logger_log (repo_method_frame L1 ctx) nm (logging_level L1) message
            (case extra_data of None \<Rightarrow> [] | Some d \<Rightarrow> d) None lg = Inr lg"
      by (rule own)
  next
    show "repo_log_to_db ctx nm L1 message extra_data w
            = repo_log_to_db ctx nm L1 message extra_data w" ..
  next
    fix blob
    assume "repo_extra_data_json extra_data = Inr blob
              \<and> \<not> db_commit_fails (rw_session w) \<and> \<not> db_refresh_fails (rw_session w)"
    then show "repo_log_to_db ctx nm L1 message extra_data w
          = Inr (w\<lparr>rw_session := (rw_session w)
                   \<lparr>db_rows := db_rows (rw_session w)
                      @ [repo_db_row ctx L1 message blob (rw_session w)]\<rparr>\<rparr>)"
      using clean by blast
  next
    fix row s'
    assume c: "LogRepository_create (ctx_timestamp ctx) (ctx_created_at ctx)
          \<lparr>rc_level = L1, rc_message = message, rc_module = Some (ctx_module ctx),
           rc_function = Some (ctx_funcName ctx),
           rc_line_number = Some (ctx_lineno ctx), rc_extra_data = extra_data\<rparr>
          (rw_session w) = (Inr row, s')"
    show "repo_log_to_db ctx nm L1 message extra_data w = Inr (w\<lparr>rw_session := s'\<rparr>)"
      by (rule stored [OF c])
    show "db_rows s' = db_rows (rw_session w) @ [row]"
      by (rule appended [OF c])
  next
    fix e s'
    assume "LogRepository_create (ctx_timestamp ctx) (ctx_created_at ctx)
          \<lparr>rc_level = L1, rc_message = message, rc_module = Some (ctx_module ctx),
           rc_function = Some (ctx_funcName ctx),
           rc_line_number = Some (ctx_lineno ctx), rc_extra_data = extra_data\<rparr>
          (rw_session w) = (Inl e, s')"
    then show "repo_log_to_db ctx nm L1 message extra_data w
                  = Inr (w\<lparr>rw_manager := (rw_manager w)(nm \<mapsto>
                             (if isEnabledFor lg 40
                              then lg\<lparr>lg_handlers :=
                                     map (Handler_handle (ctx_now ctx)
                                            \<lparr>rec_name = nm, rec_levelno = 40,
                                             rec_levelname = getLevelName 40,
                                             rec_msg = ''Failed to log to database: '' @ str_of_error e,
                                             rec_module = ''logger'', rec_funcName = ''_log_to_db'',
                                             rec_lineno = 206, rec_pathname = ''logger.py'',
                                             rec_created = ctx_created ctx,
                                             rec_exc_info = None, rec_extra_data = None\<rparr>)
                                         (lg_handlers lg)\<rparr>
                              else lg)),
                            rw_session := s'\<rparr>)"
      by (rule failed)
  qed
qed

text \<open>
  Both outcomes at a logger \<open>svc\<close> of level \<open>WARNING\<close>: \<open>debug('quiet')\<close> on a
  sound session persists the row and writes nothing; \<open>info('ignored')\<close> on a session
  whose commit fails persists nothing and writes the failure report, and only it.
\<close>

theorem C1_gate_witness:
  "repo_StructuredLogger_method DEBUG example_ctx ''svc'' ''quiet'' None
     (example_world 30 (example_session False False))
   = Inr (example_world 30
           ((example_session False False)
              \<lparr>db_rows := [repo_db_row example_ctx DEBUG ''quiet'' None
                             (example_session False False)]\<rparr>))
   \<and> repo_StructuredLogger_method INFO example_ctx ''svc'' ''ignored'' None
        (example_world 30 (example_session True False))
     = Inr \<lparr>rw_manager = Map.empty(''svc'' \<mapsto>
              \<lparr>lg_level = 30,
               lg_handlers = [repo_stream_handler
                 \<lparr>h_written := [''2024-01-02 03:04:05,000 - svc - ERROR - _log_to_db:206 - Failed to log to database: Failed to create log entry'']\<rparr>],
               lg_propagate = True\<rparr>),
            rw_session = example_session True False\<rparr>"
proof -
  let ?lg = "\<lparr>lg_level = 30, lg_handlers = [repo_stream_handler], lg_propagate = True\<rparr>"
  let ?w = "example_world 30 (example_session False False)"
  let ?v = "example_world 30 (example_session True False)"
  have a: "rw_manager ?w ''svc'' = Some ?lg" by (simp add: example_world_def)
  have a': "rw_manager ?v ''svc'' = Some ?lg" by (simp add: example_world_def)
  have b: "logging_level DEBUG < getEffectiveLevel ?lg" by (simp add: getEffectiveLevel_def)
  have b': "logging_level INFO < getEffectiveLevel ?lg" by (simp add: getEffectiveLevel_def)
  have c: "repo_extra_data_json None = Inr None" by (simp add: repo_extra_data_json_def)
  have d: "\<not> db_commit_fails (rw_session ?w) \<and> \<not> db_refresh_fails (rw_session ?w)"
    by (simp add: example_world_def example_session_def)
  have f: "LogRepository_create (ctx_timestamp example_ctx) (ctx_created_at example_ctx)
             \<lparr>rc_level = INFO, rc_message = ''ignored'', rc_module = Some (ctx_module example_ctx),
              rc_function = Some (ctx_funcName example_ctx),
              rc_line_number = Some (ctx_lineno example_ctx), rc_extra_data = None\<rparr>
             (rw_session ?v)
           = (Inl (RuntimeError ''Failed to create log entry''), example_session True False)"
    by (simp add: LogRepository_create_def repo_extra_data_json_def example_world_def
        example_session_def Let_def)
  have first: "repo_StructuredLogger_method DEBUG example_ctx ''svc'' ''quiet'' None ?w
          = Inr (?w\<lparr>rw_session := (rw_session ?w)
                   \<lparr>db_rows := db_rows (rw_session ?w)
                      @ [repo_db_row example_ctx DEBUG ''quiet'' None (rw_session ?w)]\<rparr>\<rparr>)"
    using C1_gate_covers_sinks_not_persistence [OF a b, of example_ctx "''quiet''" None] c d
    by (elim conjE allE [of _ "None :: string option"]) simp
  have second: "repo_StructuredLogger_method INFO example_ctx ''svc'' ''ignored'' None ?v
          = Inr (?v\<lparr>rw_manager := (rw_manager ?v)(''svc'' \<mapsto>
                     (if isEnabledFor ?lg 40
                      then ?lg\<lparr>lg_handlers :=
                             map (Handler_handle (ctx_now example_ctx)
                                    \<lparr>rec_name = ''svc'', rec_levelno = 40,
                                     rec_levelname = getLevelName 40,
                                     rec_msg = ''Failed to log to database: ''
                                       @ str_of_error (RuntimeError ''Failed to create log entry''),
                                     rec_module = ''logger'', rec_funcName = ''_log_to_db'',
                                     rec_lineno = 206, rec_pathname = ''logger.py'',
                                     rec_created = ctx_created example_ctx,
                                     rec_exc_info = None, rec_extra_data = None\<rparr>)
                                 (lg_handlers ?lg)\<rparr>
                      else ?lg)),
                    rw_session := example_session True False\<rparr>)"
    using C1_gate_covers_sinks_not_persistence [OF a' b', of example_ctx "''ignored''" None] f
    by (elim conjE allE [of _ "RuntimeError ''Failed to create log entry''"]
          allE [of _ "example_session True False"]) simp
  have first': "repo_StructuredLogger_method DEBUG example_ctx ''svc'' ''quiet'' None ?w
     = Inr (example_world 30
           ((example_session False False)
              \<lparr>db_rows := [repo_db_row example_ctx DEBUG ''quiet'' None
                             (example_session False False)]\<rparr>))"
    unfolding first by (simp add: example_world_def example_session_def)
  have second': "repo_StructuredLogger_method INFO example_ctx ''svc'' ''ignored'' None ?v
     = Inr \<lparr>rw_manager = Map.empty(''svc'' \<mapsto>
              \<lparr>lg_level = 30,
               lg_handlers = [repo_stream_handler
                 \<lparr>h_written := [''2024-01-02 03:04:05,000 - svc - ERROR - _log_to_db:206 - Failed to log to database: Failed to create log entry'']\<rparr>],
               lg_propagate = True\<rparr>),
            rw_session = example_session True False\<rparr>"
    unfolding second
    by (simp add: example_world_def example_session_def isEnabledFor_def getEffectiveLevel_def
        example_ctx_def Handler_handle_def repo_stream_handler_def
        logging_Formatter_format_def getLevelName_def getMessage_def zero_pad_def show_int_def
        digit_char_table replicate_small Let_def)
  show ?thesis by (intro conjI first' second')
qed

text \<open>
  C8 fails on the code, as stated: the logger \<open>svc\<close> has level \<open>CRITICAL\<close> and
  the commit fails. \<open>critical('x')\<close> returns, and no row is written, but the failure
  is reported nowhere: after the call the sink holds the record of \<open>x\<close> and nothing
  else, the report being an \<open>ERROR\<close> record of the same logger.
\<close>

theorem C8_counterexample:
  "repo_StructuredLogger_method CRITICAL example_ctx ''svc'' ''x'' None
     (example_world 50 (example_session True False))
   = Inr \<lparr>rw_manager = Map.empty(''svc'' \<mapsto>
            \<lparr>lg_level = 50,
             lg_handlers = [repo_stream_handler
               \<lparr>h_written := [''2024-01-02 03:04:05,000 - svc - CRITICAL - critical:230 - x'']\<rparr>],
             lg_propagate = True\<rparr>),
          rw_session = example_session True False\<rparr>"
  by (simp add: example_world_def example_session_def getLogger_def getEffectiveLevel_def
      repo_StructuredLogger_critical_def Logger_log_def isEnabledFor_def repo_log_to_db_def
      LogRepository_create_def repo_extra_data_json_def example_ctx_def makeRecord_def
      repo_frame_def Handler_handle_def repo_stream_handler_def logging_Formatter_format_def
      getLevelName_def getMessage_def zero_pad_def show_int_def digit_char_table replicate_small Let_def)

text \<open>
  C8, amended. When the record has reached persistence (the library's logger accepted
  the call) and \<open>create\<close> fails, the emission method returns normally; the failure
  is handed to the \<open>error\<close> method of the same logger, so it is written to the sinks
  that admit \<open>ERROR\<close> when the logger's level admits \<open>ERROR\<close>, and to none
  otherwise; when the failure is a failed commit the table is as it was.
\<close>

theorem C8_storage_failure_absorbed:
  assumes "rw_manager w nm = Some lg"
      and "Logger_log (repo_method_frame L ctx) nm (logging_level L) message
             (case extra_data of None \<Rightarrow> [] | Some d \<Rightarrow> d) None lg = Inr lg1"
      and "LogRepository_create (ctx_timestamp ctx) (ctx_created_at ctx)
             \<lparr>rc_level = L, rc_message = message, rc_module = Some (ctx_module ctx),
              rc_function = Some (ctx_funcName ctx), rc_line_number = Some (ctx_lineno ctx),
              rc_extra_data = extra_data\<rparr> (rw_session w) = (Inl e, s')"
  shows "\<exists>w'. repo_StructuredLogger_method L ctx nm message extra_data w = Inr w'
           \<and> rw_session w' = s'
           \<and> Logger_log (repo_frame ''_log_to_db'' 206 ctx) nm 40
                (''Failed to log to database: '' @ str_of_error e) [] None lg1
               = Inr (getLogger (rw_manager w') nm)
           \<and> (\<not> isEnabledFor lg1 40 \<longrightarrow> getLogger (rw_manager w') nm = lg1)
           \<and> (db_commit_fails (rw_session w) \<longrightarrow> db_rows s' = db_rows (rw_session w))"
proof -
  have g: "getLogger (rw_manager w) nm = lg" using assms(1) by (simp add: getLogger_def)
  obtain lg2 where rep:
    "Logger_log (repo_frame ''_log_to_db'' 206 ctx) nm 40
       (''Failed to log to database: '' @ str_of_error e) [] None lg1 = Inr lg2"
    by (simp add: Logger_log_no_extra)
  have res: "repo_StructuredLogger_method L ctx nm message extra_data w
               = Inr (w\<lparr>rw_manager := (rw_manager w)(nm \<mapsto> lg2), rw_session := s'\<rparr>)"
    using assms rep
    by (simp add: repo_StructuredLogger_method_unfold repo_log_to_db_def Let_def getLogger_def)
  have off: "lg2 = lg1" if "\<not> isEnabledFor lg1 40"
    using rep Logger_log_disabled [OF that] by simp
  have rows: "db_rows s' = db_rows (rw_session w)" if "db_commit_fails (rw_session w)"
    using assms(3) that
    by (auto simp: LogRepository_create_def Let_def split: sum.splits)
  show ?thesis
    using res rep off rows by (simp add: getLogger_def)
qed

theorem C8_storage_failure_witness:
  "\<exists>w'. repo_StructuredLogger_method ERROR example_ctx ''svc'' ''boom'' None
           (example_world 10 (example_session True False)) = Inr w'
       \<and> rw_session w' = example_session True False
       \<and> map h_written (lg_handlers (getLogger (rw_manager w') ''svc''))
           = [[''2024-01-02 03:04:05,000 - svc - ERROR - error:225 - boom'',
               ''2024-01-02 03:04:05,000 - svc - ERROR - _log_to_db:206 - Failed to log to database: Failed to create log entry'']]"
proof -
  let ?w = "example_world 10 (example_session True False)"
  let ?lg = "\<lparr>lg_level = 10, lg_handlers = [repo_stream_handler], lg_propagate = True\<rparr>"
  let ?lg1 = "?lg\<lparr>lg_handlers := [repo_stream_handler
       \<lparr>h_written := [''2024-01-02 03:04:05,000 - svc - ERROR - error:225 - boom'']\<rparr>]\<rparr>"
  have a: "rw_manager ?w ''svc'' = Some ?lg" by (simp add: example_world_def)
  have b: "Logger_log (repo_method_frame ERROR example_ctx) ''svc'' (logging_level ERROR) ''boom''
             (case None of None \<Rightarrow> [] | Some d \<Rightarrow> d) None ?lg = Inr ?lg1"
    by (simp add: Logger_log_def isEnabledFor_def getEffectiveLevel_def makeRecord_def
        example_ctx_def repo_frame_def Handler_handle_def repo_stream_handler_def
        logging_Formatter_format_def getLevelName_def getMessage_def zero_pad_def show_int_def
        digit_char_table replicate_small Let_def)
  have c: "LogRepository_create (ctx_timestamp example_ctx) (ctx_created_at example_ctx)
             \<lparr>rc_level = ERROR, rc_message = ''boom'', rc_module = Some (ctx_module example_ctx),
              rc_function = Some (ctx_funcName example_ctx),
              rc_line_number = Some (ctx_lineno example_ctx), rc_extra_data = None\<rparr>
             (rw_session ?w)
           = (Inl (RuntimeError ''Failed to create log entry''), example_session True False)"
    by (simp add: LogRepository_create_def repo_extra_data_json_def example_world_def
        example_session_def Let_def)
  from C8_storage_failure_absorbed [OF a b c]
  obtain w' where w':
    "repo_StructuredLogger_method ERROR example_ctx ''svc'' ''boom'' None ?w = Inr w'"
    "rw_session w' = example_session True False"
    "Logger_log (repo_frame ''_log_to_db'' 206 example_ctx) ''svc'' 40
       (''Failed to log to database: '' @ str_of_error (RuntimeError ''Failed to create log entry''))
       [] None ?lg1 = Inr (getLogger (rw_manager w') ''svc'')"
    by blast
  have "Logger_log (repo_frame ''_log_to_db'' 206 example_ctx) ''svc'' 40
       (''Failed to log to database: '' @ str_of_error (RuntimeError ''Failed to create log entry''))
       [] None ?lg1
     = Inr (?lg\<lparr>lg_handlers := [repo_stream_handler
       \<lparr>h_written := [''2024-01-02 03:04:05,000 - svc - ERROR - error:225 - boom'',
          ''2024-01-02 03:04:05,000 - svc - ERROR - _log_to_db:206 - Failed to log to database: Failed to create log entry'']\<rparr>]\<rparr>)"
    by (simp add: Logger_log_def isEnabledFor_def getEffectiveLevel_def makeRecord_def
        example_ctx_def repo_frame_def Handler_handle_def repo_stream_handler_def
        logging_Formatter_format_def getLevelName_def getMessage_def zero_pad_def show_int_def
        digit_char_table replicate_small Let_def)
  with w'(3) have "getLogger (rw_manager w') ''svc''
     = ?lg\<lparr>lg_handlers := [repo_stream_handler
       \<lparr>h_written := [''2024-01-02 03:04:05,000 - svc - ERROR - error:225 - boom'',
          ''2024-01-02 03:04:05,000 - svc - ERROR - _log_to_db:206 - Failed to log to database: Failed to create log entry'']\<rparr>]\<rparr>"
    by simp
  then have hw: "map h_written (lg_handlers (getLogger (rw_manager w') ''svc''))
           = [[''2024-01-02 03:04:05,000 - svc - ERROR - error:225 - boom'',
               ''2024-01-02 03:04:05,000 - svc - ERROR - _log_to_db:206 - Failed to log to database: Failed to create log entry'']]"
    by simp
  show ?thesis
    by (rule exI [of _ w']) (intro conjI w'(1) w'(2) hw)
qed

text \<open>
  The other half of the fault model: a \<open>refresh\<close> that fails after the commit makes
  \<open>create\<close> raise although the row is in the table.
\<close>

lemma create_refresh_failure_keeps_row:
  assumes "\<not> db_commit_fails s" and "db_refresh_fails s"
      and "repo_extra_data_json (rc_extra_data d) = Inr blob"
  shows "\<exists>row. LogRepository_create ts created_at d s
           = (Inl (RuntimeError ''Failed to create log entry''), s\<lparr>db_rows := db_rows s @ [row]\<rparr>)"
  using assms by (auto simp: LogRepository_create_def Let_def)

section \<open>The in-memory service (api/logger_router.py)\<close>

subsection \<open>Queries\<close>

lemma py_slice_page:
  assumes "0 \<le> offset" and "0 \<le> limit"
  shows "py_slice xs offset (offset + limit) = take (nat limit) (drop (nat offset) xs)"
proof (cases "offset \<ge> int (length xs)")
  case True
  with assms show ?thesis by (simp add: py_slice_def Let_def min_def)
next
  case False
  show ?thesis
  proof (cases "offset + limit \<le> int (length xs)")
    case True
    with False assms show ?thesis by (simp add: py_slice_def Let_def min_def)
  next
    case over: False
    with False assms have "nat limit \<ge> length (drop (nat offset) xs)" by simp
    then have "take (nat limit) (drop (nat offset) xs) = drop (nat offset) xs" by simp
    moreover from over False assms
    have "py_slice xs offset (offset + limit) = drop (nat offset) xs"
      by (simp add: py_slice_def Let_def min_def nat_diff_distrib)
    ultimately show ?thesis by simp
  qed
qed

lemma router_filters_are_matching:
  "router_get_log_entries q svc =
     py_slice (router_matching q svc) (q_offset q) (q_offset q + q_limit q)"
  by (simp add: router_get_log_entries_def router_matching_def Let_def conj_commute conj_left_commute
      split: option.splits)

text \<open>
  What \<open>get_log_entries\<close> does guarantee, for every store and every validated query:
  at most \<open>limit\<close> entries, all matching, and exactly the first \<open>offset\<close> matching
  entries left out, counted in the order the entries are stored.
\<close>

lemma router_get_log_entries_page:
  assumes "LogQueryParams_init level start_time end_time limit offset = Inr q"
  shows "router_get_log_entries q svc
           = take (nat limit) (drop (nat offset) (router_matching q svc))"
    and "int (length (router_get_log_entries q svc)) \<le> limit"
proof -
  from assms have q: "q_limit q = limit" "q_offset q = offset" and r: "1 \<le> limit" "0 \<le> offset"
    by (auto simp: LogQueryParams_init_def Let_def split: if_splits)
  show p: "router_get_log_entries q svc
           = take (nat limit) (drop (nat offset) (router_matching q svc))"
    using r by (simp add: router_filters_are_matching q py_slice_page)
  show "int (length (router_get_log_entries q svc)) \<le> limit"
    using r unfolding p by simp
qed

text \<open>The service of the example is what two calls of \<open>create_log_entry\<close> leave.\<close>

lemma example_entries_created:
  "router_create_log_entry ''id-2'' (2024, 1, 2, 3, 4, 6, 0) example_ctx
     \<lparr>rtc_level = ERROR, rtc_message = ''second'', rtc_extra_data = None\<rparr>
     (snd (projr (router_create_log_entry ''id-1'' (2024, 1, 2, 3, 4, 5, 0) example_ctx
        \<lparr>rtc_level = ERROR, rtc_message = ''first'', rtc_extra_data = None\<rparr>
        (example_router_world\<lparr>rt_manager := Map.empty(''fastapi-app'' \<mapsto>
            \<lparr>lg_level = 50, lg_handlers = [], lg_propagate = True\<rparr>)\<rparr>))))
   = Inr (example_entry ''id-2'' (2024, 1, 2, 3, 4, 6, 0) ''second'',
          example_router_world
            \<lparr>rt_manager := Map.empty(''fastapi-app'' \<mapsto>
                \<lparr>lg_level = 50, lg_handlers = [], lg_propagate = True\<rparr>),
             rt_service := (rt_service example_router_world)
               \<lparr>ls_log_entries := [example_entry ''id-1'' (2024, 1, 2, 3, 4, 5, 0) ''first'',
                                    example_entry ''id-2'' (2024, 1, 2, 3, 4, 6, 0) ''second'']\<rparr>\<rparr>)"
  by (simp add: router_create_log_entry_def router_StructuredLogger_log_def Let_def
      example_router_world_def example_config_def example_entry_def py_upper_def
      logging_getattr_def Logger_log_def isEnabledFor_def getEffectiveLevel_def getLogger_def)

text \<open>
  C4 fails on the code of \<open>get_log_entries\<close>: with the two entries of the example in
  the store, created at 03:04:05 and 03:04:06, the query for level \<open>ERROR\<close> with
  \<open>limit=100\<close> and \<open>offset=0\<close> returns the older entry first.
\<close>

theorem C4_in_memory_query_is_oldest_first:
  "LogQueryParams_init (Some ERROR) None None 100 0 = Inr example_query
   \<and> map rr_timestamp
       (router_get_log_entries example_query
          ((rt_service example_router_world)
             \<lparr>ls_log_entries := [example_entry ''id-1'' (2024, 1, 2, 3, 4, 5, 0) ''first'',
                                  example_entry ''id-2'' (2024, 1, 2, 3, 4, 6, 0) ''second'']\<rparr>))
     = [(2024, 1, 2, 3, 4, 5, 0), (2024, 1, 2, 3, 4, 6, 0)]
   \<and> (2024, 1, 2, 3, 4, 5, 0) < ((2024, 1, 2, 3, 4, 6, 0) :: datetime)"
  by (simp add: LogQueryParams_init_def example_query_def router_get_log_entries_def Let_def
      py_slice_def example_entry_def example_router_world_def)

subsection \<open>Reconfiguration\<close>

lemma py_upper_LogLevel_value: "py_upper (LogLevel_value l) = LogLevel_value l"
  by (cases l) (simp_all add: py_upper_def)

lemma logging_getattr_LogLevel_value:
  "logging_getattr (LogLevel_value l) = Inr (logging_level l)"
  by (cases l) (simp_all add: logging_getattr_def)

lemma LogLevel_of_string_value: "LogLevel_of_string (LogLevel_value l) = Inr l"
  by (cases l) (simp_all add: LogLevel_of_string_def)

text \<open>
  The constructor of the wrapper, when the level name is known: the logger gets the
  level and a new console handler; the file handler is added when the file opens, and
  the constructor raises, after the handlers were replaced, when it does not.
\<close>

lemma router_StructuredLogger_init_cases:
  assumes "logging_getattr (py_upper level) = Inr lvl"
  shows "router_StructuredLogger_init can_open nm level log_file mgr =
     (if (\<exists>path. log_file = Some path \<and> path \<noteq> [] \<and> \<not> can_open path)
      then (Some (OSError (the log_file)),
            mgr(nm \<mapsto> (getLogger mgr nm)\<lparr>lg_level := lvl, lg_handlers := [router_console_handler]\<rparr>))
      else (None,
            mgr(nm \<mapsto> (getLogger mgr nm)
                  \<lparr>lg_level := lvl,
                   lg_handlers := router_console_handler #
                     (case log_file of None \<Rightarrow> []
                      | Some path \<Rightarrow> if path = [] then [] else [router_file_handler path])\<rparr>)))"
  using assms
  by (auto simp: router_StructuredLogger_init_def Let_def split: option.splits)

lemma router_StructuredLogger_init_level_value:
  "router_StructuredLogger_init can_open nm (LogLevel_value l) log_file mgr =
     (if (\<exists>path. log_file = Some path \<and> path \<noteq> [] \<and> \<not> can_open path)
      then (Some (OSError (the log_file)),
            mgr(nm \<mapsto> (getLogger mgr nm)\<lparr>lg_level := logging_level l,
                                            lg_handlers := [router_console_handler]\<rparr>))
      else (None,
            mgr(nm \<mapsto> (getLogger mgr nm)
                  \<lparr>lg_level := logging_level l,
                   lg_handlers := router_console_handler #
                     (case log_file of None \<Rightarrow> []
                      | Some path \<Rightarrow> if path = [] then [] else [router_file_handler path])\<rparr>)))"
  by (rule router_StructuredLogger_init_cases)
     (simp add: py_upper_LogLevel_value logging_getattr_LogLevel_value)

lemma router_StructuredLogger_init_ok_handlers:
  assumes "router_StructuredLogger_init can_open nm level (Some path) mgr = (None, mgr')"
  shows "lg_handlers (getLogger mgr' nm)
           = router_console_handler # (if path = [] then [] else [router_file_handler path])"
  using assms
  by (auto simp: router_StructuredLogger_init_def Let_def getLogger_def
      split: sum.splits if_splits)

lemma router_StructuredLogger_init_ok_level:
  assumes "router_StructuredLogger_init can_open nm (LogLevel_value l) log_file mgr = (None, mgr')"
  shows "lg_level (getLogger mgr' nm) = logging_level l"
  using assms
  by (auto simp: router_StructuredLogger_init_level_value getLogger_def split: if_splits)

text \<open>The state after the first step of \<open>update_logger_config\<close>.\<close>

lemma router_update_level_only:
  assumes "cu_log_file cu = None"
  shows "router_update_logger_config can_open cu w =
     (case cu_log_level cu of
        None \<Rightarrow> (router_get_logger_config w, w)
      | Some l \<Rightarrow>
          (let w1 = w\<lparr>rt_service := (rt_service w)\<lparr>ls_config := (ls_config (rt_service w))\<lparr>cfg_log_level := LogLevel_value l\<rparr>\<rparr>,
                      rt_manager := (rt_manager w)(ls_logger (rt_service w) \<mapsto>
                         (getLogger (rt_manager w) (ls_logger (rt_service w)))\<lparr>lg_level := logging_level l\<rparr>)\<rparr>
           in (router_get_logger_config w1, w1)))"
  using assms by (simp add: router_update_logger_config_def Let_def split: option.splits)

text \<open>
  C9 fails on the code. The service of the example logs to \<open>/var/log/app.log\<close> at
  level \<open>INFO\<close>. A request for level \<open>DEBUG\<close> and a file that cannot be opened
  raises \<open>OSError\<close>, and the prior configuration is not in effect any more: the
  configuration object holds the new level and the new file, the logger has the level
  \<open>DEBUG\<close>, and its file handler is gone.
\<close>

theorem C9_counterexample:
  "router_update_logger_config example_can_open
     \<lparr>cu_log_level = Some DEBUG, cu_log_file = Some ''/nonexistent/app.log''\<rparr>
     example_router_world
   = (Inl (OSError ''/nonexistent/app.log''),
      \<lparr>rt_manager = Map.empty(''fastapi-app'' \<mapsto>
         \<lparr>lg_level = 10, lg_handlers = [router_console_handler], lg_propagate = True\<rparr>),
       rt_service = \<lparr>ls_config = \<lparr>cfg_log_level = ''DEBUG'',
                                   cfg_log_file = Some ''/nonexistent/app.log'',
                                   cfg_app_name = ''fastapi-app''\<rparr>,
                      ls_logger = ''fastapi-app'', ls_log_entries = []\<rparr>\<rparr>)
   \<and> ls_config (rt_service example_router_world)
       = \<lparr>cfg_log_level = ''INFO'', cfg_log_file = Some ''/var/log/app.log'',
          cfg_app_name = ''fastapi-app''\<rparr>
   \<and> lg_handlers (getLogger (rt_manager example_router_world) ''fastapi-app'')
       = [router_console_handler, router_file_handler ''/var/log/app.log'']"
  by (simp add: router_update_logger_config_def example_router_world_def example_config_def
      example_can_open_def Let_def getLogger_def
      router_StructuredLogger_init_level_value [of _ _ DEBUG, simplified])

text \<open>
  C9, amended: reconfiguration is applied step by step and is not undone. When the call
  returns a response, every requested field is in effect: the configuration and the
  logger have the requested level, the configuration has the requested file, and the
  handlers of the logger are the rebuilt ones (a console handler, and a handler for
  the file unless the path is empty). Whether the call returns or raises, the
  configuration object holds every requested field afterwards. When the file of the
  request cannot be opened, the call raises and the changes made before stay: the
  configuration holds the requested file and the level in force, which is the requested
  level or, for a request without level, the level it had; the exception is the
  \<open>OSError\<close> of the open, and the logger has the level in force and a new console
  handler as its only handler. The one exception is a request without level on a
  configuration whose level name is not a level of the library: then the constructor
  raises the \<open>AttributeError\<close> of the lookup before it touches the handlers.
\<close>

theorem C9_reconfigure_step_by_step:
  "(\<forall>resp w'. router_update_logger_config can_open cu w = (Inr resp, w') \<longrightarrow>
      (\<forall>l. cu_log_level cu = Some l \<longrightarrow>
          cfg_log_level (ls_config (rt_service w')) = LogLevel_value l
          \<and> lg_level (getLogger (rt_manager w') (ls_logger (rt_service w'))) = logging_level l)
      \<and> (\<forall>path. cu_log_file cu = Some path \<longrightarrow>
          cfg_log_file (ls_config (rt_service w')) = Some path
          \<and> lg_handlers (getLogger (rt_manager w') (ls_logger (rt_service w')))
              = router_console_handler # (if path = [] then [] else [router_file_handler path])))
   \<and> (\<forall>r w'. router_update_logger_config can_open cu w = (r, w') \<longrightarrow>
        ls_config (rt_service w')
          = (case cu_log_file cu of
               None \<Rightarrow>
                 (case cu_log_level cu of
                    None \<Rightarrow> ls_config (rt_service w)
                  | Some l \<Rightarrow> (ls_config (rt_service w))\<lparr>cfg_log_level := LogLevel_value l\<rparr>)
             | Some path \<Rightarrow>
                 (case cu_log_level cu of
                    None \<Rightarrow> (ls_config (rt_service w))\<lparr>cfg_log_file := Some path\<rparr>
                  | Some l \<Rightarrow> (ls_config (rt_service w))\<lparr>cfg_log_level := LogLevel_value l,
                                                            cfg_log_file := Some path\<rparr>)))
   \<and> (\<forall>path. cu_log_file cu = Some path \<and> path \<noteq> [] \<and> \<not> can_open path \<longrightarrow>
        (\<exists>e w'. router_update_logger_config can_open cu w = (Inl e, w')
           \<and> (\<forall>l. cu_log_level cu = Some l \<longrightarrow>
                 e = OSError path
                 \<and> ls_config (rt_service w')
                     = (ls_config (rt_service w))\<lparr>cfg_log_level := LogLevel_value l,
                                                   cfg_log_file := Some path\<rparr>
                 \<and> lg_level (getLogger (rt_manager w') (cfg_app_name (ls_config (rt_service w))))
                     = logging_level l
                 \<and> lg_handlers (getLogger (rt_manager w') (cfg_app_name (ls_config (rt_service w))))
                     = [router_console_handler])
           \<and> (cu_log_level cu = None \<longrightarrow>
                 ls_config (rt_service w') = (ls_config (rt_service w))\<lparr>cfg_log_file := Some path\<rparr>
                 \<and> (case logging_getattr (py_upper (cfg_log_level (ls_config (rt_service w)))) of
                      Inr n \<Rightarrow>
                        e = OSError path
                        \<and> lg_level (getLogger (rt_manager w') (cfg_app_name (ls_config (rt_service w)))) = n
                        \<and> lg_handlers (getLogger (rt_manager w') (cfg_app_name (ls_config (rt_service w))))
                            = [router_console_handler]
                    | Inl e' \<Rightarrow>
                        e = e'
                        \<and> getLogger (rt_manager w') (cfg_app_name (ls_config (rt_service w)))
                            = getLogger (rt_manager w) (cfg_app_name (ls_config (rt_service w)))))))"
proof -
  define w1 where "w1 =
    (case cu_log_level cu of
       None \<Rightarrow> w
     | Some l \<Rightarrow>
         w\<lparr>rt_service := (rt_service w)\<lparr>ls_config := (ls_config (rt_service w))\<lparr>cfg_log_level := LogLevel_value l\<rparr>\<rparr>,
           rt_manager := (rt_manager w)(ls_logger (rt_service w) \<mapsto>
              (getLogger (rt_manager w) (ls_logger (rt_service w)))\<lparr>lg_level := logging_level l\<rparr>)\<rparr>)"
  define config2 where "config2 = (\<lambda>path. (ls_config (rt_service w1))\<lparr>cfg_log_file := Some path\<rparr>)"
  have none: "router_update_logger_config can_open cu w = (router_get_logger_config w1, w1)"
    if "cu_log_file cu = None"
    using that
    by (simp add: router_update_logger_config_def w1_def Let_def split: option.splits)
  have some: "router_update_logger_config can_open cu w =
     (case router_StructuredLogger_init can_open (cfg_app_name (ls_config (rt_service w1)))
             (cfg_log_level (ls_config (rt_service w1))) (Some path) (rt_manager w1) of
        (Some e, mgr') \<Rightarrow>
          (Inl e, w1\<lparr>rt_manager := mgr', rt_service := (rt_service w1)\<lparr>ls_config := config2 path\<rparr>\<rparr>)
      | (None, mgr') \<Rightarrow>
          (let w3 = w1\<lparr>rt_manager := mgr',
                       rt_service := (rt_service w1)\<lparr>ls_config := config2 path,
                                                      ls_logger := cfg_app_name (ls_config (rt_service w1))\<rparr>\<rparr>
           in (router_get_logger_config w3, w3)))"
    if "cu_log_file cu = Some path" for path
    using that
    by (simp add: router_update_logger_config_def w1_def config2_def Let_def
        split: option.splits prod.splits)
  have w1_level: "cfg_log_level (ls_config (rt_service w1)) = LogLevel_value l"
    and w1_logger: "lg_level (getLogger (rt_manager w1) (ls_logger (rt_service w1))) = logging_level l"
    and w1_name: "cfg_app_name (ls_config (rt_service w1)) = cfg_app_name (ls_config (rt_service w))"
    and w1_config: "ls_config (rt_service w1)
                      = (ls_config (rt_service w))\<lparr>cfg_log_level := LogLevel_value l\<rparr>"
    if "cu_log_level cu = Some l" for l
    using that by (simp_all add: w1_def getLogger_def)
  have w1_same: "w1 = w" if "cu_log_level cu = None"
    using that by (simp add: w1_def)
  have a: "cfg_log_level (ls_config (rt_service w')) = LogLevel_value l
           \<and> lg_level (getLogger (rt_manager w') (ls_logger (rt_service w'))) = logging_level l"
    if r: "router_update_logger_config can_open cu w = (Inr resp, w')"
      and l: "cu_log_level cu = Some l" for resp w' l
  proof (cases "cu_log_file cu")
    case None
    with r none have "w' = w1" by simp
    then show ?thesis using w1_level [OF l] w1_logger [OF l] by simp
  next
    case (Some path)
    obtain err mgr' where init:
      "router_StructuredLogger_init can_open (cfg_app_name (ls_config (rt_service w1)))
         (LogLevel_value l) (Some path) (rt_manager w1) = (err, mgr')"
      by (cases "router_StructuredLogger_init can_open (cfg_app_name (ls_config (rt_service w1)))
         (LogLevel_value l) (Some path) (rt_manager w1)")
    from r some [OF Some] init have e: "err = None"
      by (cases err) (simp_all add: w1_level [OF l] Let_def)
    from r some [OF Some] init e
    have w': "w' = w1\<lparr>rt_manager := mgr',
                      rt_service := (rt_service w1)\<lparr>ls_config := config2 path,
                                               ls_logger := cfg_app_name (ls_config (rt_service w1))\<rparr>\<rparr>"
      by (simp add: w1_level [OF l] Let_def)
    have "lg_level (getLogger mgr' (cfg_app_name (ls_config (rt_service w1)))) = logging_level l"
      using init e by (simp add: router_StructuredLogger_init_ok_level)
    then show ?thesis
      by (simp add: w' config2_def w1_level [OF l])
  qed
  have b: "cfg_log_file (ls_config (rt_service w')) = Some path
           \<and> lg_handlers (getLogger (rt_manager w') (ls_logger (rt_service w')))
               = router_console_handler # (if path = [] then [] else [router_file_handler path])"
    if r: "router_update_logger_config can_open cu w = (Inr resp, w')"
      and p: "cu_log_file cu = Some path" for resp w' path
  proof -
    obtain err mgr' where init:
      "router_StructuredLogger_init can_open (cfg_app_name (ls_config (rt_service w1)))
         (cfg_log_level (ls_config (rt_service w1))) (Some path) (rt_manager w1) = (err, mgr')"
      by (cases "router_StructuredLogger_init can_open (cfg_app_name (ls_config (rt_service w1)))
         (cfg_log_level (ls_config (rt_service w1))) (Some path) (rt_manager w1)")
    from r some [OF p] init have e: "err = None"
      by (cases err) (simp_all add: Let_def)
    from r some [OF p] init e
    have w': "w' = w1\<lparr>rt_manager := mgr',
                      rt_service := (rt_service w1)\<lparr>ls_config := config2 path,
                                               ls_logger := cfg_app_name (ls_config (rt_service w1))\<rparr>\<rparr>"
      by (simp add: Let_def)
    have "lg_handlers (getLogger mgr' (cfg_app_name (ls_config (rt_service w1))))
            = router_console_handler # (if path = [] then [] else [router_file_handler path])"
      using init e by (simp add: router_StructuredLogger_init_ok_handlers)
    then show ?thesis
      by (simp add: w' config2_def)
  qed
  have cfg1: "ls_config (rt_service w1)
                = (case cu_log_level cu of
                     None \<Rightarrow> ls_config (rt_service w)
                   | Some l \<Rightarrow> (ls_config (rt_service w))\<lparr>cfg_log_level := LogLevel_value l\<rparr>)"
    by (simp add: w1_def split: option.splits)
  have cfg: "ls_config (rt_service w')
          = (case cu_log_file cu of
               None \<Rightarrow>
                 (case cu_log_level cu of
                    None \<Rightarrow> ls_config (rt_service w)
                  | Some l \<Rightarrow> (ls_config (rt_service w))\<lparr>cfg_log_level := LogLevel_value l\<rparr>)
             | Some path \<Rightarrow>
                 (case cu_log_level cu of
                    None \<Rightarrow> (ls_config (rt_service w))\<lparr>cfg_log_file := Some path\<rparr>
                  | Some l \<Rightarrow> (ls_config (rt_service w))\<lparr>cfg_log_level := LogLevel_value l,
                                                            cfg_log_file := Some path\<rparr>))"
    if r: "router_update_logger_config can_open cu w = (r, w')" for r w'
  proof (cases "cu_log_file cu")
    case None
    with r none have "w' = w1" by simp
    then show ?thesis using None cfg1 by simp
  next
    case (Some path)
    obtain err mgr' where init:
      "router_StructuredLogger_init can_open (cfg_app_name (ls_config (rt_service w1)))
         (cfg_log_level (ls_config (rt_service w1))) (Some path) (rt_manager w1) = (err, mgr')"
      by (cases "router_StructuredLogger_init can_open (cfg_app_name (ls_config (rt_service w1)))
         (cfg_log_level (ls_config (rt_service w1))) (Some path) (rt_manager w1)")
    from r some [OF Some] init have "ls_config (rt_service w') = config2 path"
      by (cases err) (auto simp: Let_def)
    then show ?thesis
      using Some by (simp add: config2_def cfg1 split: option.splits)
  qed
  have c: "\<exists>e w'. router_update_logger_config can_open cu w = (Inl e, w')
           \<and> (\<forall>l. cu_log_level cu = Some l \<longrightarrow>
                 e = OSError path
                 \<and> ls_config (rt_service w')
                     = (ls_config (rt_service w))\<lparr>cfg_log_level := LogLevel_value l,
                                                   cfg_log_file := Some path\<rparr>
                 \<and> lg_level (getLogger (rt_manager w') (cfg_app_name (ls_config (rt_service w))))
                     = logging_level l
                 \<and> lg_handlers (getLogger (rt_manager w') (cfg_app_name (ls_config (rt_service w))))
                     = [router_console_handler])
           \<and> (cu_log_level cu = None \<longrightarrow>
                 ls_config (rt_service w') = (ls_config (rt_service w))\<lparr>cfg_log_file := Some path\<rparr>
                 \<and> (case logging_getattr (py_upper (cfg_log_level (ls_config (rt_service w)))) of
                      Inr n \<Rightarrow>
                        e = OSError path
                        \<and> lg_level (getLogger (rt_manager w') (cfg_app_name (ls_config (rt_service w)))) = n
                        \<and> lg_handlers (getLogger (rt_manager w') (cfg_app_name (ls_config (rt_service w))))
                            = [router_console_handler]
                    | Inl e' \<Rightarrow>
                        e = e'
                        \<and> getLogger (rt_manager w') (cfg_app_name (ls_config (rt_service w)))
                            = getLogger (rt_manager w) (cfg_app_name (ls_config (rt_service w)))))"
    if h: "cu_log_file cu = Some path \<and> path \<noteq> [] \<and> \<not> can_open path" for path
  proof (cases "cu_log_level cu")
    case (Some l)
    from h have p: "cu_log_file cu = Some path"
      and bad: "path \<noteq> []" "\<not> can_open path" by simp_all
    let ?nm = "cfg_app_name (ls_config (rt_service w))"
    let ?mgr' = "(rt_manager w1)(?nm \<mapsto> (getLogger (rt_manager w1) ?nm)
                   \<lparr>lg_level := logging_level l, lg_handlers := [router_console_handler]\<rparr>)"
    have init: "router_StructuredLogger_init can_open ?nm (LogLevel_value l) (Some path) (rt_manager w1)
                  = (Some (OSError path), ?mgr')"
      using bad by (simp add: router_StructuredLogger_init_level_value)
    have res: "router_update_logger_config can_open cu w =
                 (Inl (OSError path),
                  w1\<lparr>rt_manager := ?mgr', rt_service := (rt_service w1)\<lparr>ls_config := config2 path\<rparr>\<rparr>)"
      using init by (simp add: some [OF p] w1_level [OF Some] w1_name [OF Some])
    show ?thesis
      unfolding res
      by (rule exI [of _ "OSError path"],
          rule exI [of _ "w1\<lparr>rt_manager := ?mgr', rt_service := (rt_service w1)\<lparr>ls_config := config2 path\<rparr>\<rparr>"])
         (simp add: Some config2_def w1_config [OF Some] getLogger_def)
  next
    case None
    from h have p: "cu_log_file cu = Some path"
      and bad: "path \<noteq> []" "\<not> can_open path" by simp_all
    let ?nm = "cfg_app_name (ls_config (rt_service w))"
    let ?level = "cfg_log_level (ls_config (rt_service w))"
    show ?thesis
    proof (cases "logging_getattr (py_upper ?level)")
      case (Inr n)
      let ?mgr' = "(rt_manager w)(?nm \<mapsto> (getLogger (rt_manager w) ?nm)
                     \<lparr>lg_level := n, lg_handlers := [router_console_handler]\<rparr>)"
      have init: "router_StructuredLogger_init can_open ?nm ?level (Some path) (rt_manager w)
                    = (Some (OSError path), ?mgr')"
        using bad by (simp add: router_StructuredLogger_init_cases [OF Inr])
      have res: "router_update_logger_config can_open cu w =
                   (Inl (OSError path),
                    w\<lparr>rt_manager := ?mgr', rt_service := (rt_service w)\<lparr>ls_config := config2 path\<rparr>\<rparr>)"
        using init some [OF p] by (simp add: w1_same [OF None])
      show ?thesis
        unfolding res
        by (rule exI [of _ "OSError path"],
            rule exI [of _ "w\<lparr>rt_manager := ?mgr', rt_service := (rt_service w)\<lparr>ls_config := config2 path\<rparr>\<rparr>"])
           (simp add: None Inr config2_def w1_same [OF None] getLogger_def)
    next
      case (Inl e')
      let ?mgr' = "(rt_manager w)(?nm \<mapsto> getLogger (rt_manager w) ?nm)"
      have init: "router_StructuredLogger_init can_open ?nm ?level (Some path) (rt_manager w)
                    = (Some e', ?mgr')"
        using Inl by (simp add: router_StructuredLogger_init_def Let_def)
      have res: "router_update_logger_config can_open cu w =
                   (Inl e',
                    w\<lparr>rt_manager := ?mgr', rt_service := (rt_service w)\<lparr>ls_config := config2 path\<rparr>\<rparr>)"
        using init some [OF p] by (simp add: w1_same [OF None])
      show ?thesis
        unfolding res
        by (rule exI [of _ e'],
            rule exI [of _ "w\<lparr>rt_manager := ?mgr', rt_service := (rt_service w)\<lparr>ls_config := config2 path\<rparr>\<rparr>"])
           (simp add: None Inl config2_def w1_same [OF None] getLogger_def)
    qed
  qed
  show ?thesis
  proof (intro conjI allI impI)
    fix resp w' l
    assume "router_update_logger_config can_open cu w = (Inr resp, w')" "cu_log_level cu = Some l"
    from a [OF this]
    show "cfg_log_level (ls_config (rt_service w')) = LogLevel_value l"
      and "lg_level (getLogger (rt_manager w') (ls_logger (rt_service w'))) = logging_level l"
      by simp_all
  next
    fix resp w' path
    assume "router_update_logger_config can_open cu w = (Inr resp, w')" "cu_log_file cu = Some path"
    from b [OF this]
    show "cfg_log_file (ls_config (rt_service w')) = Some path"
      and "lg_handlers (getLogger (rt_manager w') (ls_logger (rt_service w')))
             = router_console_handler # (if path = [] then [] else [router_file_handler path])"
      by simp_all
  next
    fix r w'
    assume "router_update_logger_config can_open cu w = (r, w')"
    then show "ls_config (rt_service w')
          = (case cu_log_file cu of
               None \<Rightarrow>
                 (case cu_log_level cu of
                    None \<Rightarrow> ls_config (rt_service w)
                  | Some l \<Rightarrow> (ls_config (rt_service w))\<lparr>cfg_log_level := LogLevel_value l\<rparr>)
             | Some path \<Rightarrow>
                 (case cu_log_level cu of
                    None \<Rightarrow> (ls_config (rt_service w))\<lparr>cfg_log_file := Some path\<rparr>
                  | Some l \<Rightarrow> (ls_config (rt_service w))\<lparr>cfg_log_level := LogLevel_value l,
                                                            cfg_log_file := Some path\<rparr>))"
      by (rule cfg)
  next
    fix path
    assume "cu_log_file cu = Some path \<and> path \<noteq> [] \<and> \<not> can_open path"
    then show "\<exists>e w'. router_update_logger_config can_open cu w = (Inl e, w')
           \<and> (\<forall>l. cu_log_level cu = Some l \<longrightarrow>
                 e = OSError path
                 \<and> ls_config (rt_service w')
                     = (ls_config (rt_service w))\<lparr>cfg_log_level := LogLevel_value l,
                                                   cfg_log_file := Some path\<rparr>
                 \<and> lg_level (getLogger (rt_manager w') (cfg_app_name (ls_config (rt_service w))))
                     = logging_level l
                 \<and> lg_handlers (getLogger (rt_manager w') (cfg_app_name (ls_config (rt_service w))))
                     = [router_console_handler])
           \<and> (cu_log_level cu = None \<longrightarrow>
                 ls_config (rt_service w') = (ls_config (rt_service w))\<lparr>cfg_log_file := Some path\<rparr>
                 \<and> (case logging_getattr (py_upper (cfg_log_level (ls_config (rt_service w)))) of
                      Inr n \<Rightarrow>
                        e = OSError path
                        \<and> lg_level (getLogger (rt_manager w') (cfg_app_name (ls_config (rt_service w)))) = n
                        \<and> lg_handlers (getLogger (rt_manager w') (cfg_app_name (ls_config (rt_service w))))
                            = [router_console_handler]
                    | Inl e' \<Rightarrow>
                        e = e'
                        \<and> getLogger (rt_manager w') (cfg_app_name (ls_config (rt_service w)))
                            = getLogger (rt_manager w) (cfg_app_name (ls_config (rt_service w)))))"
      by (rule c)
  qed
qed

text \<open>
  Two requests on the service of the example, whose file \<open>/tmp/none.log\<close> cannot be
  opened: one with the level \<open>WARNING\<close>, one without level.
\<close>

theorem C9_reconfigure_witness:
  "(\<exists>w'. router_update_logger_config example_can_open
            \<lparr>cu_log_level = Some WARNING, cu_log_file = Some ''/tmp/none.log''\<rparr>
            example_router_world = (Inl (OSError ''/tmp/none.log''), w')
        \<and> ls_config (rt_service w')
            = \<lparr>cfg_log_level = ''WARNING'', cfg_log_file = Some ''/tmp/none.log'',
               cfg_app_name = ''fastapi-app''\<rparr>
        \<and> lg_level (getLogger (rt_manager w') ''fastapi-app'') = 30
        \<and> lg_handlers (getLogger (rt_manager w') ''fastapi-app'') = [router_console_handler])
   \<and> (\<exists>w'. router_update_logger_config example_can_open
            \<lparr>cu_log_level = None, cu_log_file = Some ''/tmp/none.log''\<rparr>
            example_router_world = (Inl (OSError ''/tmp/none.log''), w')
        \<and> ls_config (rt_service w')
            = \<lparr>cfg_log_level = ''INFO'', cfg_log_file = Some ''/tmp/none.log'',
               cfg_app_name = ''fastapi-app''\<rparr>
        \<and> lg_level (getLogger (rt_manager w') ''fastapi-app'') = 20
        \<and> lg_handlers (getLogger (rt_manager w') ''fastapi-app'') = [router_console_handler])
   \<and> \<not> example_can_open ''/tmp/none.log''"
proof -
  have n: "\<not> example_can_open ''/tmp/none.log''" by (simp add: example_can_open_def)
  have pre: "cu_log_file \<lparr>cu_log_level = Some WARNING, cu_log_file = Some ''/tmp/none.log''\<rparr>
            = Some ''/tmp/none.log''
        \<and> ''/tmp/none.log'' \<noteq> [] \<and> \<not> example_can_open ''/tmp/none.log''"
    using n by simp
  have pre': "cu_log_file \<lparr>cu_log_level = None, cu_log_file = Some ''/tmp/none.log''\<rparr>
            = Some ''/tmp/none.log''
        \<and> ''/tmp/none.log'' \<noteq> [] \<and> \<not> example_can_open ''/tmp/none.log''"
    using n by simp
  have info: "logging_getattr (py_upper ''INFO'') = Inr 20"
    by (simp add: logging_getattr_def py_upper_def)
  note first = C9_reconfigure_step_by_step
         [of example_can_open
             "\<lparr>cu_log_level = Some WARNING, cu_log_file = Some ''/tmp/none.log''\<rparr>"
             example_router_world, THEN conjunct2, THEN conjunct2, rule_format, OF pre]
  note second = C9_reconfigure_step_by_step
         [of example_can_open
             "\<lparr>cu_log_level = None, cu_log_file = Some ''/tmp/none.log''\<rparr>"
             example_router_world, THEN conjunct2, THEN conjunct2, rule_format, OF pre']
  have one: "\<exists>w'. router_update_logger_config example_can_open
            \<lparr>cu_log_level = Some WARNING, cu_log_file = Some ''/tmp/none.log''\<rparr>
            example_router_world = (Inl (OSError ''/tmp/none.log''), w')
        \<and> ls_config (rt_service w')
            = \<lparr>cfg_log_level = ''WARNING'', cfg_log_file = Some ''/tmp/none.log'',
               cfg_app_name = ''fastapi-app''\<rparr>
        \<and> lg_level (getLogger (rt_manager w') ''fastapi-app'') = 30
        \<and> lg_handlers (getLogger (rt_manager w') ''fastapi-app'') = [router_console_handler]"
    using first by (simp add: example_router_world_def example_config_def)
  have two: "\<exists>w'. router_update_logger_config example_can_open
            \<lparr>cu_log_level = None, cu_log_file = Some ''/tmp/none.log''\<rparr>
            example_router_world = (Inl (OSError ''/tmp/none.log''), w')
        \<and> ls_config (rt_service w')
            = \<lparr>cfg_log_level = ''INFO'', cfg_log_file = Some ''/tmp/none.log'',
               cfg_app_name = ''fastapi-app''\<rparr>
        \<and> lg_level (getLogger (rt_manager w') ''fastapi-app'') = 20
        \<and> lg_handlers (getLogger (rt_manager w') ''fastapi-app'') = [router_console_handler]"
    using second info by (simp add: example_router_world_def example_config_def)
  show ?thesis by (intro conjI one two n)
qed

section \<open>The registry (services/logger_service.py)\<close>

lemma svc_LoggerService_init_name:
  "svc_LoggerService_init can_open nm config mgr = (Inr obj, mgr') \<Longrightarrow> so_name obj = nm"
  by (auto simp: svc_LoggerService_init_def Let_def split: prod.splits option.splits)

lemma create_logger_registered:
  "sw_instances w nm = Some ref \<Longrightarrow>
   LoggerFactory_create_logger can_open nm config w = (Inr ref, w)"
  by (simp add: LoggerFactory_create_logger_def)

lemma create_logger_result:
  "LoggerFactory_create_logger can_open nm config w = (Inr r, w1) \<Longrightarrow>
   sw_instances w1 nm = Some r"
  by (auto simp: LoggerFactory_create_logger_def split: option.splits prod.splits sum.splits)

lemma create_logger_mono:
  "sw_instances w nm = Some r \<Longrightarrow>
   sw_instances (snd (LoggerFactory_create_logger can_open nm' config w)) nm = Some r"
  by (auto simp: LoggerFactory_create_logger_def split: option.splits prod.splits sum.splits)

lemma create_logger_inv:
  assumes "registry_inv w"
  shows "registry_inv (snd (LoggerFactory_create_logger can_open nm config w))"
proof (cases "sw_instances w nm")
  case (Some ref)
  with assms show ?thesis by (simp add: LoggerFactory_create_logger_def)
next
  case None
  show ?thesis
  proof (cases "svc_LoggerService_init can_open nm config (sw_manager w)")
    case (Pair res mgr')
    show ?thesis
    proof (cases res)
      case (Inl e)
      with None Pair assms show ?thesis
        by (simp add: LoggerFactory_create_logger_def registry_inv_def)
    next
      case (Inr obj)
      with Pair have nm: "so_name obj = nm" by (simp add: svc_LoggerService_init_name)
      have fresh: "sw_heap w (sw_next_ref w) = None"
      proof (rule ccontr)
        assume "sw_heap w (sw_next_ref w) \<noteq> None"
        then obtain o' where "sw_heap w (sw_next_ref w) = Some o'" by auto
        with assms have "sw_instances w (so_name o') = Some (sw_next_ref w)"
          by (simp add: registry_inv_def)
        with assms have "sw_next_ref w < sw_next_ref w"
          unfolding registry_inv_def by blast
        then show False by simp
      qed
      from assms None fresh nm show ?thesis
        unfolding registry_inv_def LoggerFactory_create_logger_def
        by (auto simp: Pair Inr less_Suc_eq) (metis option.distinct(1))
    qed
  qed
qed

lemma run_calls_inv:
  "registry_inv w \<Longrightarrow> registry_inv (snd (svc_run_calls can_open calls w))"
proof (induction calls arbitrary: w)
  case Nil
  then show ?case by simp
next
  case (Cons c calls)
  from Cons.IH [OF create_logger_inv [OF Cons.prems, of can_open "fst c" "snd c"]]
  show ?case by (simp add: case_prod_beta)
qed

lemma run_calls_mono:
  "sw_instances w nm = Some r \<Longrightarrow>
   sw_instances (snd (svc_run_calls can_open calls w)) nm = Some r"
proof (induction calls arbitrary: w)
  case Nil
  then show ?case by simp
next
  case (Cons c calls)
  from Cons.IH [OF create_logger_mono [OF Cons.prems, of can_open "fst c" "snd c"]]
  show ?case by (simp add: case_prod_beta)
qed

lemma run_calls_results:
  assumes "svc_run_calls can_open calls w = (results, w')"
  shows "length results = length calls
         \<and> (\<forall>i < length calls. \<forall>r. results ! i = Inr r \<longrightarrow>
               sw_instances w' (fst (calls ! i)) = Some r)"
  using assms
proof (induction calls arbitrary: w results)
  case Nil
  then show ?case by simp
next
  case (Cons c calls)
  obtain r0 w1 where c1: "LoggerFactory_create_logger can_open (fst c) (snd c) w = (r0, w1)"
    by (cases "LoggerFactory_create_logger can_open (fst c) (snd c) w")
  obtain rs w2 where c2: "svc_run_calls can_open calls w1 = (rs, w2)"
    by (cases "svc_run_calls can_open calls w1")
  from Cons.prems c1 c2 have res: "results = r0 # rs" and w': "w2 = w'" by simp_all
  note ih = Cons.IH [OF c2 [unfolded w']]
  have "sw_instances w' (fst ((c # calls) ! i)) = Some r"
    if "i < length (c # calls)" and "results ! i = Inr r" for i r
  proof (cases i)
    case 0
    with that res have "r0 = Inr r" by simp
    with c1 have "sw_instances w1 (fst c) = Some r" by (simp add: create_logger_result)
    from run_calls_mono [OF this, of can_open calls] c2 show ?thesis
      by (simp add: 0 w')
  next
    case (Suc k)
    with that res ih show ?thesis by simp
  qed
  with ih res show ?case by simp
qed

lemma registry_inv_initial: "registry_inv (svc_initial mgr)"
  by (simp add: registry_inv_def svc_initial_def)

text \<open>
  The registry of \<open>LoggerFactory\<close> holds at most one instance per name. A call of
  \<open>create_logger\<close> with a name that is registered returns the registered instance
  (the same reference) and changes nothing, whatever configuration it is given; and in
  every sequence of calls from the empty registry, two calls with the same name that
  return return the same reference, and no two instances the factory has made carry
  the same name.
\<close>

theorem LoggerFactory_one_instance_per_name:
  "(\<forall>ref. sw_instances w nm = Some ref \<longrightarrow>
       LoggerFactory_create_logger can_open nm config w = (Inr ref, w))
   \<and> (\<forall>results w'. svc_run_calls can_open calls (svc_initial mgr) = (results, w') \<longrightarrow>
        (\<forall>i j r1 r2. i < length calls \<and> j < length calls
              \<and> fst (calls ! i) = fst (calls ! j)
              \<and> results ! i = Inr r1 \<and> results ! j = Inr r2 \<longrightarrow> r1 = r2)
        \<and> (\<forall>r1 r2 o1 o2. sw_heap w' r1 = Some o1 \<and> sw_heap w' r2 = Some o2
              \<and> so_name o1 = so_name o2 \<longrightarrow> r1 = r2))"
proof (intro conjI allI impI)
  fix ref
  assume "sw_instances w nm = Some ref"
  then show "LoggerFactory_create_logger can_open nm config w = (Inr ref, w)"
    by (rule create_logger_registered)
next
  fix results w' i j r1 r2
  assume run: "svc_run_calls can_open calls (svc_initial mgr) = (results, w')"
     and h: "i < length calls \<and> j < length calls \<and> fst (calls ! i) = fst (calls ! j)
             \<and> results ! i = Inr r1 \<and> results ! j = Inr r2"
  from run_calls_results [OF run]
  have all: "\<forall>i < length calls. \<forall>r. results ! i = Inr r \<longrightarrow>
               sw_instances w' (fst (calls ! i)) = Some r" by (rule conjunct2)
  from h all [rule_format, of i r1] have "sw_instances w' (fst (calls ! i)) = Some r1" by simp
  moreover from h all [rule_format, of j r2] have "sw_instances w' (fst (calls ! j)) = Some r2"
    by simp
  ultimately show "r1 = r2" using h by simp
next
  fix results w' r1 r2 o1 o2
  assume run: "svc_run_calls can_open calls (svc_initial mgr) = (results, w')"
     and h: "sw_heap w' r1 = Some o1 \<and> sw_heap w' r2 = Some o2 \<and> so_name o1 = so_name o2"
  from run_calls_inv [OF registry_inv_initial, of can_open calls mgr] run
  have "registry_inv w'" by simp
  then have reg: "\<And>r obj. sw_heap w' r = Some obj \<Longrightarrow> sw_instances w' (so_name obj) = Some r"
    unfolding registry_inv_def by blast
  from h reg [of r1 o1] reg [of r2 o2] show "r1 = r2" by simp
qed

text \<open>
  Three calls of \<open>create_logger\<close>: the third, with the name of the first and another
  configuration, returns the instance of the first, whose configuration is unchanged;
  and so does a fourth.
\<close>

theorem LoggerFactory_example_calls:
  "fst (svc_run_calls (\<lambda>path. True) example_calls (svc_initial Map.empty))
     = [Inr 0, Inr 1, Inr 0]
   \<and> sw_heap (snd (svc_run_calls (\<lambda>path. True) example_calls (svc_initial Map.empty))) 0
     = Some \<lparr>so_name = ''app'', so_config = \<lparr>sc_level = Some 10, sc_file_path = None\<rparr>\<rparr>
   \<and> LoggerFactory_create_logger (\<lambda>path. True) ''app''
        (Some \<lparr>sc_level = Some 50, sc_file_path = None\<rparr>)
        (snd (svc_run_calls (\<lambda>path. True) example_calls (svc_initial Map.empty)))
     = (Inr 0, snd (svc_run_calls (\<lambda>path. True) example_calls (svc_initial Map.empty)))"
proof -
  let ?run = "svc_run_calls (\<lambda>path. True) example_calls (svc_initial Map.empty)"
  have step: "LoggerFactory_create_logger can_open nm config w =
      (case sw_instances w nm of
        Some ref \<Rightarrow> (Inr ref, w)
      | None \<Rightarrow>
          (case svc_LoggerService_init can_open nm config (sw_manager w) of
             (Inl e, mgr') \<Rightarrow> (Inl e, w\<lparr>sw_manager := mgr'\<rparr>)
           | (Inr obj, mgr') \<Rightarrow>
               (Inr (sw_next_ref w),
                w\<lparr>sw_manager := mgr',
                  sw_instances := (sw_instances w)(nm \<mapsto> sw_next_ref w),
                  sw_heap := (sw_heap w)(sw_next_ref w \<mapsto> obj),
                  sw_next_ref := Suc (sw_next_ref w)\<rparr>)))" for can_open nm config w
    by (rule LoggerFactory_create_logger_def)
  have r: "fst ?run = [Inr 0, Inr 1, Inr 0]"
    by (simp add: example_calls_def svc_initial_def step svc_LoggerService_init_def
        svc_setup_logger_def svc_empty_config_def getLogger_def new_PyLogger_def Let_def)
  have h: "sw_heap (snd ?run) 0
             = Some \<lparr>so_name = ''app'', so_config = \<lparr>sc_level = Some 10, sc_file_path = None\<rparr>\<rparr>"
    by (simp add: example_calls_def svc_initial_def step svc_LoggerService_init_def
        svc_setup_logger_def svc_empty_config_def getLogger_def new_PyLogger_def Let_def)
  have i: "sw_instances (snd ?run) ''app'' = Some 0"
    by (simp add: example_calls_def svc_initial_def step svc_LoggerService_init_def
        svc_setup_logger_def svc_empty_config_def getLogger_def new_PyLogger_def Let_def)
  from LoggerFactory_one_instance_per_name
         [of "snd ?run" "''app''" "\<lambda>path. True" "Some \<lparr>sc_level = Some 50, sc_file_path = None\<rparr>",
          THEN conjunct1, rule_format, OF i]
  have "LoggerFactory_create_logger (\<lambda>path. True) ''app''
          (Some \<lparr>sc_level = Some 50, sc_file_path = None\<rparr>) (snd ?run) = (Inr 0, snd ?run)" .
  with r h show ?thesis by simp
qed

section \<open>\<open>get_logger\<close> of the repository module\<close>

text \<open>
  \<open>LoggerService.get_logger\<close> of \<open>repositories/logger_repository.py\<close> keeps no
  registry. The library's logger registered under the name is configured on the first
  call only, and a repeated call leaves it, and the whole registry of the library, as
  it is; but every call allocates a new \<open>StructuredLogger\<close>, so no two calls return
  the same instance, whatever the names.
\<close>

lemma repo_get_logger_repeat:
  "rh_world (snd (repo_LoggerService_get_logger nm (snd (repo_LoggerService_get_logger nm h))))
     = rh_world (snd (repo_LoggerService_get_logger nm h))"
proof -
  have "repo_configure_logger (repo_configure_logger lg) = repo_configure_logger lg" for lg
    by (simp add: repo_configure_logger_def)
  then show ?thesis
    by (simp add: repo_LoggerService_get_logger_def repo_StructuredLogger_init_def getLogger_def)
qed

lemma repo_get_logger_fresh:
  "fst (repo_LoggerService_get_logger nm2 (snd (repo_LoggerService_get_logger nm1 h)))
     = Suc (fst (repo_LoggerService_get_logger nm1 h))"
  by (simp add: repo_LoggerService_get_logger_def)

lemma repo_get_logger_allocates:
  "rh_objects (snd (repo_LoggerService_get_logger nm h)) (fst (repo_LoggerService_get_logger nm h))
     = Some \<lparr>sl_logger = nm\<rparr>"
  by (simp add: repo_LoggerService_get_logger_def)

text \<open>
  C7 fails on \<open>LoggerService.get_logger\<close> of the repository module. In a process
  that has made no logger yet, \<open>get_logger('app')\<close> returns the instance at
  reference 0, and the repeat call \<open>get_logger('app')\<close> the instance at reference 1:
  not the instance returned before. Afterwards two instances of the name \<open>app\<close>
  exist, around the one logger of the library that the second call left as the first
  had configured it.
\<close>

theorem C7_get_logger_returns_new_instance:
  "repo_LoggerService_get_logger ''app'' example_heap
     = (0, \<lparr>rh_world = \<lparr>rw_manager = Map.empty(''app'' \<mapsto>
                           \<lparr>lg_level = 10, lg_handlers = [repo_stream_handler],
                            lg_propagate = True\<rparr>),
                         rw_session = example_session False False\<rparr>,
            rh_objects = Map.empty(0 \<mapsto> \<lparr>sl_logger = ''app''\<rparr>),
            rh_next_ref = 1\<rparr>)
   \<and> repo_LoggerService_get_logger ''app'' (snd (repo_LoggerService_get_logger ''app'' example_heap))
     = (1, \<lparr>rh_world = \<lparr>rw_manager = Map.empty(''app'' \<mapsto>
                           \<lparr>lg_level = 10, lg_handlers = [repo_stream_handler],
                            lg_propagate = True\<rparr>),
                         rw_session = example_session False False\<rparr>,
            rh_objects = Map.empty(0 \<mapsto> \<lparr>sl_logger = ''app''\<rparr>, 1 \<mapsto> \<lparr>sl_logger = ''app''\<rparr>),
            rh_next_ref = 2\<rparr>)"
  by (simp add: repo_LoggerService_get_logger_def example_heap_def repo_StructuredLogger_init_def
      repo_configure_logger_def getLogger_def new_PyLogger_def repo_stream_handler_def)

section \<open>Record construction (models/logger.py)\<close>

lemma py_strip_replicate_nonspace:
  "\<not> py_isspace c \<Longrightarrow> py_strip (replicate n c) = replicate n c"
  by (simp add: py_strip_def)

lemma length_py_strip_le: "length (py_strip s) \<le> length s"
proof -
  have "length (py_strip s) \<le> length (dropWhile py_isspace s)"
    unfolding py_strip_def
    using length_dropWhile_le [of py_isspace "rev (dropWhile py_isspace s)"] by simp
  also have "\<dots> \<le> length s" by (rule length_dropWhile_le)
  finally show ?thesis .
qed

lemma check_message_Inr_iff:
  "(\<exists>v. check_message raw = Inr v) \<longleftrightarrow> py_strip raw \<noteq> [] \<and> length raw \<le> 1000"
  by (auto simp: check_message_def validate_message_def py_strip_def split: sum.splits)

lemma check_message_Inr_value:
  "check_message raw = Inr v \<Longrightarrow> v = py_strip raw"
  by (auto simp: check_message_def validate_message_def split: if_splits sum.splits)

text \<open>
  C6, as the claim states it, fails: a message of 1001 letters is not empty after
  trimming, and its construction is rejected all the same (the length constraint of
  the field).
\<close>

theorem C6_counterexample:
  "py_strip (replicate 1001 (CHR ''a'')) \<noteq> []
   \<and> models_LogEntryCreate_init INFO (replicate 1001 (CHR ''a'')) None None None
       = Inl (ValidationError [''message''])"
proof -
  have ns: "\<not> py_isspace (CHR ''a'')" by (simp add: py_isspace_def)
  have "py_strip (replicate 1001 (CHR ''a'')) = replicate 1001 (CHR ''a'')"
    using ns by (rule py_strip_replicate_nonspace)
  moreover have "check_message (replicate 1001 (CHR ''a'')) = Inl [''message'']"
    by (simp add: check_message_def)
  ultimately show ?thesis
    by (simp add: models_LogEntryCreate_init_def check_max_length_def check_ge_def)
qed

text \<open>
  C6, amended: with the other fields valid, construction fails (with a validation
  error) if and only if the message is empty after trimming or the message as passed is
  longer than 1000; when construction succeeds the stored message is the trimmed input,
  at most 1000 long.
\<close>

theorem C6_message_validation:
  assumes "check_max_length ''module'' 100 modl = []"
      and "check_max_length ''function'' 100 func = []"
      and "check_ge ''line_number'' 1 line = []"
  shows "((\<exists>errs. models_LogEntryCreate_init lvl raw modl func line = Inl (ValidationError errs))
            \<longleftrightarrow> py_strip raw = [] \<or> length raw > 1000)
         \<and> (\<forall>r. models_LogEntryCreate_init lvl raw modl func line = Inr r
               \<longrightarrow> mc_message r = py_strip raw \<and> length (mc_message r) \<le> 1000)"
proof (cases "check_message raw")
  case (Inl errs)
  then have "\<not> (\<exists>v. check_message raw = Inr v)" by simp
  then have "py_strip raw = [] \<or> length raw > 1000"
    unfolding check_message_Inr_iff by auto
  with Inl show ?thesis
    by (simp add: models_LogEntryCreate_init_def)
next
  case (Inr v)
  then have ok: "py_strip raw \<noteq> [] \<and> length raw \<le> 1000"
    using check_message_Inr_iff [of raw] by blast
  have v: "v = py_strip raw" using Inr by (rule check_message_Inr_value)
  have "length (py_strip raw) \<le> 1000"
    using ok length_py_strip_le [of raw] by linarith
  with Inr ok v assms show ?thesis
    by (auto simp: models_LogEntryCreate_init_def)
qed

theorem C6_message_validation_witness:
  "models_LogEntryCreate_init INFO ''  boom  '' None None None
     = Inr \<lparr>mc_level = INFO, mc_message = ''boom'', mc_module = None,
            mc_function = None, mc_line_number = None\<rparr>
   \<and> py_strip ''  boom  '' = ''boom''
   \<and> (\<exists>errs. models_LogEntryCreate_init INFO ''   '' None None None = Inl (ValidationError errs))"
proof -
  have a: "check_max_length ''module'' 100 None = []" by (simp add: check_max_length_def)
  have b: "check_max_length ''function'' 100 None = []" by (simp add: check_max_length_def)
  have c: "check_ge ''line_number'' 1 None = []" by (simp add: check_ge_def)
  have s1: "py_strip ''  boom  '' = ''boom''" by (simp add: py_strip_def py_isspace_def)
  have s2: "py_strip ''   '' = []" by (simp add: py_strip_def py_isspace_def)
  have r1: "models_LogEntryCreate_init INFO ''  boom  '' None None None
     = Inr \<lparr>mc_level = INFO, mc_message = ''boom'', mc_module = None,
            mc_function = None, mc_line_number = None\<rparr>"
    by (simp add: models_LogEntryCreate_init_def check_message_def validate_message_def
        check_max_length_def check_ge_def s1)
  from C6_message_validation [OF a b c, of INFO "''   ''"] s2
  have "\<exists>errs. models_LogEntryCreate_init INFO ''   '' None None None = Inl (ValidationError errs)"
    by simp
  with r1 s1 show ?thesis by simp
qed

end
